theory Spec2Isabelle
  imports Complex_Main
begin

section \<open>Python values\<close>

text \<open>
  Collected items are Python dictionaries from strings to arbitrary values
  (\<^verbatim>\<open>Dict[str, Any]\<close>).  The values that the validators, the pipeline and the
  storage layer inspect are modelled by \<open>pyval\<close>.  Floats are idealised as reals (no
  rounding, no NaN); a string is a list of characters and \<open>len\<close> counts them.  A
  \<open>datetime\<close> object is identified with the instant (seconds since the epoch) that
  it denotes once a naive value is read as UTC, which is what
  \<^verbatim>\<open>dt.replace(tzinfo=timezone.utc)\<close> does in \<^verbatim>\<open>_check_timeliness\<close>.
  A dictionary is an association list; lookup takes the first binding of a key.
\<close>

datatype pyval =
    PNone
  | PBool bool
  | PInt int
  | PFloat real
  | PStr string
  | PList "pyval list"
  | PDict "(string \<times> pyval) list"
  | PDatetime real

type_synonym pydict = "(string \<times> pyval) list"

text \<open>A raised exception: its class name (\<^verbatim>\<open>type(e).__name__\<close>) and \<^verbatim>\<open>str(e)\<close>.\<close>

datatype exn = Exn (exn_type: string) (exn_msg: string)

text \<open>\<^verbatim>\<open>bool(v)\<close>, as used by \<^verbatim>\<open>if v\<close>, \<^verbatim>\<open>not v\<close> and \<^verbatim>\<open>a or b\<close>.\<close>

fun py_truthy :: "pyval \<Rightarrow> bool" where
  "py_truthy PNone = False"
| "py_truthy (PBool b) = b"
| "py_truthy (PInt i) = (i \<noteq> 0)"
| "py_truthy (PFloat r) = (r \<noteq> 0)"
| "py_truthy (PStr s) = (s \<noteq> [])"
| "py_truthy (PList xs) = (xs \<noteq> [])"
| "py_truthy (PDict d) = (d \<noteq> [])"
| "py_truthy (PDatetime t) = True"

fun py_type_name :: "pyval \<Rightarrow> string" where
  "py_type_name PNone = ''NoneType''"
| "py_type_name (PBool b) = ''bool''"
| "py_type_name (PInt i) = ''int''"
| "py_type_name (PFloat r) = ''float''"
| "py_type_name (PStr s) = ''str''"
| "py_type_name (PList xs) = ''list''"
| "py_type_name (PDict d) = ''dict''"
| "py_type_name (PDatetime t) = ''datetime.datetime''"

text \<open>\<^verbatim>\<open>len(v)\<close>: defined on strings, lists and dictionaries, a \<^verbatim>\<open>TypeError\<close> otherwise.\<close>

fun py_len :: "pyval \<Rightarrow> exn + nat" where
  "py_len (PStr s) = Inr (length s)"
| "py_len (PList xs) = Inr (length xs)"
| "py_len (PDict d) = Inr (length d)"
| "py_len v = Inl (Exn ''TypeError'' (''object of type '' @ [CHR 0x27] @ py_type_name v @ [CHR 0x27] @ '' has no len()''))"

text \<open>\<^verbatim>\<open>isinstance\<close> tests; \<^verbatim>\<open>bool\<close> is a subclass of \<^verbatim>\<open>int\<close>.\<close>

fun is_str :: "pyval \<Rightarrow> bool" where
  "is_str (PStr s) = True"
| "is_str v = False"

fun is_int :: "pyval \<Rightarrow> bool" where
  "is_int (PInt i) = True"
| "is_int (PBool b) = True"
| "is_int v = False"

fun is_int_or_float :: "pyval \<Rightarrow> bool" where
  "is_int_or_float (PInt i) = True"
| "is_int_or_float (PBool b) = True"
| "is_int_or_float (PFloat r) = True"
| "is_int_or_float v = False"

definition is_str_or_int :: "pyval \<Rightarrow> bool" where
  "is_str_or_int v = (is_str v \<or> is_int v)"

text \<open>The numeric value of an \<^verbatim>\<open>int\<close>, \<^verbatim>\<open>bool\<close> or \<^verbatim>\<open>float\<close>.\<close>

fun py_number :: "pyval \<Rightarrow> real option" where
  "py_number (PInt i) = Some (real_of_int i)"
| "py_number (PBool b) = Some (if b then 1 else 0)"
| "py_number (PFloat r) = Some r"
| "py_number v = None"

text \<open>\<^verbatim>\<open>isinstance(v, (int, float)) and v >= 0\<close>.\<close>

definition is_nonneg_number :: "pyval \<Rightarrow> bool" where
  "is_nonneg_number v = (case py_number v of Some r \<Rightarrow> 0 \<le> r | None \<Rightarrow> False)"

text \<open>\<^verbatim>\<open>isinstance(v, str) and v.startswith('http')\<close>.\<close>

fun is_http_str :: "pyval \<Rightarrow> bool" where
  "is_http_str (PStr s) = (take 4 s = ''http'')"
| "is_http_str v = False"

text \<open>\<^verbatim>\<open>k in d\<close> and \<^verbatim>\<open>d.get(k)\<close> / \<^verbatim>\<open>d.get(k, default)\<close>.\<close>

definition py_in :: "string \<Rightarrow> pydict \<Rightarrow> bool" where
  "py_in k d = (map_of d k \<noteq> None)"

definition py_get :: "pydict \<Rightarrow> string \<Rightarrow> pyval \<Rightarrow> pyval" where
  "py_get d k dflt = (case map_of d k of Some v \<Rightarrow> v | None \<Rightarrow> dflt)"

section \<open>Data quality validation (\<^verbatim>\<open>src/storage/data_quality.py\<close>)\<close>

record DataQualityResult =
  is_valid :: bool
  quality_score :: real
  validation_errors :: "string list"
  warnings :: "string list"
  validation_timestamp :: real

text \<open>\<^verbatim>\<open>self.thresholds['completeness']\<close>, the only threshold the validators read.\<close>

definition completeness_threshold :: real where
  "completeness_threshold = 8 / 10"

definition reddit_required_fields :: "string list" where
  "reddit_required_fields = [''id'', ''title'', ''author'', ''score'', ''created_utc'']"

definition reddit_optional_fields :: "string list" where
  "reddit_optional_fields = [''selftext'', ''url'', ''subreddit'', ''num_comments'']"

definition news_required_fields :: "string list" where
  "news_required_fields = [''id'', ''title'', ''url'', ''source_name'', ''published_at'']"

definition news_optional_fields :: "string list" where
  "news_optional_fields = [''description'', ''content'', ''author'', ''image_url'']"

definition twitter_required_fields :: "string list" where
  "twitter_required_fields = [''id'', ''text'', ''created_at'', ''author_id'']"

definition twitter_optional_fields :: "string list" where
  "twitter_optional_fields = [''retweet_count'', ''like_count'', ''reply_count'', ''quote_count'']"

subsection \<open>Completeness\<close>

text \<open>\<^verbatim>\<open>field in data and data[field] is not None\<close>.\<close>

definition field_present :: "pydict \<Rightarrow> string \<Rightarrow> bool" where
  "field_present data field =
     (case map_of data field of None \<Rightarrow> False | Some v \<Rightarrow> v \<noteq> PNone)"

definition check_completeness :: "pydict \<Rightarrow> string list \<Rightarrow> string list \<Rightarrow> real" where
  "check_completeness data required_fields optional_fields =
     (if data = [] then 0
      else
        let required_present = length (filter (field_present data) required_fields);
            required_total = length required_fields;
            optional_present = length (filter (field_present data) optional_fields);
            optional_total = length optional_fields;
            required_score = (if required_total > 0
                              then real required_present / real required_total else 0);
            optional_score = (if optional_total > 0
                              then real optional_present / real optional_total else 0)
        in (required_score * (7 / 10)) + (optional_score * (3 / 10)))"

subsection \<open>Type and content checks\<close>

text \<open>
  Each checker keeps two local counters, \<^verbatim>\<open>score\<close> and \<^verbatim>\<open>checks\<close>, and returns
  \<^verbatim>\<open>score / checks if checks > 0 else 0.0\<close>.  A tally is that pair of counters.
\<close>

type_synonym tally = "real \<times> nat"

definition tally_ratio :: "tally \<Rightarrow> real" where
  "tally_ratio t = (if snd t > 0 then fst t / real (snd t) else 0)"

text \<open>
  \<^verbatim>\<open>if k in data: (if ok(data[k]): score += 1.0); checks += 1\<close>
\<close>

definition type_check :: "pydict \<Rightarrow> string \<Rightarrow> (pyval \<Rightarrow> bool) \<Rightarrow> tally \<Rightarrow> tally" where
  "type_check data k ok t =
     (case map_of data k of
        None \<Rightarrow> t
      | Some v \<Rightarrow> (if ok v then fst t + 1 else fst t, snd t + 1))"

text \<open>
  \<^verbatim>\<open>if k in data and data[k]: n = len(data[k]); (if lo <= n <= hi: score += 1.0); checks += 1\<close>
  where \<open>hi = None\<close> stands for a test without upper bound.  \<^verbatim>\<open>len\<close> raises on a
  truthy value that has no length.
\<close>

definition length_check ::
  "pydict \<Rightarrow> string \<Rightarrow> nat \<Rightarrow> nat option \<Rightarrow> tally \<Rightarrow> exn + tally" where
  "length_check data k lo hi t =
     (case map_of data k of
        None \<Rightarrow> Inr t
      | Some v \<Rightarrow>
          if py_truthy v then
            (case py_len v of
               Inl e \<Rightarrow> Inl e
             | Inr n \<Rightarrow>
                 Inr (if lo \<le> n \<and> (case hi of None \<Rightarrow> True | Some h \<Rightarrow> n \<le> h)
                      then fst t + 1 else fst t, snd t + 1))
          else Inr t)"

definition metric_fields :: "string list" where
  "metric_fields = [''retweet_count'', ''like_count'', ''reply_count'', ''quote_count'']"

definition check_reddit_data_types :: "pydict \<Rightarrow> real" where
  "check_reddit_data_types data =
     tally_ratio
       (type_check data ''created_utc'' is_int_or_float
         (type_check data ''score'' is_int_or_float
           (type_check data ''id'' is_str_or_int (0, 0))))"

definition check_news_data_types :: "pydict \<Rightarrow> real" where
  "check_news_data_types data =
     tally_ratio
       (type_check data ''published_at'' is_str
         (type_check data ''url'' is_http_str
           (type_check data ''id'' is_str_or_int (0, 0))))"

definition check_twitter_data_types :: "pydict \<Rightarrow> real" where
  "check_twitter_data_types data =
     tally_ratio
       (foldl (\<lambda>t metric. type_check data metric is_int_or_float t)
         (type_check data ''text'' is_str
           (type_check data ''id'' is_str (0, 0)))
         metric_fields)"

definition check_reddit_content_quality :: "pydict \<Rightarrow> exn + real" where
  "check_reddit_content_quality data =
     (case length_check data ''title'' 5 (Some 300) (0, 0) of
        Inl e \<Rightarrow> Inl e
      | Inr t \<Rightarrow> Inr (tally_ratio (type_check data ''score'' is_nonneg_number t)))"

definition check_news_content_quality :: "pydict \<Rightarrow> exn + real" where
  "check_news_content_quality data =
     (case length_check data ''title'' 10 (Some 200) (0, 0) of
        Inl e \<Rightarrow> Inl e
      | Inr t \<Rightarrow>
          (case length_check data ''description'' 20 None t of
             Inl e \<Rightarrow> Inl e
           | Inr t' \<Rightarrow> Inr (tally_ratio t')))"

definition check_twitter_content_quality :: "pydict \<Rightarrow> exn + real" where
  "check_twitter_content_quality data =
     (case length_check data ''text'' 1 (Some 280) (0, 0) of
        Inl e \<Rightarrow> Inl e
      | Inr t \<Rightarrow>
          Inr (tally_ratio
                (foldl (\<lambda>t metric. type_check data metric is_nonneg_number t) t metric_fields)))"

subsection \<open>Timeliness\<close>

text \<open>
  The clock and the two standard-library conversions that \<^verbatim>\<open>_check_timeliness\<close>
  calls.  \<open>fromtimestamp x\<close> is the instant obtained by reading the naive local time
  \<^verbatim>\<open>datetime.fromtimestamp(x)\<close> as UTC (\<open>None\<close> when the call raises, as it does
  for out-of-range values); \<open>fromisoformat s\<close> is the instant denoted by
  \<^verbatim>\<open>datetime.fromisoformat(s)\<close>, a naive result again read as UTC (\<open>None\<close> when
  the string does not parse).
\<close>

record clock =
  utc_now :: real
  fromtimestamp :: "real \<Rightarrow> real option"
  fromisoformat :: "string \<Rightarrow> real option"

text \<open>\<^verbatim>\<open>timestamp.replace('Z', '+00:00')\<close>.\<close>

definition replace_Z :: "string \<Rightarrow> string" where
  "replace_Z s = concat (map (\<lambda>c. if c = CHR ''Z'' then ''+00:00'' else [c]) s)"

text \<open>
  The body of the \<^verbatim>\<open>try\<close> block up to the normalised \<^verbatim>\<open>dt\<close>; \<open>None\<close> when it
  raises.  A value that is neither a number, a string nor a datetime has no
  \<^verbatim>\<open>tzinfo\<close> attribute, so \<^verbatim>\<open>dt.tzinfo\<close> raises \<^verbatim>\<open>AttributeError\<close>.
\<close>

fun timestamp_to_datetime :: "clock \<Rightarrow> pyval \<Rightarrow> real option" where
  "timestamp_to_datetime c (PInt i) = fromtimestamp c (real_of_int i)"
| "timestamp_to_datetime c (PBool b) = fromtimestamp c (if b then 1 else 0)"
| "timestamp_to_datetime c (PFloat r) = fromtimestamp c r"
| "timestamp_to_datetime c (PStr s) = fromisoformat c (replace_Z s)"
| "timestamp_to_datetime c (PDatetime t) = Some t"
| "timestamp_to_datetime c v = None"

definition age_score :: "real \<Rightarrow> real" where
  "age_score age_hours =
     (if age_hours \<le> 1 then 1
      else if age_hours \<le> 24 then 9 / 10
      else if age_hours \<le> 168 then 7 / 10
      else 5 / 10)"

definition check_timeliness :: "clock \<Rightarrow> pyval \<Rightarrow> real" where
  "check_timeliness c timestamp =
     (if \<not> py_truthy timestamp then 0
      else
        (case timestamp_to_datetime c timestamp of
           None \<Rightarrow> 5 / 10
         | Some dt \<Rightarrow> age_score ((utc_now c - dt) / 3600)))"

subsection \<open>The three validators\<close>

text \<open>
  The common tail of the three \<^verbatim>\<open>validate_*_data\<close> methods: the mean of the four
  sub-scores and the validity test, or the \<^verbatim>\<open>except\<close> branch when a check raised.
  The local list \<^verbatim>\<open>errors\<close> is still empty when \<^verbatim>\<open>is_valid\<close> is computed.
\<close>

definition quality_result ::
  "clock \<Rightarrow> real \<Rightarrow> real \<Rightarrow> exn + real \<Rightarrow> real \<Rightarrow> DataQualityResult" where
  "quality_result c completeness_score type_score content timeliness_score =
     (case content of
        Inr content_score \<Rightarrow>
          let score = (completeness_score + type_score + content_score + timeliness_score) / 4
          in \<lparr> is_valid = (score \<ge> completeness_threshold \<and> length ([] :: string list) = 0),
               quality_score = score,
               validation_errors = [],
               warnings = [],
               validation_timestamp = utc_now c \<rparr>
      | Inl e \<Rightarrow>
          \<lparr> is_valid = False,
            quality_score = 0,
            validation_errors = [''Validation error: '' @ exn_msg e],
            warnings = [],
            validation_timestamp = utc_now c \<rparr>)"

definition validate_reddit_data :: "clock \<Rightarrow> pydict \<Rightarrow> DataQualityResult" where
  "validate_reddit_data c data =
     quality_result c
       (check_completeness data reddit_required_fields reddit_optional_fields)
       (check_reddit_data_types data)
       (check_reddit_content_quality data)
       (check_timeliness c (py_get data ''created_utc'' PNone))"

definition validate_news_data :: "clock \<Rightarrow> pydict \<Rightarrow> DataQualityResult" where
  "validate_news_data c data =
     quality_result c
       (check_completeness data news_required_fields news_optional_fields)
       (check_news_data_types data)
       (check_news_content_quality data)
       (check_timeliness c (py_get data ''published_at'' PNone))"

definition validate_twitter_data :: "clock \<Rightarrow> pydict \<Rightarrow> DataQualityResult" where
  "validate_twitter_data c data =
     quality_result c
       (check_completeness data twitter_required_fields twitter_optional_fields)
       (check_twitter_data_types data)
       (check_twitter_content_quality data)
       (check_timeliness c (py_get data ''created_at'' PNone))"

section \<open>Rate limiting (\<^verbatim>\<open>app/rate_limiter.py\<close>)\<close>

text \<open>
  Wall-clock time (\<^verbatim>\<open>time.time()\<close>) is a real number of seconds.  A method that
  reads the clock takes the current time as an argument; \<^verbatim>\<open>time.sleep(d)\<close> is not
  executed by the model but reported to the caller, who advances the clock by the
  returned delay.  The three entries of \<^verbatim>\<open>self.request_times\<close> are three fields.
\<close>

record RateLimitConfig =
  requests_per_minute :: int
  requests_per_hour :: int
  requests_per_day :: int
  burst_limit :: int
  backoff_multiplier :: real

record RateLimiter =
  config :: RateLimitConfig
  minute_times :: "real list"
  hour_times :: "real list"
  day_times :: "real list"
  last_request_time :: real
  consecutive_failures :: nat

definition new_rate_limiter :: "RateLimitConfig \<Rightarrow> RateLimiter" where
  "new_rate_limiter cfg =
     \<lparr> config = cfg, minute_times = [], hour_times = [], day_times = [],
       last_request_time = 0, consecutive_failures = 0 \<rparr>"

definition clean_old_requests :: "real \<Rightarrow> real \<Rightarrow> real list \<Rightarrow> real list" where
  "clean_old_requests current_time max_age request_times =
     (let cutoff_time = current_time - max_age
      in filter (\<lambda>req_time. req_time > cutoff_time) request_times)"

definition can_make_request :: "real \<Rightarrow> RateLimiter \<Rightarrow> bool \<times> RateLimiter" where
  "can_make_request current_time rl =
     (let rl' = rl \<lparr> minute_times := clean_old_requests current_time 60 (minute_times rl),
                     hour_times := clean_old_requests current_time 3600 (hour_times rl),
                     day_times := clean_old_requests current_time 86400 (day_times rl) \<rparr>
      in (if int (length (minute_times rl')) \<ge> requests_per_minute (config rl') then False
          else if int (length (hour_times rl')) \<ge> requests_per_hour (config rl') then False
          else if int (length (day_times rl')) \<ge> requests_per_day (config rl') then False
          else True,
          rl'))"

text \<open>\<^verbatim>\<open>time.time() % 1\<close> is the fractional part of the current time.\<close>

definition calculate_delay :: "real \<Rightarrow> RateLimiter \<Rightarrow> real" where
  "calculate_delay current_time rl =
     (if consecutive_failures rl = 0 then 0
      else
        let base_delay = min 60 (backoff_multiplier (config rl) ^ consecutive_failures rl);
            jitter = base_delay * (1 / 10) * (5 / 10 - frac current_time)
        in max 1 (base_delay + jitter))"

text \<open>
  \<^verbatim>\<open>wait_if_needed\<close> returns the delay it slept and the updated limiter.  The
  timestamp appended to the windows is \<^verbatim>\<open>current_time\<close>, read on entry, before
  the sleep.
\<close>

definition wait_if_needed :: "real \<Rightarrow> RateLimiter \<Rightarrow> real \<times> RateLimiter" where
  "wait_if_needed current_time rl =
     (let (ok, rl1) = can_make_request current_time rl;
          delay =
            (if \<not> ok then
               let d1 = (if minute_times rl1 \<noteq> []
                         then max 0 (60 - (current_time - min_list (minute_times rl1))) else 0);
                   d2 = (if hour_times rl1 \<noteq> []
                         then max d1 (3600 - (current_time - min_list (hour_times rl1))) else d1);
                   d3 = (if day_times rl1 \<noteq> []
                         then max d2 (86400 - (current_time - min_list (day_times rl1))) else d2)
               in d3
             else 0);
          backoff_delay = calculate_delay current_time rl1;
          delay' = max delay backoff_delay
      in (delay',
          rl1 \<lparr> minute_times := minute_times rl1 @ [current_time],
                hour_times := hour_times rl1 @ [current_time],
                day_times := day_times rl1 @ [current_time] \<rparr>))"

definition record_success :: "RateLimiter \<Rightarrow> RateLimiter" where
  "record_success rl = rl \<lparr> consecutive_failures := 0 \<rparr>"

definition record_failure :: "RateLimiter \<Rightarrow> RateLimiter" where
  "record_failure rl = rl \<lparr> consecutive_failures := consecutive_failures rl + 1 \<rparr>"

text \<open>\<^verbatim>\<open>d[k] = v\<close> on a dictionary kept in insertion order.\<close>

fun dict_set :: "'k \<Rightarrow> 'v \<Rightarrow> ('k \<times> 'v) list \<Rightarrow> ('k \<times> 'v) list" where
  "dict_set k v [] = [(k, v)]"
| "dict_set k v ((k', v') # kvs) =
     (if k = k' then (k, v) # kvs else (k', v') # dict_set k v kvs)"

text \<open>\<^verbatim>\<open>APIRateLimiter\<close>: one limiter per API, all with the default multiplier 2.0.\<close>

definition rate_limit_config :: "int \<Rightarrow> int \<Rightarrow> int \<Rightarrow> RateLimitConfig" where
  "rate_limit_config per_minute per_hour per_day =
     \<lparr> requests_per_minute = per_minute, requests_per_hour = per_hour,
       requests_per_day = per_day, burst_limit = 10, backoff_multiplier = 2 \<rparr>"

type_synonym APIRateLimiter = "(string \<times> RateLimiter) list"

definition api_rate_limiter :: APIRateLimiter where
  "api_rate_limiter =
     [(''reddit'', new_rate_limiter (rate_limit_config 60 3600 86400)),
      (''news'', new_rate_limiter (rate_limit_config 1 4 100)),
      (''twitter'', new_rate_limiter (rate_limit_config 1 2 50))]"

definition wait_for_api :: "real \<Rightarrow> string \<Rightarrow> APIRateLimiter \<Rightarrow> real \<times> APIRateLimiter" where
  "wait_for_api current_time api_name limiters =
     (case map_of limiters api_name of
        None \<Rightarrow> (0, limiters)
      | Some rl \<Rightarrow>
          let (delay, rl') = wait_if_needed current_time rl
          in (delay, dict_set api_name rl' limiters))"

definition api_record_success :: "string \<Rightarrow> APIRateLimiter \<Rightarrow> APIRateLimiter" where
  "api_record_success api_name limiters =
     (case map_of limiters api_name of
        None \<Rightarrow> limiters
      | Some rl \<Rightarrow> dict_set api_name (record_success rl) limiters)"

definition api_record_failure :: "string \<Rightarrow> APIRateLimiter \<Rightarrow> APIRateLimiter" where
  "api_record_failure api_name limiters =
     (case map_of limiters api_name of
        None \<Rightarrow> limiters
      | Some rl \<Rightarrow> dict_set api_name (record_failure rl) limiters)"

text \<open>
  One caller issuing \<^verbatim>\<open>wait_if_needed\<close> once per arrival time.  The lock is held
  during the sleep, so a call starts at its arrival time or when the previous call has
  returned, whichever is later, and returns \<open>delay\<close> seconds after it started.  The
  result lists the times at which the calls return, that is, are admitted.
\<close>

fun sequential_calls :: "real \<Rightarrow> RateLimiter \<Rightarrow> real list \<Rightarrow> real list" where
  "sequential_calls free_at rl [] = []"
| "sequential_calls free_at rl (arrival # arrivals) =
     (let start = max arrival free_at;
          (delay, rl') = wait_if_needed start rl;
          returned = (if delay > 0 then start + delay else start)
      in returned # sequential_calls returned rl' arrivals)"

text \<open>The number of admissions inside the window \<open>[from, from + 60)\<close>.\<close>

definition admitted_in_window :: "real list \<Rightarrow> real \<Rightarrow> nat" where
  "admitted_in_window admissions from =
     length (filter (\<lambda>t. from \<le> t \<and> t < from + 60) admissions)"

section \<open>Collectors (\<^verbatim>\<open>src/collectors/base_collector.py\<close>)\<close>

text \<open>
  A collector is its configuration, its mutable counters, and the behaviour of the three
  abstract methods that a concrete source adapter supplies.  \<open>collect_data\<close> talks to
  an external service, so its outcome may differ from call to call: it is indexed by
  the number of earlier invocations, which the model keeps in \<open>data_calls\<close>.  All
  three methods may raise.  The Prometheus metrics and log lines are not modelled.
\<close>

record Collector =
  name :: string
  rate_limit_delay :: real
  max_retries :: int
  last_collection :: "real option"
  collection_count :: nat
  error_count :: nat
  data_calls :: nat
  collect_data :: "nat \<Rightarrow> pydict \<Rightarrow> exn + pydict list"
  validate_data :: "pydict \<Rightarrow> exn + bool"
  transform_data :: "pydict \<Rightarrow> exn + pydict"

text \<open>What a call of \<^verbatim>\<open>collect_with_retry\<close> does over time, in order.\<close>

datatype event = Attempt nat | Sleep real

text \<open>
  \<^verbatim>\<open>for item in raw_data: if self.validate_data(item): processed_data.append(self.transform_data(item))\<close>
\<close>

fun validate_and_transform :: "Collector \<Rightarrow> pydict list \<Rightarrow> exn + pydict list" where
  "validate_and_transform c [] = Inr []"
| "validate_and_transform c (item # raw_data) =
     (case validate_data c item of
        Inl e \<Rightarrow> Inl e
      | Inr ok \<Rightarrow>
          if ok then
            (case transform_data c item of
               Inl e \<Rightarrow> Inl e
             | Inr transformed_item \<Rightarrow>
                 (case validate_and_transform c raw_data of
                    Inl e \<Rightarrow> Inl e
                  | Inr processed_data \<Rightarrow> Inr (transformed_item # processed_data)))
          else validate_and_transform c raw_data)"

text \<open>The inner \<^verbatim>\<open>try\<close> block of one attempt, up to \<^verbatim>\<open>processed_data\<close>.\<close>

definition attempt_collection :: "Collector \<Rightarrow> pydict \<Rightarrow> exn + pydict list" where
  "attempt_collection c kwargs =
     (case collect_data c (data_calls c) kwargs of
        Inl e \<Rightarrow> Inl e
      | Inr raw_data \<Rightarrow> validate_and_transform c raw_data)"

text \<open>
  \<^verbatim>\<open>for attempt in range(self.max_retries)\<close>: \<open>remaining\<close> counts the iterations
  still to run.  The loop returns the processed data, re-raises the exception of the
  attempt with index \<^verbatim>\<open>max_retries - 1\<close> (the bare \<^verbatim>\<open>raise\<close>), or, when the range
  is empty, ends without a \<^verbatim>\<open>return\<close>, in which case the method returns \<^verbatim>\<open>None\<close>.
\<close>

fun retry_loop ::
  "pydict \<Rightarrow> nat \<Rightarrow> nat \<Rightarrow> Collector \<Rightarrow> real \<Rightarrow> event list \<Rightarrow>
   (exn + pydict list option) \<times> Collector \<times> real \<times> event list" where
  "retry_loop kwargs attempt 0 c now trace = (Inr None, c, now, trace)"
| "retry_loop kwargs attempt (Suc remaining) c now trace =
     (let c1 = c \<lparr> data_calls := data_calls c + 1 \<rparr>;
          trace1 = trace @ [Attempt attempt]
      in case attempt_collection c kwargs of
           Inr processed_data \<Rightarrow>
             (Inr (Some processed_data),
              c1 \<lparr> last_collection := Some now, collection_count := collection_count c + 1 \<rparr>,
              now, trace1)
         | Inl e \<Rightarrow>
             if int attempt = max_retries c - 1 then (Inl e, c1, now, trace1)
             else retry_loop kwargs (Suc attempt) remaining c1
                    (now + 2 ^ attempt) (trace1 @ [Sleep (2 ^ attempt)]))"

text \<open>
  The rate-limit pause before the first attempt: \<^verbatim>\<open>if self.last_collection:\<close> holds
  for a recorded time other than 0, and the pause is what is missing to
  \<^verbatim>\<open>rate_limit_delay\<close> since then (0 for no pause).

  \<^verbatim>\<open>collect_with_retry(**kwargs)\<close> started at time \<open>now\<close>: the outcome (an exception, or
  the returned value, where \<open>None\<close> is Python's \<^verbatim>\<open>None\<close>), the updated collector, the
  time at which the call ends, and its trace of attempts and sleeps.
\<close>

definition rate_limit_wait :: "Collector \<Rightarrow> real \<Rightarrow> real" where
  "rate_limit_wait c now =
     (case last_collection c of
        None \<Rightarrow> 0
      | Some l \<Rightarrow>
          if l \<noteq> 0 \<and> now - l < rate_limit_delay c
          then rate_limit_delay c - (now - l) else 0)"

definition collect_with_retry ::
  "Collector \<Rightarrow> real \<Rightarrow> pydict \<Rightarrow>
   (exn + pydict list option) \<times> Collector \<times> real \<times> event list" where
  "collect_with_retry c now kwargs =
     (let wait = rate_limit_wait c now;
          trace0 = (if wait > 0 then [Sleep wait] else [])
      in case retry_loop kwargs 0 (nat (max_retries c)) c (now + wait) trace0 of
           (Inl e, c', now', trace) \<Rightarrow>
             (Inl e, c' \<lparr> error_count := error_count c' + 1 \<rparr>, now', trace)
         | (Inr v, c', now', trace) \<Rightarrow> (Inr v, c', now', trace))"

section \<open>Orchestrator (\<^verbatim>\<open>src/collectors/orchestrator.py\<close>)\<close>

type_synonym registry = "(string \<times> Collector) list"

type_synonym collection_config = "(string \<times> pydict) list"

type_synonym collected = "(string \<times> pydict list) list"

record DataCollectionOrchestrator =
  collectors :: registry
  last_orchestration :: "real option"

text \<open>\<^verbatim>\<open>os.getenv(var)\<close> is truthy when the variable is set to a non-empty string.\<close>

definition env_set :: "(string \<Rightarrow> string option) \<Rightarrow> string \<Rightarrow> bool" where
  "env_set getenv var = (case getenv var of None \<Rightarrow> False | Some s \<Rightarrow> s \<noteq> [])"

text \<open>
  \<^verbatim>\<open>_initialize_collectors\<close>: each factory is called only when its credentials are
  set, and a factory that raises leaves its source out of the registry.
\<close>

definition initialize_collectors ::
  "(string \<Rightarrow> string option) \<Rightarrow> exn + Collector \<Rightarrow> exn + Collector \<Rightarrow> exn + Collector \<Rightarrow> registry" where
  "initialize_collectors getenv create_twitter_collector create_reddit_collector create_news_collector =
     (let cs0 = [];
          cs1 = (if env_set getenv ''TWITTER_BEARER_TOKEN'' \<and> env_set getenv ''TWITTER_API_KEY''
                 then (case create_twitter_collector of
                         Inr c \<Rightarrow> dict_set ''twitter'' c cs0 | Inl e \<Rightarrow> cs0)
                 else cs0);
          cs2 = (if env_set getenv ''REDDIT_CLIENT_ID'' \<and> env_set getenv ''REDDIT_CLIENT_SECRET''
                 then (case create_reddit_collector of
                         Inr c \<Rightarrow> dict_set ''reddit'' c cs1 | Inl e \<Rightarrow> cs1)
                 else cs1);
          cs3 = (if env_set getenv ''NEWS_API_KEY''
                 then (case create_news_collector of
                         Inr c \<Rightarrow> dict_set ''news'' c cs2 | Inl e \<Rightarrow> cs2)
                 else cs2)
      in cs3)"

definition create_orchestrator ::
  "(string \<Rightarrow> string option) \<Rightarrow> exn + Collector \<Rightarrow> exn + Collector \<Rightarrow> exn + Collector \<Rightarrow>
   DataCollectionOrchestrator" where
  "create_orchestrator getenv create_twitter_collector create_reddit_collector create_news_collector =
     \<lparr> collectors = initialize_collectors getenv create_twitter_collector
                      create_reddit_collector create_news_collector,
       last_orchestration = None \<rparr>"

definition default_collection_config :: collection_config where
  "default_collection_config =
     [(''twitter'', [(''query'', PStr ''#technology''), (''limit'', PInt 50)]),
      (''reddit'', [(''subreddit'', PStr ''technology''), (''limit'', PInt 50)]),
      (''news'', [(''query'', PStr ''artificial intelligence''), (''limit'', PInt 50)])]"

text \<open>
  The tasks handed to \<^verbatim>\<open>asyncio.gather(..., return_exceptions=True)\<close>: one per
  registered collector that has an entry in the configuration, in registry order.
  The tasks run concurrently and share no state, so each starts at the same time
  \<open>now\<close>.  The result pairs each task's outcome with the time at which it ends, and
  the registry carries the collectors as the tasks leave them.
\<close>

fun run_collection_tasks ::
  "collection_config \<Rightarrow> real \<Rightarrow> registry \<Rightarrow>
   ((exn + pydict list option) \<times> real) list \<times> registry" where
  "run_collection_tasks collection_config now [] = ([], [])"
| "run_collection_tasks collection_config now ((collector_name, collector) # rest) =
     (let (collection_results, rest') = run_collection_tasks collection_config now rest
      in case map_of collection_config collector_name of
           None \<Rightarrow> (collection_results, (collector_name, collector) # rest')
         | Some cfg \<Rightarrow>
             (case collect_with_retry collector now cfg of
                (r, collector', finished, trace) \<Rightarrow>
                  ((r, finished) # collection_results, (collector_name, collector') # rest')))"

text \<open>
  The loop \<^verbatim>\<open>for i, (collector_name, collector) in enumerate(self.collectors.items())\<close>
  that reads \<^verbatim>\<open>collection_results[i]\<close>.  The index \<open>i\<close> counts every registered
  collector, configured or not.  An index past the end raises \<^verbatim>\<open>IndexError\<close>; a
  result \<^verbatim>\<open>None\<close> raises \<^verbatim>\<open>TypeError\<close> in \<^verbatim>\<open>len(result)\<close>.
\<close>

fun aggregate_results ::
  "collection_config \<Rightarrow> (exn + pydict list option) list \<Rightarrow> nat \<Rightarrow> registry \<Rightarrow>
   collected \<times> string list \<Rightarrow> exn + collected \<times> string list" where
  "aggregate_results collection_config collection_results i [] acc = Inr acc"
| "aggregate_results collection_config collection_results i ((collector_name, collector) # rest)
     (results, failed_collectors) =
     (if map_of collection_config collector_name \<noteq> None then
        (if i < length collection_results then
           (case collection_results ! i of
              Inl e \<Rightarrow>
                aggregate_results collection_config collection_results (Suc i) rest
                  (dict_set collector_name [] results, failed_collectors @ [collector_name])
            | Inr None \<Rightarrow>
                Inl (Exn ''TypeError'' (''object of type '' @ [CHR 0x27] @ ''NoneType'' @ [CHR 0x27] @ '' has no len()''))
            | Inr (Some result) \<Rightarrow>
                aggregate_results collection_config collection_results (Suc i) rest
                  (dict_set collector_name result results, failed_collectors))
         else Inl (Exn ''IndexError'' ''list index out of range''))
      else aggregate_results collection_config collection_results (Suc i) rest
             (results, failed_collectors))"

text \<open>
  The outcome of \<^verbatim>\<open>collect_all_data\<close>: the returned dictionary or the exception that
  escapes, the local list \<^verbatim>\<open>failed_collectors\<close> (which the method only logs), the
  orchestrator with its collectors updated, and the time at which the call ends.
\<close>

record CollectionRun =
  run_results :: "exn + collected"
  run_failed_collectors :: "string list"
  run_orchestrator :: DataCollectionOrchestrator
  run_finished :: real

definition collect_all_data ::
  "DataCollectionOrchestrator \<Rightarrow> real \<Rightarrow> collection_config option \<Rightarrow> CollectionRun" where
  "collect_all_data orch now config_arg =
     (if collectors orch = [] then
        \<lparr> run_results = Inr [], run_failed_collectors = [], run_orchestrator = orch,
          run_finished = now \<rparr>
      else
        let collection_config =
              (case config_arg of None \<Rightarrow> default_collection_config | Some cfg \<Rightarrow> cfg);
            (tasks, collectors') = run_collection_tasks collection_config now (collectors orch);
            finished = fold max (map snd tasks) now;
            orch' = orch \<lparr> collectors := collectors' \<rparr>
        in case (if tasks \<noteq> []
                 then aggregate_results collection_config (map fst tasks) 0 (collectors orch) ([], [])
                 else Inr ([], [])) of
             Inl e \<Rightarrow>
               \<lparr> run_results = Inl e, run_failed_collectors = [], run_orchestrator = orch',
                 run_finished = finished \<rparr>
           | Inr (results, failed_collectors) \<Rightarrow>
               \<lparr> run_results = Inr results, run_failed_collectors = failed_collectors,
                 run_orchestrator = orch' \<lparr> last_orchestration := Some finished \<rparr>,
                 run_finished = finished \<rparr>)"

text \<open>\<^verbatim>\<open>limit // 3\<close> is floor division, which is \<open>div\<close> on \<open>int\<close>.\<close>

definition technology_config :: "int \<Rightarrow> collection_config" where
  "technology_config limit =
     (let twitter_limit = max (limit div 3) 10;
          reddit_limit = max (limit div 3) 10;
          news_limit = max (limit div 3) 10
      in [(''twitter'', [(''query'', PStr ''#technology OR #AI OR #machinelearning''),
                         (''limit'', PInt twitter_limit)]),
          (''reddit'', [(''subreddit'', PStr ''technology''), (''limit'', PInt reddit_limit)]),
          (''news'', [(''query'', PStr ''artificial intelligence technology''),
                      (''limit'', PInt news_limit)])])"

definition trending_config :: "int \<Rightarrow> collection_config" where
  "trending_config limit =
     (let twitter_limit = max (limit div 3) 10;
          reddit_limit = max (limit div 3) 10;
          news_limit = max (limit div 3) 10
      in [(''twitter'', [(''limit'', PInt twitter_limit)]),
          (''reddit'', [(''subreddit'', PStr ''technology''), (''limit'', PInt reddit_limit)]),
          (''news'', [(''limit'', PInt news_limit)])])"

definition collect_technology_data ::
  "DataCollectionOrchestrator \<Rightarrow> real \<Rightarrow> int \<Rightarrow> CollectionRun" where
  "collect_technology_data orch now limit =
     collect_all_data orch now (Some (technology_config limit))"

definition collect_trending_data ::
  "DataCollectionOrchestrator \<Rightarrow> real \<Rightarrow> int \<Rightarrow> CollectionRun" where
  "collect_trending_data orch now limit =
     collect_all_data orch now (Some (trending_config limit))"

section \<open>Python operators used by the pipeline\<close>

definition quoted :: "string \<Rightarrow> string" where
  "quoted s = [CHR 0x27] @ s @ [CHR 0x27]"

text \<open>\<^verbatim>\<open>a or b\<close>.\<close>

definition py_or :: "pyval \<Rightarrow> pyval \<Rightarrow> pyval" where
  "py_or a b = (if py_truthy a then a else b)"

definition unsupported_operand :: "string \<Rightarrow> pyval \<Rightarrow> pyval \<Rightarrow> exn" where
  "unsupported_operand opr a b =
     Exn ''TypeError'' (''unsupported operand type(s) for '' @ opr @ '': ''
                        @ quoted (py_type_name a) @ '' and '' @ quoted (py_type_name b))"

definition cannot_concatenate :: "string \<Rightarrow> pyval \<Rightarrow> exn" where
  "cannot_concatenate kind b =
     Exn ''TypeError'' (''can only concatenate '' @ kind @ '' (not '' @ [CHR 0x22]
                        @ py_type_name b @ [CHR 0x22] @ '') to '' @ kind)"

text \<open>
  \<^verbatim>\<open>a + b\<close>: addition of numbers (an \<^verbatim>\<open>int\<close> when both are \<^verbatim>\<open>int\<close> or
  \<^verbatim>\<open>bool\<close>), concatenation of two strings or two lists, \<^verbatim>\<open>TypeError\<close> otherwise.
\<close>

definition py_add :: "pyval \<Rightarrow> pyval \<Rightarrow> exn + pyval" where
  "py_add a b =
     (case a of
        PStr s \<Rightarrow>
          (case b of PStr t \<Rightarrow> Inr (PStr (s @ t)) | _ \<Rightarrow> Inl (cannot_concatenate ''str'' b))
      | PList xs \<Rightarrow>
          (case b of PList ys \<Rightarrow> Inr (PList (xs @ ys)) | _ \<Rightarrow> Inl (cannot_concatenate ''list'' b))
      | _ \<Rightarrow>
          (case py_number a of
             None \<Rightarrow> Inl (unsupported_operand ''+'' a b)
           | Some x \<Rightarrow>
               (case py_number b of
                  None \<Rightarrow> Inl (unsupported_operand ''+'' a b)
                | Some y \<Rightarrow>
                    if is_int a \<and> is_int b then Inr (PInt (\<lfloor>x\<rfloor> + \<lfloor>y\<rfloor>))
                    else Inr (PFloat (x + y)))))"

text \<open>\<^verbatim>\<open>a * n\<close> for an \<^verbatim>\<open>int\<close> literal \<open>n\<close>: a product, or a repeated sequence.\<close>

definition py_mul_int :: "pyval \<Rightarrow> int \<Rightarrow> exn + pyval" where
  "py_mul_int a n =
     (case a of
        PStr s \<Rightarrow> Inr (PStr (concat (replicate (nat n) s)))
      | PList xs \<Rightarrow> Inr (PList (concat (replicate (nat n) xs)))
      | _ \<Rightarrow>
          (case py_number a of
             Some x \<Rightarrow>
               if is_int a then Inr (PInt (\<lfloor>x\<rfloor> * n)) else Inr (PFloat (x * real_of_int n))
           | None \<Rightarrow> Inl (unsupported_operand ''*'' a (PInt n))))"

text \<open>\<^verbatim>\<open>a > n\<close> for an \<^verbatim>\<open>int\<close> literal \<open>n\<close>.\<close>

definition py_gt_int :: "pyval \<Rightarrow> int \<Rightarrow> exn + bool" where
  "py_gt_int a n =
     (case py_number a of
        Some x \<Rightarrow> Inr (x > real_of_int n)
      | None \<Rightarrow>
          Inl (Exn ''TypeError'' (quoted ''>'' @ '' not supported between instances of ''
                                  @ quoted (py_type_name a) @ '' and '' @ quoted ''int'')))"

text \<open>\<^verbatim>\<open>str.split()\<close> splits at runs of whitespace and drops empty pieces.\<close>

definition py_isspace :: "char \<Rightarrow> bool" where
  "py_isspace c =
     (c \<in> set [CHR 0x09, CHR 0x0A, CHR 0x0B, CHR 0x0C, CHR 0x0D, CHR 0x1C, CHR 0x1D,
                CHR 0x1E, CHR 0x1F, CHR 0x20, CHR 0x85, CHR 0xA0])"

fun py_split_from :: "string \<Rightarrow> string \<Rightarrow> string list" where
  "py_split_from cur [] = (if cur = [] then [] else [cur])"
| "py_split_from cur (c # cs) =
     (if py_isspace c
      then (if cur = [] then py_split_from [] cs else cur # py_split_from [] cs)
      else py_split_from (cur @ [c]) cs)"

definition py_split :: "string \<Rightarrow> string list" where
  "py_split s = py_split_from [] s"

text \<open>\<^verbatim>\<open>sub in s\<close> on strings.\<close>

fun py_contains :: "string \<Rightarrow> string \<Rightarrow> bool" where
  "py_contains sub [] = (sub = [])"
| "py_contains sub (c # cs) = (take (length sub) (c # cs) = sub \<or> py_contains sub cs)"

text \<open>Calling \<^verbatim>\<open>.get\<close> on a value requires a dictionary.\<close>

definition as_dict :: "pyval \<Rightarrow> exn + pydict" where
  "as_dict v =
     (case v of
        PDict d \<Rightarrow> Inr d
      | _ \<Rightarrow> Inl (Exn ''AttributeError''
                 (quoted (py_type_name v) @ '' object has no attribute '' @ quoted ''get'')))"

text \<open>Decimal notation, for an identifier inside a message.\<close>

fun show_nat :: "nat \<Rightarrow> string" where
  "show_nat n =
     (if n < 10 then [char_of (48 + n)]
      else show_nat (n div 10) @ [char_of (48 + n mod 10)])"

section \<open>Tiered storage (\<^verbatim>\<open>src/storage/database.py\<close>)\<close>

text \<open>
  The three tables hold the rows that the \<^verbatim>\<open>INSERT\<close> statements write.  The
  \<^verbatim>\<open>external_id\<close> columns hold \<^verbatim>\<open>str(data.get('id', ''))\<close>; the model keeps the value
  under \<^verbatim>\<open>'id'\<close> itself.  Generated identifiers count the rows of their table.

  Every store method wraps its whole body in \<^verbatim>\<open>try: ... except Exception: raise\<close>, so
  whatever the connection pool, \<^verbatim>\<open>json.dumps\<close>, the driver or the database raises
  reaches the caller.  These failures are outside the repository; the model lets an
  arbitrary schedule \<open>db_fault\<close> decide, per call in call order, whether the call raises
  (and what), in which case no row is written.  \<open>calls\<close> logs every invocation with
  its arguments.  \<open>isoformat_utc\<close> is
  \<^verbatim>\<open>datetime.fromtimestamp(x, tz=timezone.utc).isoformat()\<close>.
\<close>

record raw_data_row =
  raw_id :: nat
  raw_source :: string
  raw_external_id :: pyval
  raw_payload :: pydict

record processed_data_row =
  processed_id :: nat
  raw_data_id :: nat
  processed_source :: pyval
  processed_external_id :: pyval
  processed_title :: pyval
  processed_content :: pyval
  processed_author :: pyval
  processed_url :: pyval
  published_at :: pyval
  validation_status :: string
  stored_quality_score :: real
  original_data :: pydict
  processing_status :: string

record analytics_data_row =
  analytics_id :: nat
  processed_data_id :: nat
  analytics_source :: pyval
  analytics_external_id :: pyval
  engagement_score :: pyval
  like_count :: pyval
  retweet_count :: pyval
  comment_count :: pyval
  share_count :: pyval
  hour_of_day :: pyval
  day_of_week :: pyval

datatype storage_call =
    BronzeCall pydict string string
  | SilverCall nat pydict string real
  | GoldCall nat pydict string pydict

record DataLakeStorage =
  raw_data :: "raw_data_row list"
  processed_data :: "processed_data_row list"
  analytics_data :: "analytics_data_row list"
  calls :: "storage_call list"
  db_fault :: "nat \<Rightarrow> exn option"
  isoformat_utc :: "real \<Rightarrow> string"

definition store_bronze_data ::
  "DataLakeStorage \<Rightarrow> pydict \<Rightarrow> string \<Rightarrow> string \<Rightarrow> (exn + nat) \<times> DataLakeStorage" where
  "store_bronze_data st data source data_type =
     (let st' = st \<lparr> calls := calls st @ [BronzeCall data source data_type] \<rparr>
      in case db_fault st (length (calls st)) of
           Some e \<Rightarrow> (Inl e, st')
         | None \<Rightarrow>
             let external_id = py_get data ''id'' (PStr []);
                 new_id = length (raw_data st) + 1
             in (Inr new_id,
                 st' \<lparr> raw_data := raw_data st @
                         [\<lparr> raw_id = new_id, raw_source = source,
                            raw_external_id = external_id, raw_payload = data \<rparr>] \<rparr>))"

definition silver_published_at :: "DataLakeStorage \<Rightarrow> pydict \<Rightarrow> pyval" where
  "silver_published_at st processed =
     (case map_of processed ''created_at'' of
        Some v \<Rightarrow> v
      | None \<Rightarrow>
          (case map_of processed ''created_utc'' of
             Some v \<Rightarrow>
               (case py_number v of
                  Some x \<Rightarrow> PStr (isoformat_utc st x)
                | None \<Rightarrow> v)
           | None \<Rightarrow>
               (case map_of processed ''published_at'' of
                  Some v \<Rightarrow> v
                | None \<Rightarrow> PNone)))"

definition store_silver_data ::
  "DataLakeStorage \<Rightarrow> nat \<Rightarrow> pydict \<Rightarrow> string \<Rightarrow> real \<Rightarrow> (exn + nat) \<times> DataLakeStorage" where
  "store_silver_data st bronze_id processed status score =
     (let st' = st \<lparr> calls := calls st @ [SilverCall bronze_id processed status score] \<rparr>
      in case db_fault st (length (calls st)) of
           Some e \<Rightarrow> (Inl e, st')
         | None \<Rightarrow>
             let new_id = length (processed_data st) + 1
             in (Inr new_id,
                 st' \<lparr> processed_data := processed_data st @
                         [\<lparr> processed_id = new_id,
                            raw_data_id = bronze_id,
                            processed_source = py_get processed ''source'' (PStr ''reddit''),
                            processed_external_id = py_get processed ''id'' (PStr []),
                            processed_title =
                              py_or (py_get processed ''title'' (PStr []))
                                    (py_get processed ''text'' (PStr [])),
                            processed_content =
                              py_or (py_get processed ''content'' (PStr []))
                                    (py_get processed ''selftext'' (PStr [])),
                            processed_author =
                              py_or (py_get processed ''author'' (PStr []))
                                    (py_get processed ''author_username'' (PStr [])),
                            processed_url = py_get processed ''url'' (PStr []),
                            published_at = silver_published_at st processed,
                            validation_status = status,
                            stored_quality_score = score,
                            original_data = processed,
                            processing_status = ''processed'' \<rparr>] \<rparr>))"

definition store_gold_data ::
  "DataLakeStorage \<Rightarrow> nat \<Rightarrow> pydict \<Rightarrow> string \<Rightarrow> pydict \<Rightarrow> (exn + nat) \<times> DataLakeStorage" where
  "store_gold_data st silver_id analytics aggregation_type metrics =
     (let st' = st \<lparr> calls := calls st @ [GoldCall silver_id analytics aggregation_type metrics] \<rparr>
      in case db_fault st (length (calls st)) of
           Some e \<Rightarrow> (Inl e, st')
         | None \<Rightarrow>
             (case find (\<lambda>row. processed_id row = silver_id) (processed_data st) of
                None \<Rightarrow>
                  (Inl (Exn ''ValueError''
                         (''Processed data with ID '' @ show_nat silver_id @ '' not found'')), st')
              | Some processed_row \<Rightarrow>
                  (case as_dict (py_get analytics ''engagement_metrics'' (PDict [])) of
                     Inl e \<Rightarrow> (Inl e, st')
                   | Inr engagement_metrics \<Rightarrow>
                       (case as_dict (py_get analytics ''temporal_features'' (PDict [])) of
                          Inl e \<Rightarrow> (Inl e, st')
                        | Inr temporal_features \<Rightarrow>
                            let new_id = length (analytics_data st) + 1
                            in (Inr new_id,
                                st' \<lparr> analytics_data := analytics_data st @
                                  [\<lparr> analytics_id = new_id,
                                     processed_data_id = silver_id,
                                     analytics_source = processed_source processed_row,
                                     analytics_external_id = processed_external_id processed_row,
                                     engagement_score =
                                       py_get engagement_metrics ''engagement_score'' (PFloat 0),
                                     like_count = py_get engagement_metrics ''like_count'' (PInt 0),
                                     retweet_count = py_get engagement_metrics ''retweet_count'' (PInt 0),
                                     comment_count = py_get engagement_metrics ''comment_count'' (PInt 0),
                                     share_count = py_get engagement_metrics ''share_count'' (PInt 0),
                                     hour_of_day = py_get temporal_features ''hour_of_day'' PNone,
                                     day_of_week = py_get temporal_features ''day_of_week'' PNone \<rparr>] \<rparr>)))))"

section \<open>Pipeline (\<^verbatim>\<open>src/storage/data_pipeline.py\<close>)\<close>

text \<open>
  What the pipeline takes from the standard library: the clock of the validators;
  \<open>calendar_features\<close>, the \<^verbatim>\<open>try\<close> block of \<^verbatim>\<open>_extract_temporal_features\<close> (the
  calendar fields of a truthy timestamp, or the empty dictionary when the block
  raises); \<open>utcnow_isoformat\<close>, the string \<^verbatim>\<open>datetime.utcnow().isoformat()\<close>; and
  \<open>str_len\<close>, the number \<^verbatim>\<open>len(str(item))\<close>.
\<close>

record pipeline_env =
  validator_clock :: clock
  calendar_features :: "pyval \<Rightarrow> pydict"
  utcnow_isoformat :: string
  str_len :: "pydict \<Rightarrow> nat"

record QualitySummary =
  total_records :: nat
  valid_records :: nat
  invalid_records :: nat
  validation_rate :: real
  average_quality_score :: real
  total_validation_errors :: nat
  total_warnings :: nat
  quality_grade :: string

definition get_quality_grade :: "real \<Rightarrow> string" where
  "get_quality_grade score =
     (if score \<ge> 9 / 10 then ''A''
      else if score \<ge> 8 / 10 then ''B''
      else if score \<ge> 7 / 10 then ''C''
      else if score \<ge> 6 / 10 then ''D''
      else ''F'')"

text \<open>\<^verbatim>\<open>get_quality_summary\<close>; \<open>None\<close> is the empty dictionary it returns for no results.\<close>

definition get_quality_summary :: "DataQualityResult list \<Rightarrow> QualitySummary option" where
  "get_quality_summary validation_results =
     (if validation_results = [] then None
      else
        let total = length validation_results;
            valid = length (filter is_valid validation_results);
            avg_quality_score = sum_list (map quality_score validation_results) / real total
        in Some \<lparr> total_records = total,
                  valid_records = valid,
                  invalid_records = total - valid,
                  validation_rate = (if total > 0 then real valid / real total else 0),
                  average_quality_score = avg_quality_score,
                  total_validation_errors =
                    sum_list (map (\<lambda>r. length (validation_errors r)) validation_results),
                  total_warnings = sum_list (map (\<lambda>r. length (warnings r)) validation_results),
                  quality_grade = get_quality_grade avg_quality_score \<rparr>)"

text \<open>
  The pipeline object.  \<open>error_log\<close> collects the messages that the pipeline passes to
  \<^verbatim>\<open>self.logger.error\<close>.
\<close>

record DataPipeline =
  storage :: DataLakeStorage
  orchestrator :: DataCollectionOrchestrator
  total_processed :: nat
  successful_stores :: nat
  failed_stores :: nat
  avg_quality_score :: real
  error_log :: "string list"

definition pipeline_validate_data :: "pipeline_env \<Rightarrow> string \<Rightarrow> pydict \<Rightarrow> DataQualityResult" where
  "pipeline_validate_data env source data =
     (if source = ''reddit'' then validate_reddit_data (validator_clock env) data
      else if source = ''news'' then validate_news_data (validator_clock env) data
      else if source = ''twitter'' then validate_twitter_data (validator_clock env) data
      else validate_reddit_data (validator_clock env) data)"

definition get_data_type :: "string \<Rightarrow> string" where
  "get_data_type source =
     (case map_of [(''reddit'', ''reddit_post''), (''news'', ''news_article''),
                   (''twitter'', ''tweet'')] source of
        Some t \<Rightarrow> t
      | None \<Rightarrow> ''unknown'')"

definition extract_engagement_metrics :: "pydict \<Rightarrow> string \<Rightarrow> exn + pydict" where
  "extract_engagement_metrics item source =
     (if source = ''reddit'' then
        Inr [(''score'', py_get item ''score'' (PInt 0)),
             (''num_comments'', py_get item ''num_comments'' (PInt 0)),
             (''upvote_ratio'', py_get item ''upvote_ratio'' (PFloat 0))]
      else if source = ''news'' then
        (case py_len (py_get item ''content'' (PStr [])) of
           Inl e \<Rightarrow> Inl e
         | Inr n \<Rightarrow>
             Inr [(''engagement_score'', py_get item ''engagement_score'' (PFloat 0)),
                  (''content_length'', PInt (int n)),
                  (''has_image'', PBool (py_truthy (py_get item ''image_url'' PNone)))])
      else if source = ''twitter'' then
        Inr [(''retweet_count'', py_get item ''retweet_count'' (PInt 0)),
             (''like_count'', py_get item ''like_count'' (PInt 0)),
             (''reply_count'', py_get item ''reply_count'' (PInt 0)),
             (''quote_count'', py_get item ''quote_count'' (PInt 0))]
      else Inr [])"

text \<open>
  \<^verbatim>\<open>_analyze_content\<close>: \<^verbatim>\<open>len(content)\<close> raises on a value without length, and
  \<^verbatim>\<open>content.split()\<close> raises \<^verbatim>\<open>AttributeError\<close> on a truthy value that is not a string.
\<close>

definition analyze_content :: "pydict \<Rightarrow> string \<Rightarrow> exn + pydict" where
  "analyze_content item source =
     (let content = py_or (py_or (py_get item ''text'' (PStr []))
                                 (py_get item ''title'' (PStr [])))
                          (py_get item ''content'' (PStr []))
      in case py_len content of
           Inl e \<Rightarrow> Inl e
         | Inr n \<Rightarrow>
             if py_truthy content then
               (case content of
                  PStr s \<Rightarrow>
                    Inr [(''content_length'', PInt (int n)),
                         (''word_count'', PInt (int (length (py_split s)))),
                         (''has_hashtags'', PBool (py_contains ''#'' s)),
                         (''has_mentions'', PBool (py_contains ''@'' s)),
                         (''has_urls'', PBool (py_contains ''http'' s))]
                | _ \<Rightarrow>
                    Inl (Exn ''AttributeError''
                          (quoted (py_type_name content) @ '' object has no attribute ''
                           @ quoted ''split'')))
             else
               Inr [(''content_length'', PInt (int n)),
                    (''word_count'', PInt 0),
                    (''has_hashtags'', PBool False),
                    (''has_mentions'', PBool False),
                    (''has_urls'', PBool False)])"

definition extract_temporal_features :: "pipeline_env \<Rightarrow> pydict \<Rightarrow> string \<Rightarrow> pydict" where
  "extract_temporal_features env item source =
     (let timestamp = py_or (py_or (py_get item ''created_at'' PNone)
                                   (py_get item ''created_utc'' PNone))
                            (py_get item ''published_at'' PNone)
      in if \<not> py_truthy timestamp then [] else calendar_features env timestamp)"

definition generate_analytics_data :: "pipeline_env \<Rightarrow> pydict \<Rightarrow> string \<Rightarrow> exn + pydict" where
  "generate_analytics_data env item source =
     (case extract_engagement_metrics item source of
        Inl e \<Rightarrow> Inl e
      | Inr engagement \<Rightarrow>
          (case analyze_content item source of
             Inl e \<Rightarrow> Inl e
           | Inr analysis \<Rightarrow>
               Inr [(''source'', PStr source),
                    (''content_type'', PStr (get_data_type source)),
                    (''engagement_metrics'', PDict engagement),
                    (''content_analysis'', PDict analysis),
                    (''temporal_features'', PDict (extract_temporal_features env item source))]))"

definition get_source_reputation :: "pyval \<Rightarrow> real" where
  "get_source_reputation source_name =
     (if source_name \<in> set (map PStr [''BBC'', ''Reuters'', ''AP'', ''CNN'', ''NYT'', ''WSJ'']) then 9 / 10
      else if source_name \<in> set (map PStr [''TechCrunch'', ''Wired'', ''Ars Technica'', ''The Verge''])
        then 7 / 10
      else 5 / 10)"

text \<open>
  \<^verbatim>\<open>_calculate_metrics\<close>.  The arithmetic on the item's values raises \<^verbatim>\<open>TypeError\<close>
  when a value is not a number, for instance when a count is \<^verbatim>\<open>None\<close>.
\<close>

definition calculate_metrics :: "pipeline_env \<Rightarrow> pydict \<Rightarrow> string \<Rightarrow> exn + pydict" where
  "calculate_metrics env item source =
     (let metrics = [(''source'', PStr source),
                     (''processing_timestamp'', PStr (utcnow_isoformat env)),
                     (''data_volume_bytes'', PInt (int (str_len env item)))]
      in if source = ''reddit'' then
           (case py_mul_int (py_get item ''num_comments'' (PInt 0)) 2 of
              Inl e \<Rightarrow> Inl e
            | Inr doubled \<Rightarrow>
                (case py_add (py_get item ''score'' (PInt 0)) doubled of
                   Inl e \<Rightarrow> Inl e
                 | Inr engagement \<Rightarrow>
                     (case py_gt_int (py_get item ''score'' (PInt 0)) 1000 of
                        Inl e \<Rightarrow> Inl e
                      | Inr viral \<Rightarrow>
                          Inr (dict_set ''viral_potential'' (PBool viral)
                                (dict_set ''engagement_score'' engagement metrics)))))
         else if source = ''news'' then
           (case py_len (py_get item ''content'' (PStr [])) of
              Inl e \<Rightarrow> Inl e
            | Inr n \<Rightarrow>
                Inr (dict_set ''source_reputation''
                       (PFloat (get_source_reputation (py_get item ''source_name'' (PStr []))))
                       (dict_set ''readability_score''
                          (if real n / 10 < 100 then PFloat (real n / 10) else PInt 100)
                          metrics)))
         else if source = ''twitter'' then
           (case py_mul_int (py_get item ''retweet_count'' (PInt 0)) 2 of
              Inl e \<Rightarrow> Inl e
            | Inr doubled \<Rightarrow>
                (case py_add doubled (py_get item ''like_count'' (PInt 0)) of
                   Inl e \<Rightarrow> Inl e
                 | Inr partial \<Rightarrow>
                     (case py_add partial (py_get item ''reply_count'' (PInt 0)) of
                        Inl e \<Rightarrow> Inl e
                      | Inr engagement \<Rightarrow>
                          (case py_gt_int (py_get item ''retweet_count'' (PInt 0)) 100 of
                             Inl e \<Rightarrow> Inl e
                           | Inr viral \<Rightarrow>
                               Inr (dict_set ''viral_potential'' (PBool viral)
                                     (dict_set ''engagement_score'' engagement metrics))))))
         else Inr metrics)"

text \<open>The local lists of \<^verbatim>\<open>_process_source_data\<close>.\<close>

record SourceResults =
  bronze_ids :: "nat list"
  silver_ids :: "nat list"
  gold_ids :: "nat list"
  quality_results :: "DataQualityResult list"

text \<open>
  The \<^verbatim>\<open>except Exception\<close> handler of the item loop: it logs and continues with the
  next item; nothing else records the failure.
\<close>

definition item_failed :: "string \<Rightarrow> exn \<Rightarrow> DataPipeline \<Rightarrow> DataPipeline" where
  "item_failed source e p =
     p \<lparr> error_log := error_log p @ [''Failed to process item from '' @ source @ '': '' @ exn_msg e] \<rparr>"

text \<open>One iteration of \<^verbatim>\<open>for item in data_items\<close>.\<close>

definition process_item ::
  "pipeline_env \<Rightarrow> string \<Rightarrow> pydict \<Rightarrow> DataPipeline \<times> SourceResults \<Rightarrow> DataPipeline \<times> SourceResults" where
  "process_item env source item pr =
     (case pr of (p, r) \<Rightarrow>
      (case store_bronze_data (storage p) item source (get_data_type source) of
         (Inl e, st1) \<Rightarrow> (item_failed source e (p \<lparr> storage := st1 \<rparr>), r)
       | (Inr bronze_id, st1) \<Rightarrow>
           let r1 = r \<lparr> bronze_ids := bronze_ids r @ [bronze_id] \<rparr>;
               quality_result = pipeline_validate_data env source item;
               r2 = r1 \<lparr> quality_results := quality_results r1 @ [quality_result] \<rparr>
           in (case store_silver_data st1 bronze_id item
                      (if is_valid quality_result then ''valid'' else ''invalid'')
                      (quality_score quality_result) of
                 (Inl e, st2) \<Rightarrow> (item_failed source e (p \<lparr> storage := st2 \<rparr>), r2)
               | (Inr silver_id, st2) \<Rightarrow>
                   let r3 = r2 \<lparr> silver_ids := silver_ids r2 @ [silver_id] \<rparr>
                   in if is_valid quality_result then
                        (case generate_analytics_data env item source of
                           Inl e \<Rightarrow> (item_failed source e (p \<lparr> storage := st2 \<rparr>), r3)
                         | Inr analytics \<Rightarrow>
                             (case calculate_metrics env item source of
                                Inl e \<Rightarrow> (item_failed source e (p \<lparr> storage := st2 \<rparr>), r3)
                              | Inr metrics \<Rightarrow>
                                  (case store_gold_data st2 silver_id analytics ''individual'' metrics of
                                     (Inl e, st3) \<Rightarrow>
                                       (item_failed source e (p \<lparr> storage := st3 \<rparr>), r3)
                                   | (Inr gold_id, st3) \<Rightarrow>
                                       (p \<lparr> storage := st3,
                                            total_processed := total_processed p + 1,
                                            successful_stores := successful_stores p + 1 \<rparr>,
                                        r3 \<lparr> gold_ids := gold_ids r3 @ [gold_id] \<rparr>))))
                      else
                        (p \<lparr> storage := st2,
                             total_processed := total_processed p + 1,
                             failed_stores := failed_stores p + 1 \<rparr>,
                         r3))))"

definition process_items ::
  "pipeline_env \<Rightarrow> string \<Rightarrow> pydict list \<Rightarrow> DataPipeline \<times> SourceResults \<Rightarrow> DataPipeline \<times> SourceResults" where
  "process_items env source data_items pr = foldl (\<lambda>pr item. process_item env source item pr) pr data_items"

text \<open>
  \<^verbatim>\<open>_process_source_data\<close>.  Every exception raised for an item is caught inside the
  loop and the summary does not raise, so the method always returns; the result is
  still a sum, for the \<^verbatim>\<open>try\<close> around the call in \<^verbatim>\<open>_process_and_store_data\<close>.
\<close>

definition process_source_data ::
  "pipeline_env \<Rightarrow> string \<Rightarrow> pydict list \<Rightarrow> DataPipeline \<Rightarrow>
   (exn + SourceResults \<times> QualitySummary option) \<times> DataPipeline" where
  "process_source_data env source data_items p =
     (case process_items env source data_items
             (p, \<lparr> bronze_ids = [], silver_ids = [], gold_ids = [], quality_results = [] \<rparr>) of
        (p', r) \<Rightarrow> (Inr (r, get_quality_summary (quality_results r)), p'))"

record PipelineResults =
  bronze_layer :: "(string \<times> nat list) list"
  silver_layer :: "(string \<times> nat list) list"
  gold_layer :: "(string \<times> nat list) list"
  quality_metrics :: "(string \<times> QualitySummary option) list"
  errors :: "string list"

text \<open>One iteration of \<^verbatim>\<open>for source, data_items in collected_data.items()\<close>.\<close>

definition process_source ::
  "pipeline_env \<Rightarrow> string \<times> pydict list \<Rightarrow> DataPipeline \<times> PipelineResults \<Rightarrow>
   DataPipeline \<times> PipelineResults" where
  "process_source env entry ppr =
     (case (entry, ppr) of ((source, data_items), (p, pipeline_results)) \<Rightarrow>
        if data_items = [] then (p, pipeline_results)
        else
          (case process_source_data env source data_items p of
             (Inr (source_results, quality_summary), p') \<Rightarrow>
               (p', pipeline_results
                      \<lparr> bronze_layer := dict_set source (bronze_ids source_results)
                                           (bronze_layer pipeline_results),
                        silver_layer := dict_set source (silver_ids source_results)
                                           (silver_layer pipeline_results),
                        gold_layer := dict_set source (gold_ids source_results)
                                         (gold_layer pipeline_results),
                        quality_metrics := dict_set source quality_summary
                                              (quality_metrics pipeline_results) \<rparr>)
           | (Inl e, p') \<Rightarrow>
               let error_msg = ''Failed to process '' @ source @ '' data: '' @ exn_msg e
               in (p' \<lparr> error_log := error_log p' @ [error_msg] \<rparr>,
                   pipeline_results \<lparr> errors := errors pipeline_results @ [error_msg] \<rparr>)))"

definition process_and_store_data ::
  "pipeline_env \<Rightarrow> collected \<Rightarrow> DataPipeline \<Rightarrow> PipelineResults \<times> DataPipeline" where
  "process_and_store_data env collected_data p =
     (case foldl (\<lambda>ppr entry. process_source env entry ppr)
             (p, \<lparr> bronze_layer = [], silver_layer = [], gold_layer = [],
                   quality_metrics = [], errors = [] \<rparr>)
             collected_data of
        (p', pipeline_results) \<Rightarrow> (pipeline_results, p'))"

record PipelineSummary =
  pipeline_status :: string
  execution_time_seconds :: real
  total_items_processed :: nat
  summary_successful_stores :: nat
  summary_failed_stores :: nat
  overall_quality_score :: real
  overall_quality_grade :: string
  bronze_layer_summary :: "(string \<times> nat) list"
  silver_layer_summary :: "(string \<times> nat) list"
  gold_layer_summary :: "(string \<times> nat) list"
  quality_metrics_by_source :: "(string \<times> QualitySummary option) list"
  summary_errors :: "string list"
  summary_timestamp :: real

definition layer_summary :: "(string \<times> nat list) list \<Rightarrow> (string \<times> nat) list" where
  "layer_summary layer = map (\<lambda>(source, ids). (source, length ids)) layer"

definition generate_pipeline_summary ::
  "DataPipeline \<Rightarrow> PipelineResults \<Rightarrow> real \<Rightarrow> real \<Rightarrow> PipelineSummary \<times> DataPipeline" where
  "generate_pipeline_summary p pipeline_results duration now =
     (let all_quality_scores =
            concat (map (\<lambda>(source, source_metrics).
                           case source_metrics of
                             Some m \<Rightarrow> [average_quality_score m]
                           | None \<Rightarrow> [])
                        (quality_metrics pipeline_results));
          overall_quality =
            (if all_quality_scores \<noteq> []
             then sum_list all_quality_scores / real (length all_quality_scores) else 0);
          p' = p \<lparr> avg_quality_score := overall_quality \<rparr>
      in (\<lparr> pipeline_status = ''completed'',
            execution_time_seconds = duration,
            total_items_processed = total_processed p',
            summary_successful_stores = successful_stores p',
            summary_failed_stores = failed_stores p',
            overall_quality_score = overall_quality,
            overall_quality_grade = get_quality_grade overall_quality,
            bronze_layer_summary = layer_summary (bronze_layer pipeline_results),
            silver_layer_summary = layer_summary (silver_layer pipeline_results),
            gold_layer_summary = layer_summary (gold_layer pipeline_results),
            quality_metrics_by_source = quality_metrics pipeline_results,
            summary_errors = errors pipeline_results,
            summary_timestamp = now \<rparr>,
          p'))"

definition collect_data_for ::
  "DataCollectionOrchestrator \<Rightarrow> real \<Rightarrow> string \<Rightarrow> int \<Rightarrow> CollectionRun" where
  "collect_data_for orch now collection_type limit =
     (if collection_type = ''technology'' then collect_technology_data orch now limit
      else if collection_type = ''trending'' then collect_trending_data orch now limit
      else collect_all_data orch now None)"

text \<open>
  Steps 2 and 3 of \<^verbatim>\<open>run_collection_pipeline\<close>: the collected data is processed and
  stored, and the summary is generated.
\<close>

definition summarize_collected ::
  "pipeline_env \<Rightarrow> collected \<Rightarrow> DataPipeline \<Rightarrow> real \<Rightarrow> real \<Rightarrow> PipelineSummary \<times> DataPipeline" where
  "summarize_collected env collected_data p duration now =
     (case process_and_store_data env collected_data p of
        (pipeline_results, p') \<Rightarrow> generate_pipeline_summary p' pipeline_results duration now)"

text \<open>
  \<^verbatim>\<open>run_collection_pipeline\<close>, started at time \<open>now\<close>.  Collection takes the time its
  sleeps take; validation and storage take none, and the validators read the clock of
  \<open>env\<close>.  An exception that escapes collection is logged twice and re-raised.
\<close>

definition run_collection_pipeline ::
  "pipeline_env \<Rightarrow> DataPipeline \<Rightarrow> real \<Rightarrow> string \<Rightarrow> int \<Rightarrow>
   (exn + PipelineSummary) \<times> DataPipeline" where
  "run_collection_pipeline env p now collection_type limit =
     (let start_time = now;
          run = collect_data_for (orchestrator p) now collection_type limit;
          p1 = p \<lparr> orchestrator := run_orchestrator run \<rparr>
      in case run_results run of
           Inl e \<Rightarrow>
             (Inl e, p1 \<lparr> error_log := error_log p1 @ [''Data collection failed: '' @ exn_msg e,
                                                       ''Pipeline failed: '' @ exn_msg e] \<rparr>)
         | Inr collected_data \<Rightarrow>
             (case summarize_collected env collected_data p1
                     (run_finished run - start_time) (run_finished run) of
                (summary, p2) \<Rightarrow> (Inr summary, p2)))"

section \<open>The specification's reading of completeness\<close>

text \<open>
  The specification counts a field as present when it exists in the item and its value
  is neither null nor empty, and gives the completeness score as the weighted sum of
  the two fractions of present fields.  These two definitions follow that wording.
\<close>

definition spec_field_present :: "pydict \<Rightarrow> string \<Rightarrow> bool" where
  "spec_field_present data field =
     (case map_of data field of
        None \<Rightarrow> False
      | Some v \<Rightarrow> v \<noteq> PNone \<and> v \<noteq> PStr [] \<and> v \<noteq> PList [] \<and> v \<noteq> PDict [])"

definition spec_completeness :: "pydict \<Rightarrow> string list \<Rightarrow> string list \<Rightarrow> real" where
  "spec_completeness data required_fields optional_fields =
     7 / 10 * (real (length (filter (spec_field_present data) required_fields))
               / real (length required_fields))
   + 3 / 10 * (real (length (filter (spec_field_present data) optional_fields))
               / real (length optional_fields))"

section \<open>The specification's reading of the per-source limit\<close>

text \<open>
  The specification has the convenience operations split the limit evenly across the
  registered sources, with a floor of 10 per source.
\<close>

definition spec_per_source_limit :: "int \<Rightarrow> registry \<Rightarrow> int" where
  "spec_per_source_limit limit reg = max (limit div int (length reg)) 10"

section \<open>Concrete inputs\<close>

text \<open>
  A clock at 2023-11-14T22:13:20Z on a machine whose local time is UTC, with an ISO
  parser that knows that one instant.  Every other string, among them
  \<^verbatim>\<open>'not-a-date'\<close>, is rejected, as \<^verbatim>\<open>datetime.fromisoformat\<close> rejects it.
\<close>

definition demo_clock :: clock where
  "demo_clock =
     \<lparr> utc_now = 1700000000,
       fromtimestamp = (\<lambda>x. Some x),
       fromisoformat = (\<lambda>s. if s = ''2023-11-14T22:13:20+00:00'' then Some 1700000000 else None) \<rparr>"

section \<open>Auxiliary notions for the proofs\<close>

text \<open>A tally is well formed when its score lies between 0 and its number of checks.\<close>

definition tally_ok :: "tally \<Rightarrow> bool" where
  "tally_ok t = (0 \<le> fst t \<and> fst t \<le> real (snd t))"

text \<open>
  The limiters that \<^verbatim>\<open>APIRateLimiter\<close> creates for the news and the Twitter API, and the
  news limiter with given window contents.
\<close>

definition news_limiter :: RateLimiter where
  "news_limiter = new_rate_limiter (rate_limit_config 1 4 100)"

definition twitter_limiter :: RateLimiter where
  "twitter_limiter = new_rate_limiter (rate_limit_config 1 2 50)"

definition news_limiter_with ::
  "real list \<Rightarrow> real list \<Rightarrow> real list \<Rightarrow> RateLimiter" where
  "news_limiter_with ms hs ds =
     news_limiter \<lparr> minute_times := ms, hour_times := hs, day_times := ds \<rparr>"

text \<open>
  The trace of a call whose attempts \<open>lo\<close> to \<open>hi\<close> all fail: every attempt but the
  last is followed by a sleep of \<open>2 ^ attempt\<close> seconds.
\<close>

definition exhausted_trace :: "nat \<Rightarrow> nat \<Rightarrow> event list" where
  "exhausted_trace lo hi =
     concat (map (\<lambda>i. [Attempt i, Sleep (2 ^ i)]) [lo..<hi]) @ [Attempt hi]"

text \<open>A news collector, fresh from its constructor, whose source is down.\<close>

definition failing_collector :: Collector where
  "failing_collector =
     \<lparr> name = ''news'', rate_limit_delay = 1, max_retries = 3, last_collection = None,
       collection_count = 0, error_count = 0, data_calls = 0,
       collect_data = (\<lambda>n kwargs. Inl (Exn ''ConnectionError'' ''service unavailable'')),
       validate_data = (\<lambda>d. Inr (d \<noteq> [])),
       transform_data = (\<lambda>d. Inr d) \<rparr>"

text \<open>
  A collector whose source answers every request with one item, the request's own
  keyword arguments, so that what the orchestrator passed on can be read off the result.
\<close>

definition echo_collector :: "string \<Rightarrow> Collector" where
  "echo_collector nm =
     \<lparr> name = nm, rate_limit_delay = 1, max_retries = 3, last_collection = None,
       collection_count = 0, error_count = 0, data_calls = 0,
       collect_data = (\<lambda>n kwargs. Inr [kwargs]),
       validate_data = (\<lambda>d. Inr (d \<noteq> [])),
       transform_data = (\<lambda>d. Inr d) \<rparr>"

text \<open>An environment with every credential set, and one without the Twitter credentials.\<close>

definition all_credentials :: "string \<Rightarrow> string option" where
  "all_credentials var = Some ''secret''"

definition no_twitter_credentials :: "string \<Rightarrow> string option" where
  "no_twitter_credentials var =
     (if var = ''TWITTER_BEARER_TOKEN'' \<or> var = ''TWITTER_API_KEY'' then None else Some ''secret'')"

text \<open>An orchestrator over three sources, of which the news source is down.\<close>

definition demo_orchestrator :: DataCollectionOrchestrator where
  "demo_orchestrator =
     create_orchestrator all_credentials (Inr (echo_collector ''twitter''))
       (Inr (echo_collector ''reddit'')) (Inr failing_collector)"

text \<open>An orchestrator whose registry holds two sources, Reddit and news.\<close>

definition two_source_orchestrator :: DataCollectionOrchestrator where
  "two_source_orchestrator =
     create_orchestrator no_twitter_credentials (Inr (echo_collector ''twitter''))
       (Inr (echo_collector ''reddit'')) (Inr (echo_collector ''news''))"

text \<open>
  What the task of a registry entry yields under a configuration, and the sequence that
  the orchestrator stores for such an outcome.
\<close>

definition source_outcome ::
  "collection_config \<Rightarrow> real \<Rightarrow> string \<times> Collector \<Rightarrow> exn + pydict list option" where
  "source_outcome cfg now entry =
     (case map_of cfg (fst entry) of
        Some kwargs \<Rightarrow> fst (collect_with_retry (snd entry) now kwargs)
      | None \<Rightarrow> Inr None)"

fun outcome_items :: "exn + pydict list option \<Rightarrow> pydict list" where
  "outcome_items (Inr (Some items)) = items"
| "outcome_items r = []"

subsection \<open>What the storage was asked to do\<close>

text \<open>
  The Silver ids for which \<^verbatim>\<open>store_gold_data\<close> was called, and the items
  passed to \<^verbatim>\<open>store_bronze_data\<close>, in call order.
\<close>

fun gold_call_ids :: "storage_call list \<Rightarrow> nat list" where
  "gold_call_ids [] = []"
| "gold_call_ids (GoldCall silver_id analytics aggregation_type metrics # cs) =
     silver_id # gold_call_ids cs"
| "gold_call_ids (c # cs) = gold_call_ids cs"

fun bronze_call_items :: "storage_call list \<Rightarrow> pydict list" where
  "bronze_call_items [] = []"
| "bronze_call_items (BronzeCall data source data_type # cs) = data # bronze_call_items cs"
| "bronze_call_items (c # cs) = bronze_call_items cs"

text \<open>The ids of the Silver rows stored with the status \<^verbatim>\<open>'valid'\<close>.\<close>

definition valid_silver_ids :: "DataLakeStorage \<Rightarrow> nat list" where
  "valid_silver_ids st =
     map processed_id (filter (\<lambda>row. validation_status row = ''valid'') (processed_data st))"

text \<open>
  Gold was requested only for Silver rows stored as valid, and for all of them.
\<close>

definition gold_only_for_valid :: "DataLakeStorage \<Rightarrow> bool" where
  "gold_only_for_valid st = (set (gold_call_ids (calls st)) \<subseteq> set (valid_silver_ids st))"

definition gold_for_all_valid :: "DataLakeStorage \<Rightarrow> bool" where
  "gold_for_all_valid st = (set (valid_silver_ids st) \<subseteq> set (gold_call_ids (calls st)))"

text \<open>
  Deriving the analytics and the metrics of an item raises nothing; the number of
  items of a source that the validator accepts.
\<close>

definition analytics_derivable :: "pipeline_env \<Rightarrow> string \<Rightarrow> pydict \<Rightarrow> bool" where
  "analytics_derivable env source item =
     (\<not> isl (generate_analytics_data env item source) \<and> \<not> isl (calculate_metrics env item source))"

definition count_valid :: "pipeline_env \<Rightarrow> string \<Rightarrow> pydict list \<Rightarrow> nat" where
  "count_valid env source data_items =
     length (filter (\<lambda>item. is_valid (pipeline_validate_data env source item)) data_items)"

subsection \<open>Results of a run\<close>

text \<open>
  The results a source and a run start from, the number of valid records in an entry
  of the quality metrics, and the bound of the Gold ids by the valid records.
\<close>

definition empty_results :: SourceResults where
  "empty_results = \<lparr> bronze_ids = [], silver_ids = [], gold_ids = [], quality_results = [] \<rparr>"

definition empty_pipeline_results :: PipelineResults where
  "empty_pipeline_results =
     \<lparr> bronze_layer = [], silver_layer = [], gold_layer = [], quality_metrics = [], errors = [] \<rparr>"

definition gold_within_valid :: "SourceResults \<Rightarrow> bool" where
  "gold_within_valid r = (length (gold_ids r) \<le> length (filter is_valid (quality_results r)))"

definition valid_records_of :: "QualitySummary option option \<Rightarrow> nat" where
  "valid_records_of m = (case m of Some (Some q) \<Rightarrow> valid_records q | _ \<Rightarrow> 0)"

definition gold_counts_bounded :: "PipelineResults \<Rightarrow> bool" where
  "gold_counts_bounded pr =
     (\<forall>source ids. map_of (gold_layer pr) source = Some ids \<longrightarrow>
        length ids \<le> valid_records_of (map_of (quality_metrics pr) source))"

subsection \<open>A pipeline on concrete data\<close>

text \<open>
  An environment at time 1700000000, an empty store that never fails, a store whose
  call number \<open>k\<close> (counted from 0) raises, a pipeline over a store, and a Reddit
  post created ten seconds before the validation, with the given number of comments.
\<close>

definition demo_env :: pipeline_env where
  "demo_env =
     \<lparr> validator_clock = demo_clock,
       calendar_features = (\<lambda>timestamp. []),
       utcnow_isoformat = ''2023-11-14T22:13:20'',
       str_len = (\<lambda>item. 0) \<rparr>"

definition fresh_storage :: DataLakeStorage where
  "fresh_storage =
     \<lparr> raw_data = [], processed_data = [], analytics_data = [], calls = [],
       db_fault = (\<lambda>n. None),
       isoformat_utc = (\<lambda>x. ''2023-11-14T22:13:10+00:00'') \<rparr>"

definition outage_storage :: "nat \<Rightarrow> DataLakeStorage" where
  "outage_storage k =
     fresh_storage \<lparr> db_fault :=
       (\<lambda>n. if n = k then Some (Exn ''OperationalError'' ''connection lost'') else None) \<rparr>"

definition demo_pipeline :: "DataLakeStorage \<Rightarrow> DataPipeline" where
  "demo_pipeline st =
     \<lparr> storage = st, orchestrator = two_source_orchestrator, total_processed = 0,
       successful_stores = 0, failed_stores = 0, avg_quality_score = 0, error_log = [] \<rparr>"

definition reddit_post :: "pyval \<Rightarrow> pydict" where
  "reddit_post num_comments =
     [(''id'', PStr ''t3_a1''), (''title'', PStr ''Hello world''), (''author'', PStr ''bob''),
      (''score'', PInt 10), (''created_utc'', PInt 1699999990), (''selftext'', PStr ''x''),
      (''url'', PStr ''http://x''), (''subreddit'', PStr ''t''), (''num_comments'', num_comments)]"

section \<open>Properties of the quality validators\<close>

lemma field_present_Nil: "field_present [] f = False"
  by (simp add: field_present_def)

lemma filter_none: "\<forall>f \<in> set fs. \<not> P f \<Longrightarrow> filter P fs = []"
  by (induction fs) auto

lemma ratio_le_one: "real (length (filter P xs)) / real (length xs) \<le> 1"
  by (cases "xs = []") (simp_all add: divide_le_eq)

text \<open>
  Claim C6, as the code has it.  A falsy timestamp (missing, \<^verbatim>\<open>None\<close>, zero, the
  empty string) scores 0.  A timestamp that converts to an instant scores by the step
  function of its age in hours: at most 1 hour gives 1.0, at most 24 hours 0.9, at
  most 168 hours 0.7, older 0.5.  A truthy timestamp whose conversion raises
  (an unparseable string, a value of another type) scores 0.5, not 0.
\<close>

theorem check_timeliness_cases:
  "(\<not> py_truthy ts \<longrightarrow> check_timeliness c ts = 0) \<and>
   (py_truthy ts \<and> timestamp_to_datetime c ts = Some dt \<longrightarrow>
      check_timeliness c ts =
        (if (utc_now c - dt) / 3600 \<le> 1 then 1
         else if (utc_now c - dt) / 3600 \<le> 24 then 9 / 10
         else if (utc_now c - dt) / 3600 \<le> 168 then 7 / 10
         else 5 / 10)) \<and>
   (py_truthy ts \<and> timestamp_to_datetime c ts = None \<longrightarrow> check_timeliness c ts = 5 / 10)"
  by (simp add: check_timeliness_def age_score_def)

theorem check_timeliness_cases_witness:
  "\<not> py_truthy PNone \<and> check_timeliness demo_clock PNone = 0 \<and>
   py_truthy (PInt 1699990000) \<and>
   timestamp_to_datetime demo_clock (PInt 1699990000) = Some 1699990000 \<and>
   check_timeliness demo_clock (PInt 1699990000) = 9 / 10 \<and>
   py_truthy (PList [PInt 1]) \<and> timestamp_to_datetime demo_clock (PList [PInt 1]) = None \<and>
   check_timeliness demo_clock (PList [PInt 1]) = 5 / 10"
  using check_timeliness_cases [of PNone demo_clock]
    check_timeliness_cases [of "PInt 1699990000" demo_clock 1699990000]
    check_timeliness_cases [of "PList [PInt 1]" demo_clock]
  by (simp add: demo_clock_def)

text \<open>
  Claim C6 as stated fails: the unparseable timestamp \<^verbatim>\<open>'not-a-date'\<close> scores 0.5,
  the value of the \<^verbatim>\<open>except\<close> branch, where the claim says 0.0.
\<close>

theorem unparseable_timestamp_counterexample:
  "check_timeliness demo_clock (PStr ''not-a-date'') = 5 / 10 \<and>
   check_timeliness demo_clock (PStr ''not-a-date'') \<noteq> 0"
  by (simp add: check_timeliness_def demo_clock_def replace_Z_def)

text \<open>
  Claim C7, as the code has it.  For non-empty field lists (the three source kinds
  have five or four required and four optional fields) the completeness score is
  0.7 times the fraction of required fields present plus 0.3 times the fraction of
  optional fields present, where a field is present exactly when the item has the key
  with a value other than \<^verbatim>\<open>None\<close>; an empty string or list counts as present.
\<close>

theorem check_completeness_formula:
  assumes "required_fields \<noteq> []" and "optional_fields \<noteq> []"
  shows "check_completeness data required_fields optional_fields =
           7 / 10 * (real (length (filter (field_present data) required_fields))
                     / real (length required_fields))
         + 3 / 10 * (real (length (filter (field_present data) optional_fields))
                     / real (length optional_fields))
       \<and> (\<forall>f. field_present data f \<longleftrightarrow> (\<exists>v. map_of data f = Some v \<and> v \<noteq> PNone))"
proof
  show "check_completeness data required_fields optional_fields =
           7 / 10 * (real (length (filter (field_present data) required_fields))
                     / real (length required_fields))
         + 3 / 10 * (real (length (filter (field_present data) optional_fields))
                     / real (length optional_fields))"
  proof (cases "data = []")
    case True
    then show ?thesis by (simp add: check_completeness_def field_present_Nil)
  next
    case False
    with assms show ?thesis by (simp add: check_completeness_def Let_def)
  qed
  show "\<forall>f. field_present data f \<longleftrightarrow> (\<exists>v. map_of data f = Some v \<and> v \<noteq> PNone)"
    by (auto simp: field_present_def split: option.splits)
qed

theorem check_completeness_formula_witness:
  "reddit_required_fields \<noteq> [] \<and> reddit_optional_fields \<noteq> [] \<and>
   check_completeness [(''id'', PStr ''t3_a''), (''url'', PNone)]
     reddit_required_fields reddit_optional_fields = 7 / 50"
proof -
  have r: "reddit_required_fields \<noteq> []" and o: "reddit_optional_fields \<noteq> []"
    by (simp_all add: reddit_required_fields_def reddit_optional_fields_def)
  show ?thesis
    using check_completeness_formula [OF r o, of "[(''id'', PStr ''t3_a''), (''url'', PNone)]"]
    by (simp add: reddit_required_fields_def reddit_optional_fields_def field_present_def)
qed

text \<open>
  Claim C7 as stated fails: a Reddit item whose only field is \<^verbatim>\<open>'id': ''\<close> has no
  field that is present in the claim's sense, so the claimed score is 0, but the code
  counts the empty string as present and returns 0.7 / 5 = 0.14.
\<close>

theorem empty_value_completeness_counterexample:
  "check_completeness [(''id'', PStr [])] reddit_required_fields reddit_optional_fields = 7 / 50 \<and>
   spec_completeness [(''id'', PStr [])] reddit_required_fields reddit_optional_fields = 0"
  by (simp add: check_completeness_def spec_completeness_def reddit_required_fields_def
      reddit_optional_fields_def field_present_def spec_field_present_def)

subsection \<open>Sub-scores lie between 0 and 1\<close>

lemma tally_ok_init: "tally_ok (0, 0)"
  by (simp add: tally_ok_def)

lemma tally_ok_type_check: "tally_ok t \<Longrightarrow> tally_ok (type_check data k ok t)"
  by (auto simp: tally_ok_def type_check_def split: option.splits)

lemma tally_ok_length_check:
  "tally_ok t \<Longrightarrow> length_check data k lo hi t = Inr t' \<Longrightarrow> tally_ok t'"
  by (auto simp: tally_ok_def length_check_def split: option.splits if_splits sum.splits)

lemma tally_ok_foldl:
  "tally_ok t \<Longrightarrow> tally_ok (foldl (\<lambda>t k. type_check data k ok t) t ks)"
  by (induction ks arbitrary: t) (simp_all add: tally_ok_type_check)

lemma tally_ratio_bounds: "tally_ok t \<Longrightarrow> 0 \<le> tally_ratio t \<and> tally_ratio t \<le> 1"
  by (auto simp: tally_ok_def tally_ratio_def divide_le_eq)

lemma reddit_types_bounds: "0 \<le> check_reddit_data_types d \<and> check_reddit_data_types d \<le> 1"
  unfolding check_reddit_data_types_def
  by (intro tally_ratio_bounds tally_ok_type_check tally_ok_init)

lemma news_types_bounds: "0 \<le> check_news_data_types d \<and> check_news_data_types d \<le> 1"
  unfolding check_news_data_types_def
  by (intro tally_ratio_bounds tally_ok_type_check tally_ok_init)

lemma twitter_types_bounds: "0 \<le> check_twitter_data_types d \<and> check_twitter_data_types d \<le> 1"
  unfolding check_twitter_data_types_def
  by (intro tally_ratio_bounds tally_ok_foldl tally_ok_type_check tally_ok_init)

lemma reddit_content_bounds:
  "check_reddit_content_quality d = Inr x \<Longrightarrow> 0 \<le> x \<and> x \<le> 1"
  unfolding check_reddit_content_quality_def
  by (auto split: sum.splits
      dest!: tally_ok_length_check [OF tally_ok_init]
      intro: tally_ratio_bounds [THEN conjunct1] tally_ratio_bounds [THEN conjunct2]
        tally_ok_type_check)

lemma news_content_bounds:
  "check_news_content_quality d = Inr x \<Longrightarrow> 0 \<le> x \<and> x \<le> 1"
  unfolding check_news_content_quality_def
  by (auto split: sum.splits
      dest!: tally_ok_length_check [OF tally_ok_init]
      dest: tally_ok_length_check
      intro: tally_ratio_bounds [THEN conjunct1] tally_ratio_bounds [THEN conjunct2])

lemma twitter_content_bounds:
  "check_twitter_content_quality d = Inr x \<Longrightarrow> 0 \<le> x \<and> x \<le> 1"
  unfolding check_twitter_content_quality_def
  by (auto split: sum.splits
      dest!: tally_ok_length_check [OF tally_ok_init]
      intro: tally_ratio_bounds [THEN conjunct1] tally_ratio_bounds [THEN conjunct2]
        tally_ok_foldl)

subsection \<open>Items without required fields\<close>

lemma completeness_optional_only:
  assumes "\<forall>f \<in> set req. \<not> field_present d f"
  shows "check_completeness d req opt =
     (if d = [] \<or> opt = [] then 0
      else real (length (filter (field_present d) opt)) / real (length opt) * (3 / 10))"
  using assms by (simp add: check_completeness_def Let_def filter_none)

lemma completeness_no_required:
  assumes "\<forall>f \<in> set req. \<not> field_present d f"
  shows "0 \<le> check_completeness d req opt \<and> check_completeness d req opt \<le> 3 / 10"
proof -
  define q where "q = real (length (filter (field_present d) opt)) / real (length opt)"
  have "0 \<le> q" "q \<le> 1"
    unfolding q_def by (simp_all add: ratio_le_one)
  moreover have "check_completeness d req opt = (if d = [] \<or> opt = [] then 0 else q * (3 / 10))"
    unfolding q_def using assms by (rule completeness_optional_only)
  ultimately show ?thesis by auto
qed

lemma completeness_nothing_present:
  assumes "\<forall>f \<in> set req. \<not> field_present d f" and "\<forall>f \<in> set opt. \<not> field_present d f"
  shows "check_completeness d req opt = 0"
  using assms by (simp add: check_completeness_def Let_def filter_none)

lemma timeliness_absent:
  "\<not> field_present d k \<Longrightarrow> check_timeliness c (py_get d k PNone) = 0"
  by (auto simp: field_present_def py_get_def check_timeliness_def split: option.splits)

lemma quality_result_low:
  assumes "0 \<le> a" "a \<le> 3 / 10" "0 \<le> b" "b \<le> 1" "\<And>x. r = Inr x \<Longrightarrow> 0 \<le> x \<and> x \<le> 1"
  shows "\<not> is_valid (quality_result c a b r 0) \<and> 0 \<le> quality_score (quality_result c a b r 0)
     \<and> quality_score (quality_result c a b r 0) \<le> 23 / 40"
proof (cases r)
  case (Inl e)
  then show ?thesis by (simp add: quality_result_def)
next
  case (Inr x)
  with assms(5) have "0 \<le> x" "x \<le> 1" by auto
  with assms(1-4) Inr show ?thesis
    by (simp add: quality_result_def Let_def completeness_threshold_def)
qed

lemma type_check_absent:
  "\<not> field_present d k \<Longrightarrow> \<not> ok PNone \<Longrightarrow> fst (type_check d k ok t) = fst t"
  by (auto simp: field_present_def type_check_def split: option.splits)

lemma length_check_absent:
  "\<not> field_present d k \<Longrightarrow> length_check d k lo hi t = Inr t"
  by (auto simp: field_present_def length_check_def split: option.splits)

lemma foldl_type_check_absent:
  "\<forall>k \<in> set ks. \<not> field_present d k \<Longrightarrow> \<not> ok PNone \<Longrightarrow>
   fst (foldl (\<lambda>t k. type_check d k ok t) t ks) = fst t"
  by (induction ks arbitrary: t) (simp_all add: type_check_absent)

lemma tally_ratio_zero: "fst t = 0 \<Longrightarrow> tally_ratio t = 0"
  by (simp add: tally_ratio_def)

lemma not_ok_None:
  "\<not> is_str_or_int PNone" "\<not> is_int_or_float PNone" "\<not> is_str PNone"
  "\<not> is_http_str PNone" "\<not> is_nonneg_number PNone"
  by (simp_all add: is_str_or_int_def is_nonneg_number_def)

lemma reddit_nothing_present:
  assumes "\<forall>f \<in> set reddit_required_fields. \<not> field_present d f"
  shows "check_reddit_data_types d = 0" and "check_reddit_content_quality d = Inr 0"
  using assms
  by (simp_all add: check_reddit_data_types_def check_reddit_content_quality_def
      reddit_required_fields_def length_check_absent tally_ratio_zero type_check_absent not_ok_None)

lemma news_nothing_present:
  assumes "\<forall>f \<in> set news_required_fields. \<not> field_present d f"
    and "\<forall>f \<in> set news_optional_fields. \<not> field_present d f"
  shows "check_news_data_types d = 0" and "check_news_content_quality d = Inr 0"
  using assms
  by (simp_all add: check_news_data_types_def check_news_content_quality_def
      news_required_fields_def news_optional_fields_def
      length_check_absent tally_ratio_zero type_check_absent not_ok_None)

lemma twitter_nothing_present:
  assumes "\<forall>f \<in> set twitter_required_fields. \<not> field_present d f"
    and "\<forall>f \<in> set twitter_optional_fields. \<not> field_present d f"
  shows "check_twitter_data_types d = 0" and "check_twitter_content_quality d = Inr 0"
proof -
  have m: "\<forall>k \<in> set metric_fields. \<not> field_present d k"
    using assms(2) by (simp add: metric_fields_def twitter_optional_fields_def)
  show "check_twitter_data_types d = 0"
    using assms(1)
    by (simp add: check_twitter_data_types_def twitter_required_fields_def tally_ratio_zero
        foldl_type_check_absent [OF m] type_check_absent not_ok_None)
  show "check_twitter_content_quality d = Inr 0"
    using assms(1)
    by (simp add: check_twitter_content_quality_def twitter_required_fields_def tally_ratio_zero
        foldl_type_check_absent [OF m] length_check_absent not_ok_None)
qed

lemma quality_result_zero: "quality_score (quality_result c 0 0 (Inr 0) 0) = 0"
  by (simp add: quality_result_def)

lemma reddit_missing_required:
  assumes "\<forall>f \<in> set reddit_required_fields. \<not> field_present d f"
  shows "\<not> is_valid (validate_reddit_data c d)"
    and "quality_score (validate_reddit_data c d) \<le> 23 / 40"
    and "\<forall>f \<in> set reddit_optional_fields. \<not> field_present d f \<Longrightarrow>
         quality_score (validate_reddit_data c d) = 0"
proof -
  have t: "check_timeliness c (py_get d ''created_utc'' PNone) = 0"
    using assms by (intro timeliness_absent) (simp add: reddit_required_fields_def)
  note low = quality_result_low [of "check_completeness d reddit_required_fields reddit_optional_fields"
      "check_reddit_data_types d" "check_reddit_content_quality d" c]
  have l: "\<not> is_valid (validate_reddit_data c d) \<and> 0 \<le> quality_score (validate_reddit_data c d)
     \<and> quality_score (validate_reddit_data c d) \<le> 23 / 40"
    unfolding validate_reddit_data_def t
    using completeness_no_required [OF assms] reddit_types_bounds [of d] reddit_content_bounds [of d]
    by (intro low) auto
  from l show "\<not> is_valid (validate_reddit_data c d)" by simp
  from l show "quality_score (validate_reddit_data c d) \<le> 23 / 40" by simp
  show "quality_score (validate_reddit_data c d) = 0"
    if "\<forall>f \<in> set reddit_optional_fields. \<not> field_present d f"
    unfolding validate_reddit_data_def t
    by (simp add: completeness_nothing_present [OF assms that] reddit_nothing_present [OF assms]
        quality_result_zero)
qed

lemma news_missing_required:
  assumes "\<forall>f \<in> set news_required_fields. \<not> field_present d f"
  shows "\<not> is_valid (validate_news_data c d)"
    and "quality_score (validate_news_data c d) \<le> 23 / 40"
    and "\<forall>f \<in> set news_optional_fields. \<not> field_present d f \<Longrightarrow>
         quality_score (validate_news_data c d) = 0"
proof -
  have t: "check_timeliness c (py_get d ''published_at'' PNone) = 0"
    using assms by (intro timeliness_absent) (simp add: news_required_fields_def)
  note low = quality_result_low [of "check_completeness d news_required_fields news_optional_fields"
      "check_news_data_types d" "check_news_content_quality d" c]
  have l: "\<not> is_valid (validate_news_data c d) \<and> 0 \<le> quality_score (validate_news_data c d)
     \<and> quality_score (validate_news_data c d) \<le> 23 / 40"
    unfolding validate_news_data_def t
    using completeness_no_required [OF assms] news_types_bounds [of d] news_content_bounds [of d]
    by (intro low) auto
  from l show "\<not> is_valid (validate_news_data c d)" by simp
  from l show "quality_score (validate_news_data c d) \<le> 23 / 40" by simp
  show "quality_score (validate_news_data c d) = 0"
    if "\<forall>f \<in> set news_optional_fields. \<not> field_present d f"
    unfolding validate_news_data_def t
    by (simp add: completeness_nothing_present [OF assms that] news_nothing_present [OF assms that]
        quality_result_zero)
qed

lemma twitter_missing_required:
  assumes "\<forall>f \<in> set twitter_required_fields. \<not> field_present d f"
  shows "\<not> is_valid (validate_twitter_data c d)"
    and "quality_score (validate_twitter_data c d) \<le> 23 / 40"
    and "\<forall>f \<in> set twitter_optional_fields. \<not> field_present d f \<Longrightarrow>
         quality_score (validate_twitter_data c d) = 0"
proof -
  have t: "check_timeliness c (py_get d ''created_at'' PNone) = 0"
    using assms by (intro timeliness_absent) (simp add: twitter_required_fields_def)
  note low = quality_result_low [of "check_completeness d twitter_required_fields twitter_optional_fields"
      "check_twitter_data_types d" "check_twitter_content_quality d" c]
  have l: "\<not> is_valid (validate_twitter_data c d) \<and> 0 \<le> quality_score (validate_twitter_data c d)
     \<and> quality_score (validate_twitter_data c d) \<le> 23 / 40"
    unfolding validate_twitter_data_def t
    using completeness_no_required [OF assms] twitter_types_bounds [of d] twitter_content_bounds [of d]
    by (intro low) auto
  from l show "\<not> is_valid (validate_twitter_data c d)" by simp
  from l show "quality_score (validate_twitter_data c d) \<le> 23 / 40" by simp
  show "quality_score (validate_twitter_data c d) = 0"
    if "\<forall>f \<in> set twitter_optional_fields. \<not> field_present d f"
    unfolding validate_twitter_data_def t
    by (simp add: completeness_nothing_present [OF assms that] twitter_nothing_present [OF assms that]
        quality_result_zero)
qed

text \<open>
  Claim C9, as the code has it.  An item none of whose required fields is present
  (each is absent or \<^verbatim>\<open>None\<close>) is never valid, and its quality score is at most
  0.575, below the threshold 0.8: completeness is at most 0.3, timeliness is 0 because
  the timestamp field is required, and the two remaining sub-scores are at most 1.
  The score is 0.0 when none of the optional fields is present either.  This holds for
  each of the three validators.
\<close>

theorem missing_required_fields_invalid:
  "((\<forall>f \<in> set reddit_required_fields. \<not> field_present d f) \<longrightarrow>
      \<not> is_valid (validate_reddit_data c d) \<and>
      quality_score (validate_reddit_data c d) \<le> 23 / 40 \<and>
      ((\<forall>f \<in> set reddit_optional_fields. \<not> field_present d f) \<longrightarrow>
         quality_score (validate_reddit_data c d) = 0)) \<and>
   ((\<forall>f \<in> set news_required_fields. \<not> field_present d f) \<longrightarrow>
      \<not> is_valid (validate_news_data c d) \<and>
      quality_score (validate_news_data c d) \<le> 23 / 40 \<and>
      ((\<forall>f \<in> set news_optional_fields. \<not> field_present d f) \<longrightarrow>
         quality_score (validate_news_data c d) = 0)) \<and>
   ((\<forall>f \<in> set twitter_required_fields. \<not> field_present d f) \<longrightarrow>
      \<not> is_valid (validate_twitter_data c d) \<and>
      quality_score (validate_twitter_data c d) \<le> 23 / 40 \<and>
      ((\<forall>f \<in> set twitter_optional_fields. \<not> field_present d f) \<longrightarrow>
         quality_score (validate_twitter_data c d) = 0))"
  using reddit_missing_required [of d c] news_missing_required [of d c]
    twitter_missing_required [of d c]
  by blast

theorem missing_required_fields_invalid_witness:
  "list_all (\<lambda>f. \<not> field_present [(''selftext'', PStr ''x'')] f) reddit_required_fields \<and>
   list_all (\<lambda>f. \<not> field_present [(''selftext'', PStr ''x'')] f) news_required_fields \<and>
   list_all (\<lambda>f. \<not> field_present [(''selftext'', PStr ''x'')] f) twitter_required_fields \<and>
   list_all (\<lambda>f. \<not> field_present [(''selftext'', PStr ''x'')] f) news_optional_fields \<and>
   list_all (\<lambda>f. \<not> field_present [(''selftext'', PStr ''x'')] f) twitter_optional_fields \<and>
   list_all (\<lambda>f. \<not> field_present [(''title'', PNone)] f) reddit_optional_fields \<and>
   list_all (\<lambda>f. \<not> field_present [(''title'', PNone)] f) reddit_required_fields \<and>
   \<not> is_valid (validate_reddit_data demo_clock [(''selftext'', PStr ''x'')]) \<and>
   quality_score (validate_reddit_data demo_clock [(''selftext'', PStr ''x'')]) \<le> 23 / 40 \<and>
   \<not> is_valid (validate_news_data demo_clock [(''selftext'', PStr ''x'')]) \<and>
   quality_score (validate_news_data demo_clock [(''selftext'', PStr ''x'')]) = 0 \<and>
   \<not> is_valid (validate_twitter_data demo_clock [(''selftext'', PStr ''x'')]) \<and>
   quality_score (validate_twitter_data demo_clock [(''selftext'', PStr ''x'')]) = 0 \<and>
   quality_score (validate_reddit_data demo_clock [(''title'', PNone)]) = 0"
proof -
  have h:
    "\<forall>f \<in> set reddit_required_fields. \<not> field_present [(''selftext'', PStr ''x'')] f"
    "\<forall>f \<in> set news_required_fields. \<not> field_present [(''selftext'', PStr ''x'')] f"
    "\<forall>f \<in> set twitter_required_fields. \<not> field_present [(''selftext'', PStr ''x'')] f"
    "\<forall>f \<in> set news_optional_fields. \<not> field_present [(''selftext'', PStr ''x'')] f"
    "\<forall>f \<in> set twitter_optional_fields. \<not> field_present [(''selftext'', PStr ''x'')] f"
    "\<forall>f \<in> set reddit_optional_fields. \<not> field_present [(''title'', PNone)] f"
    "\<forall>f \<in> set reddit_required_fields. \<not> field_present [(''title'', PNone)] f"
    by (simp_all add: field_present_def reddit_required_fields_def news_required_fields_def
        twitter_required_fields_def news_optional_fields_def twitter_optional_fields_def
        reddit_optional_fields_def)
  show ?thesis
    using h missing_required_fields_invalid [of "[(''selftext'', PStr ''x'')]" demo_clock]
      missing_required_fields_invalid [of "[(''title'', PNone)]" demo_clock]
    unfolding list_all_iff by blast
qed

text \<open>
  Claim C9 as stated fails in its first half: a Reddit item that has none of the
  required fields but carries the optional \<^verbatim>\<open>selftext\<close> scores
  (0.3 \<times> 1/4 + 0 + 0 + 0) / 4 = 0.01875, not 0.0.  It is still invalid.
\<close>

theorem missing_required_score_counterexample:
  "quality_score (validate_reddit_data demo_clock [(''selftext'', PStr ''x'')]) = 3 / 160 \<and>
   quality_score (validate_reddit_data demo_clock [(''selftext'', PStr ''x'')]) \<noteq> 0"
  by (simp add: validate_reddit_data_def quality_result_def check_completeness_def
      check_reddit_data_types_def check_reddit_content_quality_def check_timeliness_def
      reddit_required_fields_def reddit_optional_fields_def field_present_def
      type_check_def length_check_def tally_ratio_def py_get_def Let_def)

section \<open>Properties of the rate limiter\<close>

lemma jitter_bound: "\<bar>5 / 10 - frac (t::real)\<bar> \<le> 1 / 2"
proof -
  have "0 \<le> frac t" "frac t < 1" by (simp_all add: frac_lt_1)
  then show ?thesis by linarith
qed

lemma calculate_delay_bound:
  assumes m: "1 \<le> backoff_multiplier (config rl)" and k: "0 < consecutive_failures rl"
  shows "\<bar>calculate_delay t rl - min 60 (backoff_multiplier (config rl) ^ consecutive_failures rl)\<bar>
         \<le> 1 / 10 * min 60 (backoff_multiplier (config rl) ^ consecutive_failures rl)"
proof -
  define b where "b = min 60 (backoff_multiplier (config rl) ^ consecutive_failures rl)"
  define j where "j = b * (1 / 10) * (5 / 10 - frac t)"
  have b1: "1 \<le> b"
    unfolding b_def using m by (simp add: one_le_power)
  have "\<bar>j\<bar> = b * (1 / 10) * \<bar>5 / 10 - frac t\<bar>"
    unfolding j_def using b1 by (simp add: abs_mult)
  also have "\<dots> \<le> b * (1 / 10) * (1 / 2)"
    using b1 jitter_bound [of t] by (intro mult_left_mono) auto
  finally have j: "\<bar>j\<bar> \<le> b / 20" by simp
  have cd: "calculate_delay t rl = max 1 (b + j)"
    using k by (simp add: calculate_delay_def b_def j_def Let_def)
  show ?thesis
    unfolding cd b_def [symmetric] using b1 j by (auto simp: max_def abs_le_iff)
qed

lemma record_failure_funpow:
  "consecutive_failures ((record_failure ^^ n) rl) = consecutive_failures rl + n"
  "config ((record_failure ^^ n) rl) = config rl"
  by (induction n) (simp_all add: record_failure_def)

text \<open>Every limiter of \<^verbatim>\<open>APIRateLimiter\<close> has the default multiplier 2.0.\<close>

lemma api_rate_limiter_multiplier:
  "map_of api_rate_limiter api = Some rl \<Longrightarrow> backoff_multiplier (config rl) = 2"
  by (auto simp: api_rate_limiter_def new_rate_limiter_def rate_limit_config_def split: if_splits)

text \<open>
  Claim C8.  For a limiter whose multiplier is at least 1 (each per-source limiter has
  2.0) and whose failure counter \<open>k\<close> is positive, the backoff delay differs from
  \<open>min 60 (multiplier ^ k)\<close> by at most 10 percent of that value, at any time of
  the call; the cap is 60 seconds.  After \<^verbatim>\<open>record_success\<close> the counter is 0 and
  the backoff delay is 0, however many \<^verbatim>\<open>record_failure\<close> calls came before.
\<close>

theorem backoff_delay_and_reset:
  assumes "1 \<le> backoff_multiplier (config rl)"
  shows "(0 < consecutive_failures rl \<longrightarrow>
           \<bar>calculate_delay t rl - min 60 (backoff_multiplier (config rl) ^ consecutive_failures rl)\<bar>
           \<le> 1 / 10 * min 60 (backoff_multiplier (config rl) ^ consecutive_failures rl)) \<and>
         consecutive_failures (record_success ((record_failure ^^ n) rl)) = 0 \<and>
         calculate_delay t (record_success ((record_failure ^^ n) rl)) = 0"
  using calculate_delay_bound [OF assms]
  by (simp add: record_success_def calculate_delay_def)

theorem backoff_delay_and_reset_witness:
  "1 \<le> backoff_multiplier (config ((record_failure ^^ 3) twitter_limiter)) \<and>
   0 < consecutive_failures ((record_failure ^^ 3) twitter_limiter) \<and>
   calculate_delay (4001 / 4) ((record_failure ^^ 3) twitter_limiter) = 41 / 5 \<and>
   \<bar>calculate_delay (4001 / 4) ((record_failure ^^ 3) twitter_limiter)
      - min 60 (backoff_multiplier (config ((record_failure ^^ 3) twitter_limiter))
                ^ consecutive_failures ((record_failure ^^ 3) twitter_limiter))\<bar>
     \<le> 1 / 10 * min 60 (backoff_multiplier (config ((record_failure ^^ 3) twitter_limiter))
                         ^ consecutive_failures ((record_failure ^^ 3) twitter_limiter)) \<and>
   consecutive_failures (record_success ((record_failure ^^ 3) twitter_limiter)) = 0 \<and>
   calculate_delay (4001 / 4) (record_success ((record_failure ^^ 3) twitter_limiter)) = 0"
proof -
  let ?rl = "(record_failure ^^ 3) twitter_limiter"
  have c: "config ?rl = rate_limit_config 1 2 50"
    by (simp add: record_failure_funpow twitter_limiter_def new_rate_limiter_def)
  have k: "consecutive_failures ?rl = 3"
    by (simp add: record_failure_funpow twitter_limiter_def new_rate_limiter_def)
  have m: "1 \<le> backoff_multiplier (config ?rl)"
    by (simp add: c rate_limit_config_def)
  have "\<lfloor>4001 / 4 :: real\<rfloor> = 1000" by linarith
  then have f: "frac (4001 / 4 :: real) = 1 / 4"
    by (simp add: frac_def)
  have d: "calculate_delay (4001 / 4) ?rl = 41 / 5"
    by (simp add: calculate_delay_def c k f rate_limit_config_def)
  have pos: "0 < consecutive_failures ?rl"
    by (simp add: k)
  note w = backoff_delay_and_reset [OF m, of "4001 / 4" 0]
  from w pos have w1: "\<bar>calculate_delay (4001 / 4) ?rl
      - min 60 (backoff_multiplier (config ?rl) ^ consecutive_failures ?rl)\<bar>
     \<le> 1 / 10 * min 60 (backoff_multiplier (config ?rl) ^ consecutive_failures ?rl)"
    by blast
  from w have w2: "consecutive_failures (record_success ?rl) = 0"
    and w3: "calculate_delay (4001 / 4) (record_success ?rl) = 0"
    by simp_all
  from m pos d w1 w2 w3 show ?thesis by blast
qed

subsection \<open>The per-minute cap\<close>

lemma news_call_1:
  "wait_if_needed 1000 news_limiter = (0, news_limiter_with [1000] [1000] [1000])"
  by (simp add: news_limiter_with_def news_limiter_def new_rate_limiter_def rate_limit_config_def
      wait_if_needed_def can_make_request_def clean_old_requests_def calculate_delay_def)

lemma news_call_2:
  "wait_if_needed 1001 (news_limiter_with [1000] [1000] [1000]) =
     (86399, news_limiter_with [1000, 1001] [1000, 1001] [1000, 1001])"
  by (simp add: news_limiter_with_def news_limiter_def new_rate_limiter_def rate_limit_config_def
      wait_if_needed_def can_make_request_def clean_old_requests_def calculate_delay_def)

lemma news_call_3:
  "wait_if_needed 87400 (news_limiter_with [1000, 1001] [1000, 1001] [1000, 1001]) =
     (0, news_limiter_with [87400] [87400] [1001, 87400])"
  by (simp add: news_limiter_with_def news_limiter_def new_rate_limiter_def rate_limit_config_def
      wait_if_needed_def can_make_request_def clean_old_requests_def calculate_delay_def)

text \<open>
  Claim C4 at a failing input.  The news limiter allows one request per minute.  Three
  calls arrive at times 1000, 1001 and 1002.  The first returns at once.  The second
  finds the minute window full and sleeps 86399 seconds, the wait computed from the
  day window, so it returns at 87400; the timestamp it records is 1001, the time
  before the sleep.  The third call starts when the second has released the lock, at
  87400, finds the minute window empty, and returns at once.  Two calls are admitted
  at time 87400, within one 60-second window, against a cap of 1.
\<close>

theorem per_minute_cap_exceeded:
  "map_of api_rate_limiter ''news'' = Some news_limiter \<and>
   requests_per_minute (config news_limiter) = 1 \<and>
   sequential_calls 0 news_limiter [1000, 1001, 1002] = [1000, 87400, 87400] \<and>
   admitted_in_window (sequential_calls 0 news_limiter [1000, 1001, 1002]) 87400 = 2"
proof -
  have s: "sequential_calls 0 news_limiter [1000, 1001, 1002] = [1000, 87400, 87400]"
    by (simp add: news_call_1 news_call_2 news_call_3)
  have "map_of api_rate_limiter ''news'' = Some news_limiter"
    by (simp add: api_rate_limiter_def news_limiter_def)
  moreover have "requests_per_minute (config news_limiter) = 1"
    by (simp add: news_limiter_def new_rate_limiter_def rate_limit_config_def)
  moreover have "admitted_in_window (sequential_calls 0 news_limiter [1000, 1001, 1002]) 87400 = 2"
    unfolding s by (simp add: admitted_in_window_def)
  ultimately show ?thesis using s by blast
qed

section \<open>Properties of the retry loop\<close>

lemma exhausted_trace_step:
  "lo < hi \<Longrightarrow>
   exhausted_trace lo hi = [Attempt lo, Sleep (2 ^ lo)] @ exhausted_trace (Suc lo) hi"
  by (simp add: exhausted_trace_def upt_conv_Cons)

lemma retry_loop_all_fail:
  assumes "\<forall>n. collect_data c n kwargs = Inl (cause n)"
    and "int (attempt + remaining) = max_retries c - 1"
  shows "retry_loop kwargs attempt (Suc remaining) c now trace =
     (Inl (cause (data_calls c + remaining)),
      c \<lparr> data_calls := data_calls c + Suc remaining \<rparr>,
      now + (\<Sum>i = attempt..<attempt + remaining. 2 ^ i),
      trace @ exhausted_trace attempt (attempt + remaining))"
  using assms
proof (induction remaining arbitrary: attempt c now trace)
  case 0
  then show ?case
    by (simp add: attempt_collection_def exhausted_trace_def)
next
  case (Suc remaining)
  let ?c1 = "c \<lparr> data_calls := data_calls c + 1 \<rparr>"
  have a: "attempt_collection c kwargs = Inl (cause (data_calls c))"
    using Suc.prems(1) by (simp add: attempt_collection_def)
  have ne: "int attempt \<noteq> max_retries c - 1"
    using Suc.prems(2) by simp
  have c1: "\<forall>n. collect_data ?c1 n kwargs = Inl (cause n)"
    using Suc.prems(1) by simp
  have m1: "int (Suc attempt + remaining) = max_retries ?c1 - 1"
    using Suc.prems(2) by simp
  have step: "retry_loop kwargs attempt (Suc (Suc remaining)) c now trace =
      retry_loop kwargs (Suc attempt) (Suc remaining) ?c1 (now + 2 ^ attempt)
        ((trace @ [Attempt attempt]) @ [Sleep (2 ^ attempt)])"
    unfolding retry_loop.simps(2) [of kwargs attempt "Suc remaining" c now trace]
    using a ne by (simp add: Let_def del: retry_loop.simps)
  have s: "(\<Sum>i = attempt..<attempt + Suc remaining. (2::real) ^ i)
        = 2 ^ attempt + (\<Sum>i = Suc attempt..<Suc attempt + remaining. 2 ^ i)"
    by (simp add: sum.atLeast_Suc_lessThan)
  have t: "exhausted_trace attempt (attempt + Suc remaining)
        = [Attempt attempt, Sleep (2 ^ attempt)]
          @ exhausted_trace (Suc attempt) (Suc attempt + remaining)"
    using exhausted_trace_step [of attempt "attempt + Suc remaining"] by simp
  show ?case
    unfolding step Suc.IH [OF c1 m1] s t
    by simp
qed

text \<open>
  Claim C3, as the code has it.  Let the underlying \<^verbatim>\<open>collect_data\<close> raise on every
  invocation, \<open>cause n\<close> being what its \<open>n\<close>-th invocation raises, and let
  \<^verbatim>\<open>max_retries\<close> be at least 1.  Then \<^verbatim>\<open>collect_with_retry\<close> makes exactly
  \<^verbatim>\<open>max_retries\<close> attempts, sleeps \<open>2 ^ attempt\<close> seconds after each failed attempt
  but the last (after the optional rate-limit pause before the first), counts one
  error, and raises: what it raises is the exception of the last attempt itself,
  re-raised unchanged, not an exception that wraps it with the source name and the
  attempt count.
\<close>

theorem collect_with_retry_exhausted:
  assumes "\<forall>n. collect_data c n kwargs = Inl (cause n)" and "1 \<le> max_retries c"
  shows "collect_with_retry c now kwargs =
     (Inl (cause (data_calls c + nat (max_retries c) - 1)),
      c \<lparr> data_calls := data_calls c + nat (max_retries c),
          error_count := error_count c + 1 \<rparr>,
      now + rate_limit_wait c now + (\<Sum>i = 0..<nat (max_retries c) - 1. 2 ^ i),
      (if rate_limit_wait c now > 0 then [Sleep (rate_limit_wait c now)] else [])
        @ exhausted_trace 0 (nat (max_retries c) - 1))"
proof -
  obtain r where r: "nat (max_retries c) = Suc r"
    using assms(2) by (cases "nat (max_retries c)") auto
  then have m: "int (0 + r) = max_retries c - 1"
    by linarith
  show ?thesis
    unfolding collect_with_retry_def Let_def r retry_loop_all_fail [OF assms(1) m]
    by simp
qed

theorem collect_with_retry_exhausted_witness:
  "(\<forall>n. collect_data failing_collector n [] = Inl (Exn ''ConnectionError'' ''service unavailable'')) \<and>
   1 \<le> max_retries failing_collector \<and>
   collect_with_retry failing_collector 0 [] =
     (Inl (Exn ''ConnectionError'' ''service unavailable''),
      failing_collector \<lparr> data_calls := 3, error_count := 1 \<rparr>,
      3,
      [Attempt 0, Sleep 1, Attempt 1, Sleep 2, Attempt 2])"
proof -
  have h1: "\<forall>n. collect_data failing_collector n [] = Inl (Exn ''ConnectionError'' ''service unavailable'')"
    by (simp add: failing_collector_def)
  have h2: "1 \<le> max_retries failing_collector"
    by (simp add: failing_collector_def)
  have m: "nat (max_retries failing_collector) = 3" "data_calls failing_collector = 0"
    "error_count failing_collector = 0" "rate_limit_wait failing_collector 0 = 0"
    by (simp_all add: failing_collector_def rate_limit_wait_def)
  have t: "exhausted_trace 0 2 = [Attempt 0, Sleep 1, Attempt 1, Sleep 2, Attempt 2]"
    by (simp add: exhausted_trace_def eval_nat_numeral upt_rec)
  have s: "(\<Sum>i = 0..<2. (2::real) ^ i) = 3"
    by (simp add: eval_nat_numeral)
  show ?thesis
    using h1 h2 collect_with_retry_exhausted [OF h1 h2, of 0]
    by (simp add: m t s)
qed

text \<open>
  Claim C3 as stated fails in its last part: for a news collector whose source raises
  \<^verbatim>\<open>ConnectionError('service unavailable')\<close>, the exception that leaves
  \<^verbatim>\<open>collect_with_retry\<close> is that very \<^verbatim>\<open>ConnectionError\<close>; its class is not
  \<^verbatim>\<open>CollectionError\<close> and it carries neither the source name nor the attempt count.
\<close>

theorem reraised_cause_counterexample:
  "fst (collect_with_retry failing_collector 0 []) =
     Inl (Exn ''ConnectionError'' ''service unavailable'') \<and>
   exn_type (Exn ''ConnectionError'' ''service unavailable'') \<noteq> ''CollectionError''"
proof -
  have h1: "\<forall>n. collect_data failing_collector n [] = Inl (Exn ''ConnectionError'' ''service unavailable'')"
    by (simp add: failing_collector_def)
  have m: "int (0 + 2) = max_retries failing_collector - 1"
    by (simp add: failing_collector_def)
  have n: "nat (max_retries failing_collector) = Suc 2"
    by (simp add: failing_collector_def)
  show ?thesis
    unfolding collect_with_retry_def Let_def n retry_loop_all_fail [OF h1 m]
    by simp
qed

section \<open>Properties of the orchestrator\<close>

lemma dict_set_fresh: "k \<notin> fst ` set kvs \<Longrightarrow> dict_set k v kvs = kvs @ [(k, v)]"
  by (induction kvs) auto

lemma run_collection_tasks_outcomes:
  assumes "\<forall>e \<in> set reg. map_of cfg (fst e) \<noteq> None"
  shows "map fst (fst (run_collection_tasks cfg now reg)) = map (source_outcome cfg now) reg"
  using assms
  by (induction reg) (auto simp: source_outcome_def split: prod.splits option.splits)

lemma aggregate_all_configured:
  assumes "\<forall>e \<in> set reg. map_of cfg (fst e) \<noteq> None"
    and "\<forall>e \<in> set reg. source_outcome cfg now e \<noteq> Inr None"
    and "distinct (map fst reg)"
    and "fst ` set reg \<inter> fst ` set results = {}"
  shows "aggregate_results cfg (pre @ map (source_outcome cfg now) reg) (length pre) reg
           (results, failed) =
         Inr (results @ map (\<lambda>e. (fst e, outcome_items (source_outcome cfg now e))) reg,
              failed @ map fst (filter (\<lambda>e. isl (source_outcome cfg now e)) reg))"
  using assms
proof (induction reg arbitrary: pre results failed)
  case Nil
  then show ?case by simp
next
  case (Cons entry reg)
  obtain nm c where entry: "entry = (nm, c)" by (cases entry)
  let ?o = "source_outcome cfg now (nm, c)"
  let ?outs = "pre @ map (source_outcome cfg now) (entry # reg)"
  have outs: "?outs = (pre @ [?o]) @ map (source_outcome cfg now) reg"
    by (simp add: entry)
  have idx: "?outs ! length pre = ?o" "length pre < length ?outs"
    by (simp_all add: entry nth_append)
  have cfgd: "map_of cfg nm \<noteq> None"
    using Cons.prems(1) by (simp add: entry)
  have fresh: "nm \<notin> fst ` set results"
    using Cons.prems(4) by (auto simp: entry)
  have rest: "\<forall>e \<in> set reg. map_of cfg (fst e) \<noteq> None"
    "\<forall>e \<in> set reg. source_outcome cfg now e \<noteq> Inr None"
    "distinct (map fst reg)"
    using Cons.prems by simp_all
  have disj: "fst ` set reg \<inter> fst ` set (results @ [(nm, v)]) = {}" for v
    using Cons.prems(3,4) by (auto simp: entry)
  have notnone: "?o \<noteq> Inr None"
    using Cons.prems(2) by (simp add: entry)
  show ?case
  proof (cases ?o)
    case (Inl e)
    have "aggregate_results cfg ?outs (length pre) (entry # reg) (results, failed) =
        aggregate_results cfg ((pre @ [?o]) @ map (source_outcome cfg now) reg)
          (length (pre @ [?o])) reg (results @ [(nm, [])], failed @ [nm])"
      unfolding entry aggregate_results.simps using cfgd idx Inl
      by (simp add: entry dict_set_fresh [OF fresh] del: aggregate_results.simps)
    also have "\<dots> = Inr ((results @ [(nm, [])]) @
          map (\<lambda>e. (fst e, outcome_items (source_outcome cfg now e))) reg,
        (failed @ [nm]) @ map fst (filter (\<lambda>e. isl (source_outcome cfg now e)) reg))"
      by (rule Cons.IH [OF rest disj])
    finally show ?thesis by (simp add: entry Inl)
  next
    case (Inr v)
    with notnone obtain items where items: "?o = Inr (Some items)"
      by (cases v) auto
    have "aggregate_results cfg ?outs (length pre) (entry # reg) (results, failed) =
        aggregate_results cfg ((pre @ [?o]) @ map (source_outcome cfg now) reg)
          (length (pre @ [?o])) reg (results @ [(nm, items)], failed)"
      unfolding entry aggregate_results.simps using cfgd idx items
      by (simp add: entry dict_set_fresh [OF fresh] del: aggregate_results.simps)
    also have "\<dots> = Inr ((results @ [(nm, items)]) @
          map (\<lambda>e. (fst e, outcome_items (source_outcome cfg now e))) reg,
        failed @ map fst (filter (\<lambda>e. isl (source_outcome cfg now e)) reg))"
      by (rule Cons.IH [OF rest disj])
    finally show ?thesis by (simp add: entry items)
  qed
qed

lemma collect_all_data_all_configured:
  assumes "collectors orch \<noteq> []"
    and "\<forall>e \<in> set (collectors orch). map_of cfg (fst e) \<noteq> None"
    and "\<forall>e \<in> set (collectors orch). source_outcome cfg now e \<noteq> Inr None"
    and "distinct (map fst (collectors orch))"
  shows "run_results (collect_all_data orch now (Some cfg)) =
           Inr (map (\<lambda>e. (fst e, outcome_items (source_outcome cfg now e))) (collectors orch))"
    and "run_failed_collectors (collect_all_data orch now (Some cfg)) =
           map fst (filter (\<lambda>e. isl (source_outcome cfg now e)) (collectors orch))"
proof -
  obtain tasks cs where t: "run_collection_tasks cfg now (collectors orch) = (tasks, cs)"
    by (cases "run_collection_tasks cfg now (collectors orch)")
  have outs: "map fst tasks = map (source_outcome cfg now) (collectors orch)"
    using run_collection_tasks_outcomes [OF assms(2), of now] t by simp
  then have ne: "tasks \<noteq> []"
    using assms(1) by auto
  have agg: "aggregate_results cfg (map fst tasks) 0 (collectors orch) ([], []) =
      Inr (map (\<lambda>e. (fst e, outcome_items (source_outcome cfg now e))) (collectors orch),
           map fst (filter (\<lambda>e. isl (source_outcome cfg now e)) (collectors orch)))"
    using aggregate_all_configured [OF assms(2,3,4), of "[]" "[]" "[]"] outs by simp
  show "run_results (collect_all_data orch now (Some cfg)) =
           Inr (map (\<lambda>e. (fst e, outcome_items (source_outcome cfg now e))) (collectors orch))"
    using assms(1) ne by (simp add: collect_all_data_def t agg Let_def)
  show "run_failed_collectors (collect_all_data orch now (Some cfg)) =
           map fst (filter (\<lambda>e. isl (source_outcome cfg now e)) (collectors orch))"
    using assms(1) ne by (simp add: collect_all_data_def t agg Let_def)
qed

lemma filter_key_distinct:
  "distinct (map fst kvs) \<Longrightarrow> (k, v) \<in> set kvs \<Longrightarrow> filter (\<lambda>e. fst e = k) kvs = [(k, v)]"
proof (induction kvs)
  case Nil
  then show ?case by simp
next
  case (Cons a kvs)
  show ?case
  proof (cases "a = (k, v)")
    case True
    have "k \<notin> fst ` set kvs" using Cons.prems(1) True by auto
    then have "filter (\<lambda>e. fst e = k) kvs = []"
      by (auto simp: filter_empty_conv)
    with True show ?thesis by simp
  next
    case False
    with Cons.prems have in_rest: "(k, v) \<in> set kvs" by auto
    then have "k \<in> fst ` set kvs" by force
    then have "fst a \<noteq> k" using Cons.prems(1) by auto
    with Cons.IH Cons.prems(1) in_rest show ?thesis by simp
  qed
qed

lemma map_of_outcomes:
  "distinct (map fst reg) \<Longrightarrow> (nm, c) \<in> set reg \<Longrightarrow>
   map_of (map (\<lambda>e. (fst e, f e)) reg) nm = Some (f (nm, c))"
  by (induction reg) (auto simp: rev_image_eqI)

lemma same_keys:
  assumes "distinct (map fst reg)" "length reg \<le> 3" "length cfg = 3"
    "distinct (map fst cfg)" "set (map fst cfg) \<subseteq> set (map fst reg)"
  shows "set (map fst reg) = set (map fst cfg)" and "length reg = 3"
proof -
  have c1: "card (set (map fst cfg)) = 3"
    using assms(3) distinct_card [OF assms(4)] by simp
  have c2: "card (set (map fst reg)) = length reg"
    using distinct_card [OF assms(1)] by simp
  have "card (set (map fst cfg)) \<le> card (set (map fst reg))"
    using assms(5) by (intro card_mono) auto
  with c1 c2 assms(2) show len: "length reg = 3" by simp
  with c1 c2 have "card (set (map fst reg)) \<le> card (set (map fst cfg))" by simp
  with assms(5) show "set (map fst reg) = set (map fst cfg)"
    by (intro card_seteq [symmetric]) auto
qed


lemma demo_collectors:
  "collectors demo_orchestrator =
     [(''twitter'', echo_collector ''twitter''), (''reddit'', echo_collector ''reddit''),
      (''news'', failing_collector)]"
  by (simp add: demo_orchestrator_def create_orchestrator_def initialize_collectors_def
      env_set_def all_credentials_def)

lemma two_source_collectors:
  "collectors two_source_orchestrator =
     [(''reddit'', echo_collector ''reddit''), (''news'', echo_collector ''news'')]"
  by (simp add: two_source_orchestrator_def create_orchestrator_def initialize_collectors_def
      env_set_def no_twitter_credentials_def)

lemma echo_collect:
  "kwargs \<noteq> [] \<Longrightarrow> fst (collect_with_retry (echo_collector nm) now kwargs) = Inr (Some [kwargs])"
  by (simp add: collect_with_retry_def rate_limit_wait_def echo_collector_def
      attempt_collection_def eval_nat_numeral Let_def)

lemma failing_collect:
  "fst (collect_with_retry failing_collector now kwargs) =
     Inl (Exn ''ConnectionError'' ''service unavailable'')"
  by (simp add: collect_with_retry_def rate_limit_wait_def failing_collector_def
      attempt_collection_def eval_nat_numeral Let_def)

text \<open>
  Claim C2.  The registry of an orchestrator holds at most the three known sources,
  under distinct names.  Let a configuration name three sources, all registered, and
  let the \<^verbatim>\<open>collect_with_retry\<close> of one of them, \<open>failing\<close>, raise while those of
  the other two return a list.  Then \<^verbatim>\<open>collect_all_data\<close> returns (it does not
  raise); the result has three keys, those of the registry; \<open>failing\<close> maps to the
  empty list; the list of failed collectors is exactly \<open>[failing]\<close>; and each other
  source maps to exactly the list its collector returned.
\<close>

theorem collect_all_one_failure:
  assumes reg: "distinct (map fst (collectors orch))" "length (collectors orch) \<le> 3"
    and cfg: "length cfg = 3" "distinct (map fst cfg)"
      "set (map fst cfg) \<subseteq> set (map fst (collectors orch))"
    and failing: "failing \<in> set (map fst cfg)"
    and outcomes: "\<forall>(nm, c) \<in> set (collectors orch). \<forall>kwargs. map_of cfg nm = Some kwargs \<longrightarrow>
        (if nm = failing then \<exists>e. fst (collect_with_retry c now kwargs) = Inl e
         else \<exists>items. fst (collect_with_retry c now kwargs) = Inr (Some items))"
  shows "\<exists>results.
      run_results (collect_all_data orch now (Some cfg)) = Inr results \<and>
      length results = 3 \<and>
      map fst results = map fst (collectors orch) \<and>
      map_of results failing = Some [] \<and>
      run_failed_collectors (collect_all_data orch now (Some cfg)) = [failing] \<and>
      (\<forall>(nm, c) \<in> set (collectors orch). \<forall>kwargs items.
          nm \<noteq> failing \<and> map_of cfg nm = Some kwargs \<and>
          fst (collect_with_retry c now kwargs) = Inr (Some items) \<longrightarrow>
          map_of results nm = Some items)"
proof -
  let ?reg = "collectors orch"
  let ?out = "source_outcome cfg now"
  let ?results = "map (\<lambda>e. (fst e, outcome_items (?out e))) ?reg"
  note keys = same_keys [OF reg cfg]
  have ne: "?reg \<noteq> []" using keys(2) by auto
  have configured: "\<forall>e \<in> set ?reg. map_of cfg (fst e) \<noteq> None"
  proof
    fix e assume "e \<in> set ?reg"
    then have "fst e \<in> set (map fst cfg)" using keys(1) by auto
    then show "map_of cfg (fst e) \<noteq> None"
      by (simp add: map_of_eq_None_iff)
  qed
  have oc: "if nm = failing then \<exists>e. fst (collect_with_retry c now kwargs) = Inl e
         else \<exists>items. fst (collect_with_retry c now kwargs) = Inr (Some items)"
    if "(nm, c) \<in> set ?reg" "map_of cfg nm = Some kwargs" for nm c kwargs
    using outcomes that by blast
  have out_cases: "if fst e = failing then \<exists>x. ?out e = Inl x
                   else \<exists>items. ?out e = Inr (Some items)"
    if e: "e \<in> set ?reg" for e
  proof -
    obtain nm c where nc: "e = (nm, c)" by (cases e)
    obtain kwargs where kw: "map_of cfg nm = Some kwargs"
      using configured e nc by force
    have o: "?out e = fst (collect_with_retry c now kwargs)"
      by (simp add: source_outcome_def nc kw)
    have "(nm, c) \<in> set ?reg" using e nc by simp
    from oc [OF this kw] show ?thesis
      unfolding o by (simp add: nc)
  qed
  have out_fail: "\<exists>x. ?out e = Inl x" if "e \<in> set ?reg" "fst e = failing" for e
    using out_cases [OF that(1)] that(2) by simp
  have out_ok: "\<exists>items. ?out e = Inr (Some items)" if "e \<in> set ?reg" "fst e \<noteq> failing" for e
    using out_cases [OF that(1)] that(2) by simp
  have notnone: "\<forall>e \<in> set ?reg. ?out e \<noteq> Inr None"
  proof
    fix e assume e: "e \<in> set ?reg"
    show "?out e \<noteq> Inr None"
      using out_fail [OF e] out_ok [OF e] by (cases "fst e = failing") auto
  qed
  have isl_iff: "isl (?out e) \<longleftrightarrow> fst e = failing" if "e \<in> set ?reg" for e
    using out_fail [OF that] out_ok [OF that] by (cases "fst e = failing") auto
  obtain cf where cf: "(failing, cf) \<in> set ?reg"
    using failing keys(1) by force
  have res: "run_results (collect_all_data orch now (Some cfg)) = Inr ?results"
    by (rule collect_all_data_all_configured(1) [OF ne configured notnone reg(1)])
  have "run_failed_collectors (collect_all_data orch now (Some cfg)) =
      map fst (filter (\<lambda>e. isl (?out e)) ?reg)"
    by (rule collect_all_data_all_configured(2) [OF ne configured notnone reg(1)])
  also have "filter (\<lambda>e. isl (?out e)) ?reg = filter (\<lambda>e. fst e = failing) ?reg"
    by (rule filter_cong) (simp_all add: isl_iff)
  also have "\<dots> = [(failing, cf)]"
    by (rule filter_key_distinct [OF reg(1) cf])
  finally have failed: "run_failed_collectors (collect_all_data orch now (Some cfg)) = [failing]"
    by simp
  have "map_of ?results failing = Some (outcome_items (?out (failing, cf)))"
    by (rule map_of_outcomes [OF reg(1) cf])
  moreover obtain x where "?out (failing, cf) = Inl x"
    using out_fail [OF cf] by auto
  ultimately have empty: "map_of ?results failing = Some []" by simp
  have others: "map_of ?results nm = Some items"
    if "(nm, c) \<in> set ?reg" "map_of cfg nm = Some kwargs"
      "fst (collect_with_retry c now kwargs) = Inr (Some items)" for nm c kwargs items
  proof -
    have "?out (nm, c) = Inr (Some items)"
      using that(2,3) by (simp add: source_outcome_def)
    with map_of_outcomes [OF reg(1) that(1), of "\<lambda>e. outcome_items (?out e)"]
    show ?thesis by simp
  qed
  have len: "length ?results = 3" and fsts: "map fst ?results = map fst ?reg"
    using keys(2) by (simp_all add: comp_def)
  have others': "\<forall>(nm, c) \<in> set ?reg. \<forall>kwargs items.
          nm \<noteq> failing \<and> map_of cfg nm = Some kwargs \<and>
          fst (collect_with_retry c now kwargs) = Inr (Some items) \<longrightarrow>
          map_of ?results nm = Some items"
    using others by blast
  show ?thesis
    using res len fsts empty failed others' by (intro exI [of _ ?results] conjI)
qed

theorem collect_all_one_failure_witness:
  "distinct (map fst (collectors demo_orchestrator)) \<and>
   length (collectors demo_orchestrator) \<le> 3 \<and>
   length default_collection_config = 3 \<and>
   distinct (map fst default_collection_config) \<and>
   set (map fst default_collection_config) \<subseteq> set (map fst (collectors demo_orchestrator)) \<and>
   ''news'' \<in> set (map fst default_collection_config) \<and>
   (\<exists>results.
      run_results (collect_all_data demo_orchestrator 0 (Some default_collection_config)) = Inr results \<and>
      length results = 3 \<and>
      map fst results = [''twitter'', ''reddit'', ''news''] \<and>
      map_of results ''news'' = Some [] \<and>
      run_failed_collectors (collect_all_data demo_orchestrator 0 (Some default_collection_config))
        = [''news''] \<and>
      map_of results ''twitter'' = Some [[(''query'', PStr ''#technology''), (''limit'', PInt 50)]] \<and>
      map_of results ''reddit'' = Some [[(''subreddit'', PStr ''technology''), (''limit'', PInt 50)]])"
proof -
  have h1: "distinct (map fst (collectors demo_orchestrator))"
    and h2: "length (collectors demo_orchestrator) \<le> 3"
    by (simp_all add: demo_collectors)
  have h3: "length default_collection_config = 3"
    and h4: "distinct (map fst default_collection_config)"
    and h6: "''news'' \<in> set (map fst default_collection_config)"
    by (simp_all add: default_collection_config_def)
  have h5: "set (map fst default_collection_config) \<subseteq> set (map fst (collectors demo_orchestrator))"
    by (simp add: default_collection_config_def demo_collectors)
  have h7: "\<forall>(nm, c) \<in> set (collectors demo_orchestrator). \<forall>kwargs.
      map_of default_collection_config nm = Some kwargs \<longrightarrow>
      (if nm = ''news'' then \<exists>e. fst (collect_with_retry c 0 kwargs) = Inl e
       else \<exists>items. fst (collect_with_retry c 0 kwargs) = Inr (Some items))"
    unfolding demo_collectors
    by (simp add: default_collection_config_def echo_collect failing_collect)
  have tw: "(''twitter'', echo_collector ''twitter'') \<in> set (collectors demo_orchestrator)"
    and rd: "(''reddit'', echo_collector ''reddit'') \<in> set (collectors demo_orchestrator)"
    by (simp_all add: demo_collectors)
  have twc: "map_of default_collection_config ''twitter'' = Some [(''query'', PStr ''#technology''), (''limit'', PInt 50)]"
    and rdc: "map_of default_collection_config ''reddit'' = Some [(''subreddit'', PStr ''technology''), (''limit'', PInt 50)]"
    by (simp_all add: default_collection_config_def)
  from collect_all_one_failure [OF h1 h2 h3 h4 h5 h6 h7]
  obtain results where R:
    "run_results (collect_all_data demo_orchestrator 0 (Some default_collection_config)) = Inr results \<and>
     length results = 3 \<and>
     map fst results = map fst (collectors demo_orchestrator) \<and>
     map_of results ''news'' = Some [] \<and>
     run_failed_collectors (collect_all_data demo_orchestrator 0 (Some default_collection_config)) = [''news''] \<and>
     (\<forall>(nm, c) \<in> set (collectors demo_orchestrator). \<forall>kwargs items.
          nm \<noteq> ''news'' \<and> map_of default_collection_config nm = Some kwargs \<and>
          fst (collect_with_retry c 0 kwargs) = Inr (Some items) \<longrightarrow>
          map_of results nm = Some items)" ..
  note r1 = R [THEN conjunct1]
    and r2 = R [THEN conjunct2, THEN conjunct1]
    and r3 = R [THEN conjunct2, THEN conjunct2, THEN conjunct1]
    and r4 = R [THEN conjunct2, THEN conjunct2, THEN conjunct2, THEN conjunct1]
    and r5 = R [THEN conjunct2, THEN conjunct2, THEN conjunct2, THEN conjunct2, THEN conjunct1]
    and o = R [THEN conjunct2, THEN conjunct2, THEN conjunct2, THEN conjunct2, THEN conjunct2]
  have o': "map_of results nm = Some items"
    if "(nm, c) \<in> set (collectors demo_orchestrator)" "nm \<noteq> ''news''"
      "map_of default_collection_config nm = Some kwargs"
      "fst (collect_with_retry c 0 kwargs) = Inr (Some items)" for nm c kwargs items
    using o that by blast
  have r6: "map_of results ''twitter'' = Some [[(''query'', PStr ''#technology''), (''limit'', PInt 50)]]"
    by (rule o' [OF tw _ twc]) (simp_all add: echo_collect)
  have r7: "map_of results ''reddit'' = Some [[(''subreddit'', PStr ''technology''), (''limit'', PInt 50)]]"
    by (rule o' [OF rd _ rdc]) (simp_all add: echo_collect)
  have r3': "map fst results = [''twitter'', ''reddit'', ''news'']"
    unfolding r3 by (simp add: demo_collectors)
  show ?thesis
    using h1 h2 h3 h4 h5 h6 r1 r2 r3' r4 r5 r6 r7
    by (intro conjI exI [of _ results])
qed

lemma config_limit:
  "(source, kwargs) \<in> set (technology_config limit) \<or> (source, kwargs) \<in> set (trending_config limit)
   \<Longrightarrow> map_of kwargs ''limit'' = Some (PInt (max (limit div 3) 10))"
  by (auto simp: technology_config_def trending_config_def Let_def)

text \<open>
  Claim C10, as the code has it.  \<^verbatim>\<open>collect_technology_data\<close> and
  \<^verbatim>\<open>collect_trending_data\<close> build a configuration for the three known sources
  \<^verbatim>\<open>twitter\<close>, \<^verbatim>\<open>reddit\<close> and \<^verbatim>\<open>news\<close>, give each of them the limit
  \<open>max (limit div 3) 10\<close>, whatever the number of registered sources, and return
  what \<^verbatim>\<open>collect_all_data\<close> returns for that configuration.
\<close>

theorem convenience_collections_split_by_three:
  "collect_technology_data orch now limit = collect_all_data orch now (Some (technology_config limit)) \<and>
   collect_trending_data orch now limit = collect_all_data orch now (Some (trending_config limit)) \<and>
   map fst (technology_config limit) = [''twitter'', ''reddit'', ''news''] \<and>
   map fst (trending_config limit) = [''twitter'', ''reddit'', ''news''] \<and>
   (\<forall>source kwargs.
      map_of (technology_config limit) source = Some kwargs \<or>
      map_of (trending_config limit) source = Some kwargs \<longrightarrow>
      map_of kwargs ''limit'' = Some (PInt (max (limit div 3) 10)))"
proof (intro conjI allI impI)
  show "collect_technology_data orch now limit = collect_all_data orch now (Some (technology_config limit))"
    by (simp add: collect_technology_data_def)
  show "collect_trending_data orch now limit = collect_all_data orch now (Some (trending_config limit))"
    by (simp add: collect_trending_data_def)
  show "map fst (technology_config limit) = [''twitter'', ''reddit'', ''news'']"
    by (simp add: technology_config_def Let_def)
  show "map fst (trending_config limit) = [''twitter'', ''reddit'', ''news'']"
    by (simp add: trending_config_def Let_def)
  fix source kwargs
  assume "map_of (technology_config limit) source = Some kwargs \<or>
          map_of (trending_config limit) source = Some kwargs"
  then have "(source, kwargs) \<in> set (technology_config limit) \<or>
             (source, kwargs) \<in> set (trending_config limit)"
    by (auto dest: map_of_SomeD)
  then show "map_of kwargs ''limit'' = Some (PInt (max (limit div 3) 10))"
    by (rule config_limit)
qed

theorem convenience_collections_split_by_three_witness:
  "map_of (technology_config 100) ''reddit'' =
     Some [(''subreddit'', PStr ''technology''), (''limit'', PInt 33)] \<and>
   map_of [(''subreddit'', PStr ''technology''), (''limit'', PInt 33)] ''limit'' =
     Some (PInt (max (100 div 3) 10)) \<and>
   collect_technology_data two_source_orchestrator 0 100 =
     collect_all_data two_source_orchestrator 0 (Some (technology_config 100))"
proof -
  have h: "map_of (technology_config 100) ''reddit'' =
     Some [(''subreddit'', PStr ''technology''), (''limit'', PInt 33)]"
    by (simp add: technology_config_def)
  note w = convenience_collections_split_by_three [of two_source_orchestrator 0 100]
  from w have "collect_technology_data two_source_orchestrator 0 100 =
     collect_all_data two_source_orchestrator 0 (Some (technology_config 100))"
    by (rule conjunct1)
  moreover from w h
  have "map_of [(''subreddit'', PStr ''technology''), (''limit'', PInt 33)] ''limit'' =
     Some (PInt (max (100 div 3) 10))"
    by blast
  ultimately show ?thesis using h by blast
qed

text \<open>
  A technology run of the two-source orchestrator with a limit of 100: both collectors
  are called with the limit 33.
\<close>

lemma two_source_technology_run:
  "run_results (collect_technology_data two_source_orchestrator 0 100) =
     Inr [(''reddit'', [[(''subreddit'', PStr ''technology''), (''limit'', PInt 33)]]),
          (''news'', [[(''query'', PStr ''artificial intelligence technology''), (''limit'', PInt 33)]])]"
proof -
  let ?cfg = "technology_config 100"
  have ne: "collectors two_source_orchestrator \<noteq> []"
    by (simp add: two_source_collectors)
  have cfgd: "\<forall>e \<in> set (collectors two_source_orchestrator). map_of ?cfg (fst e) \<noteq> None"
    by (simp add: two_source_collectors technology_config_def)
  have out: "source_outcome ?cfg 0 (''reddit'', echo_collector ''reddit'') =
        Inr (Some [[(''subreddit'', PStr ''technology''), (''limit'', PInt 33)]])"
    "source_outcome ?cfg 0 (''news'', echo_collector ''news'') =
        Inr (Some [[(''query'', PStr ''artificial intelligence technology''), (''limit'', PInt 33)]])"
    by (simp_all add: source_outcome_def technology_config_def echo_collect)
  have nn: "\<forall>e \<in> set (collectors two_source_orchestrator). source_outcome ?cfg 0 e \<noteq> Inr None"
    by (simp add: two_source_collectors out)
  have d: "distinct (map fst (collectors two_source_orchestrator))"
    by (simp add: two_source_collectors)
  show ?thesis
    unfolding collect_technology_data_def
      collect_all_data_all_configured(1) [OF ne cfgd nn d]
    by (simp add: two_source_collectors out)
qed

text \<open>
  Claim C10 as stated fails: with two registered sources and a limit of 100, an even
  split over the registered sources gives each 50, but the code passes the limit
  100 // 3 = 33 to each collector.
\<close>

theorem split_over_registered_counterexample:
  "length (collectors two_source_orchestrator) = 2 \<and>
   spec_per_source_limit 100 (collectors two_source_orchestrator) = 50 \<and>
   run_results (collect_technology_data two_source_orchestrator 0 100) =
     Inr [(''reddit'', [[(''subreddit'', PStr ''technology''), (''limit'', PInt 33)]]),
          (''news'', [[(''query'', PStr ''artificial intelligence technology''), (''limit'', PInt 33)]])]"
  by (simp add: two_source_technology_run two_source_collectors spec_per_source_limit_def)

section \<open>Properties of the pipeline\<close>

lemma gold_call_ids_append [simp]:
  "gold_call_ids (cs @ cs') = gold_call_ids cs @ gold_call_ids cs'"
  by (induction cs rule: gold_call_ids.induct) simp_all

lemma bronze_call_items_append [simp]:
  "bronze_call_items (cs @ cs') = bronze_call_items cs @ bronze_call_items cs'"
  by (induction cs rule: bronze_call_items.induct) simp_all

lemma store_bronze_effect:
  assumes "store_bronze_data st d s t = (res, st')"
  shows "calls st' = calls st @ [BronzeCall d s t]"
    and "processed_data st' = processed_data st"
    and "db_fault st' = db_fault st"
    and "db_fault st (length (calls st)) = None \<Longrightarrow> \<exists>i. res = Inr i"
  using assms by (auto simp: store_bronze_data_def Let_def split: option.splits)

lemma store_silver_effect:
  assumes "store_silver_data st b d status score = (res, st')"
  shows "calls st' = calls st @ [SilverCall b d status score]"
    and "db_fault st' = db_fault st"
    and "\<And>e. res = Inl e \<Longrightarrow> processed_data st' = processed_data st"
    and "\<And>sid. res = Inr sid \<Longrightarrow>
           \<exists>row. processed_data st' = processed_data st @ [row] \<and> processed_id row = sid
                 \<and> validation_status row = status"
    and "db_fault st (length (calls st)) = None \<Longrightarrow> \<exists>i. res = Inr i"
  using assms by (auto simp: store_silver_data_def Let_def split: option.splits)

lemma store_gold_effect:
  assumes "store_gold_data st sid a t m = (res, st')"
  shows "calls st' = calls st @ [GoldCall sid a t m]"
    and "processed_data st' = processed_data st"
    and "db_fault st' = db_fault st"
  using assms
  by (auto simp: store_gold_data_def Let_def split: option.splits sum.splits)

lemma generate_analytics_dicts:
  assumes "generate_analytics_data env item source = Inr a"
  shows "\<exists>d. as_dict (py_get a ''engagement_metrics'' (PDict [])) = Inr d"
    and "\<exists>d. as_dict (py_get a ''temporal_features'' (PDict [])) = Inr d"
  using assms
  by (auto simp: generate_analytics_data_def as_dict_def py_get_def split: sum.splits)

lemma store_gold_succeeds:
  assumes "db_fault st (length (calls st)) = None"
    and "\<exists>row \<in> set (processed_data st). processed_id row = sid"
    and "generate_analytics_data env item source = Inr a"
  shows "\<exists>gid st'. store_gold_data st sid a t m = (Inr gid, st')"
proof -
  obtain row where "find (\<lambda>row. processed_id row = sid) (processed_data st) = Some row"
    using assms(2) by (cases "find (\<lambda>row. processed_id row = sid) (processed_data st)")
      (auto simp: find_None_iff)
  moreover obtain d1 d2 where "as_dict (py_get a ''engagement_metrics'' (PDict [])) = Inr d1"
    "as_dict (py_get a ''temporal_features'' (PDict [])) = Inr d2"
    using generate_analytics_dicts [OF assms(3)] by blast
  ultimately show ?thesis
    using assms(1) by (simp add: store_gold_data_def Let_def)
qed

lemma item_failed_simps [simp]:
  "storage (item_failed source e p) = storage p"
  "error_log (item_failed source e p) =
     error_log p @ [''Failed to process item from '' @ source @ '': '' @ exn_msg e]"
  by (simp_all add: item_failed_def)

lemma process_item_cases
  [case_names bronze_failed silver_failed invalid analytics_failed metrics_failed gold_failed stored]:
  fixes env source item p r
  defines "qr \<equiv> pipeline_validate_data env source item"
  obtains
    e st1 where
      "store_bronze_data (storage p) item source (get_data_type source) = (Inl e, st1)"
      "process_item env source item (p, r) = (item_failed source e (p \<lparr> storage := st1 \<rparr>), r)"
  | bid st1 e st2 where
      "store_bronze_data (storage p) item source (get_data_type source) = (Inr bid, st1)"
      "store_silver_data st1 bid item (if is_valid qr then ''valid'' else ''invalid'')
         (quality_score qr) = (Inl e, st2)"
      "process_item env source item (p, r) =
         (item_failed source e (p \<lparr> storage := st2 \<rparr>),
          r \<lparr> bronze_ids := bronze_ids r @ [bid], quality_results := quality_results r @ [qr] \<rparr>)"
  | bid st1 sid st2 where
      "store_bronze_data (storage p) item source (get_data_type source) = (Inr bid, st1)"
      "store_silver_data st1 bid item ''invalid'' (quality_score qr) = (Inr sid, st2)"
      "\<not> is_valid qr"
      "process_item env source item (p, r) =
         (p \<lparr> storage := st2, total_processed := total_processed p + 1,
              failed_stores := failed_stores p + 1 \<rparr>,
          r \<lparr> bronze_ids := bronze_ids r @ [bid], quality_results := quality_results r @ [qr],
              silver_ids := silver_ids r @ [sid] \<rparr>)"
  | bid st1 sid st2 e where
      "store_bronze_data (storage p) item source (get_data_type source) = (Inr bid, st1)"
      "store_silver_data st1 bid item ''valid'' (quality_score qr) = (Inr sid, st2)"
      "is_valid qr"
      "generate_analytics_data env item source = Inl e"
      "process_item env source item (p, r) =
         (item_failed source e (p \<lparr> storage := st2 \<rparr>),
          r \<lparr> bronze_ids := bronze_ids r @ [bid], quality_results := quality_results r @ [qr],
              silver_ids := silver_ids r @ [sid] \<rparr>)"
  | bid st1 sid st2 analytics e where
      "store_bronze_data (storage p) item source (get_data_type source) = (Inr bid, st1)"
      "store_silver_data st1 bid item ''valid'' (quality_score qr) = (Inr sid, st2)"
      "is_valid qr"
      "generate_analytics_data env item source = Inr analytics"
      "calculate_metrics env item source = Inl e"
      "process_item env source item (p, r) =
         (item_failed source e (p \<lparr> storage := st2 \<rparr>),
          r \<lparr> bronze_ids := bronze_ids r @ [bid], quality_results := quality_results r @ [qr],
              silver_ids := silver_ids r @ [sid] \<rparr>)"
  | bid st1 sid st2 analytics metrics e st3 where
      "store_bronze_data (storage p) item source (get_data_type source) = (Inr bid, st1)"
      "store_silver_data st1 bid item ''valid'' (quality_score qr) = (Inr sid, st2)"
      "is_valid qr"
      "generate_analytics_data env item source = Inr analytics"
      "calculate_metrics env item source = Inr metrics"
      "store_gold_data st2 sid analytics ''individual'' metrics = (Inl e, st3)"
      "process_item env source item (p, r) =
         (item_failed source e (p \<lparr> storage := st3 \<rparr>),
          r \<lparr> bronze_ids := bronze_ids r @ [bid], quality_results := quality_results r @ [qr],
              silver_ids := silver_ids r @ [sid] \<rparr>)"
  | bid st1 sid st2 analytics metrics gid st3 where
      "store_bronze_data (storage p) item source (get_data_type source) = (Inr bid, st1)"
      "store_silver_data st1 bid item ''valid'' (quality_score qr) = (Inr sid, st2)"
      "is_valid qr"
      "generate_analytics_data env item source = Inr analytics"
      "calculate_metrics env item source = Inr metrics"
      "store_gold_data st2 sid analytics ''individual'' metrics = (Inr gid, st3)"
      "process_item env source item (p, r) =
         (p \<lparr> storage := st3, total_processed := total_processed p + 1,
              successful_stores := successful_stores p + 1 \<rparr>,
          r \<lparr> bronze_ids := bronze_ids r @ [bid], quality_results := quality_results r @ [qr],
              silver_ids := silver_ids r @ [sid], gold_ids := gold_ids r @ [gid] \<rparr>)"
proof -
  obtain rb st1 where b: "store_bronze_data (storage p) item source (get_data_type source) = (rb, st1)"
    by (cases "store_bronze_data (storage p) item source (get_data_type source)")
  show ?thesis
  proof (cases rb)
    case (Inl e)
    with b show ?thesis by (intro that(1) [of e st1]) (simp_all add: process_item_def)
  next
    case bid: (Inr bid)
    obtain rs st2 where s: "store_silver_data st1 bid item
        (if is_valid qr then ''valid'' else ''invalid'') (quality_score qr) = (rs, st2)"
      by (cases "store_silver_data st1 bid item
        (if is_valid qr then ''valid'' else ''invalid'') (quality_score qr)")
    show ?thesis
    proof (cases rs)
      case (Inl e)
      with b bid s show ?thesis
        by (intro that(2) [of bid st1 e st2]) (simp_all add: process_item_def Let_def qr_def)
    next
      case sid: (Inr sid)
      show ?thesis
      proof (cases "is_valid qr")
        case False
        with b bid s sid show ?thesis
          by (intro that(3) [of bid st1 sid st2]) (simp_all add: process_item_def Let_def qr_def)
      next
        case True
        show ?thesis
        proof (cases "generate_analytics_data env item source")
          case (Inl e)
          with b bid s sid True show ?thesis
            by (intro that(4) [of bid st1 sid st2 e]) (simp_all add: process_item_def Let_def qr_def)
        next
          case a: (Inr analytics)
          show ?thesis
          proof (cases "calculate_metrics env item source")
            case (Inl e)
            with b bid s sid True a show ?thesis
              by (intro that(5) [of bid st1 sid st2 analytics e])
                (simp_all add: process_item_def Let_def qr_def)
          next
            case m: (Inr metrics)
            obtain rg st3 where g: "store_gold_data st2 sid analytics ''individual'' metrics = (rg, st3)"
              by (cases "store_gold_data st2 sid analytics ''individual'' metrics")
            show ?thesis
            proof (cases rg)
              case (Inl e)
              with b bid s sid True a m g show ?thesis
                by (intro that(6) [of bid st1 sid st2 analytics metrics e st3])
                  (simp_all add: process_item_def Let_def qr_def)
            next
              case (Inr gid)
              with b bid s sid True a m g show ?thesis
                by (intro that(7) [of bid st1 sid st2 analytics metrics gid st3])
                  (simp_all add: process_item_def Let_def qr_def)
            qed
          qed
        qed
      qed
    qed
  qed
qed

lemma process_item_gold_only_for_valid:
  assumes "gold_only_for_valid (storage p)"
  shows "gold_only_for_valid (storage (fst (process_item env source item (p, r))))"
proof (cases rule: process_item_cases [of p item source env r])
  case (bronze_failed e st1)
  with assms show ?thesis
    by (simp add: gold_only_for_valid_def valid_silver_ids_def store_bronze_effect [OF bronze_failed(1)])
next
  case (silver_failed bid st1 e st2)
  note be = store_bronze_effect [OF silver_failed(1)]
  note se = store_silver_effect [OF silver_failed(2)]
  from assms show ?thesis
    by (simp add: gold_only_for_valid_def valid_silver_ids_def silver_failed(3) be se(1) se(3))
next
  case (invalid bid st1 sid st2)
  note be = store_bronze_effect [OF invalid(1)]
  note se = store_silver_effect [OF invalid(2)]
  obtain row where row: "processed_data st2 = processed_data st1 @ [row]"
    using se(4) by blast
  from assms show ?thesis
    by (auto simp: gold_only_for_valid_def valid_silver_ids_def invalid(4) be se(1) row)
next
  case (analytics_failed bid st1 sid st2 e)
  note be = store_bronze_effect [OF analytics_failed(1)]
  note se = store_silver_effect [OF analytics_failed(2)]
  obtain row where row: "processed_data st2 = processed_data st1 @ [row]"
    using se(4) by blast
  from assms show ?thesis
    by (auto simp: gold_only_for_valid_def valid_silver_ids_def analytics_failed(5) be se(1) row)
next
  case (metrics_failed bid st1 sid st2 analytics e)
  note be = store_bronze_effect [OF metrics_failed(1)]
  note se = store_silver_effect [OF metrics_failed(2)]
  obtain row where row: "processed_data st2 = processed_data st1 @ [row]"
    using se(4) by blast
  from assms show ?thesis
    by (auto simp: gold_only_for_valid_def valid_silver_ids_def metrics_failed(6) be se(1) row)
next
  case (gold_failed bid st1 sid st2 analytics metrics e st3)
  note be = store_bronze_effect [OF gold_failed(1)]
  note se = store_silver_effect [OF gold_failed(2)]
  note ge = store_gold_effect [OF gold_failed(6)]
  obtain row where row: "processed_data st2 = processed_data st1 @ [row]"
    "processed_id row = sid" "validation_status row = ''valid''"
    using se(4) by blast
  from assms show ?thesis
    by (auto simp: gold_only_for_valid_def valid_silver_ids_def gold_failed(7) be se(1) ge row)
next
  case (stored bid st1 sid st2 analytics metrics gid st3)
  note be = store_bronze_effect [OF stored(1)]
  note se = store_silver_effect [OF stored(2)]
  note ge = store_gold_effect [OF stored(6)]
  obtain row where row: "processed_data st2 = processed_data st1 @ [row]"
    "processed_id row = sid" "validation_status row = ''valid''"
    using se(4) by blast
  from assms show ?thesis
    by (auto simp: gold_only_for_valid_def valid_silver_ids_def stored(7) be se(1) ge row)
qed

lemma process_item_gold_within_valid:
  assumes "gold_within_valid r"
  shows "gold_within_valid (snd (process_item env source item (p, r)))"
  using assms
  by (cases rule: process_item_cases [of p item source env r])
    (simp_all add: gold_within_valid_def)

lemma process_item_bronze_calls:
  "bronze_call_items (calls (storage (fst (process_item env source item (p, r))))) =
     bronze_call_items (calls (storage p)) @ [item]"
proof (cases rule: process_item_cases [of p item source env r])
  case (bronze_failed e st1)
  then show ?thesis by (simp add: store_bronze_effect [OF bronze_failed(1)])
next
  case (silver_failed bid st1 e st2)
  then show ?thesis
    by (simp add: store_bronze_effect [OF silver_failed(1)] store_silver_effect(1) [OF silver_failed(2)])
next
  case (invalid bid st1 sid st2)
  then show ?thesis
    by (simp add: store_bronze_effect [OF invalid(1)] store_silver_effect(1) [OF invalid(2)])
next
  case (analytics_failed bid st1 sid st2 e)
  then show ?thesis
    by (simp add: store_bronze_effect [OF analytics_failed(1)]
        store_silver_effect(1) [OF analytics_failed(2)])
next
  case (metrics_failed bid st1 sid st2 analytics e)
  then show ?thesis
    by (simp add: store_bronze_effect [OF metrics_failed(1)]
        store_silver_effect(1) [OF metrics_failed(2)])
next
  case (gold_failed bid st1 sid st2 analytics metrics e st3)
  then show ?thesis
    by (simp add: store_bronze_effect [OF gold_failed(1)] store_silver_effect(1) [OF gold_failed(2)]
        store_gold_effect [OF gold_failed(6)])
next
  case (stored bid st1 sid st2 analytics metrics gid st3)
  then show ?thesis
    by (simp add: store_bronze_effect [OF stored(1)] store_silver_effect(1) [OF stored(2)]
        store_gold_effect [OF stored(6)])
qed

lemma process_item_db_fault:
  "db_fault (storage (fst (process_item env source item (p, r)))) = db_fault (storage p)"
proof (cases rule: process_item_cases [of p item source env r])
  case (bronze_failed e st1)
  then show ?thesis by (simp add: store_bronze_effect [OF bronze_failed(1)])
next
  case (silver_failed bid st1 e st2)
  then show ?thesis
    by (simp add: store_bronze_effect [OF silver_failed(1)] store_silver_effect(2) [OF silver_failed(2)])
next
  case (invalid bid st1 sid st2)
  then show ?thesis
    by (simp add: store_bronze_effect [OF invalid(1)] store_silver_effect(2) [OF invalid(2)])
next
  case (analytics_failed bid st1 sid st2 e)
  then show ?thesis
    by (simp add: store_bronze_effect [OF analytics_failed(1)]
        store_silver_effect(2) [OF analytics_failed(2)])
next
  case (metrics_failed bid st1 sid st2 analytics e)
  then show ?thesis
    by (simp add: store_bronze_effect [OF metrics_failed(1)]
        store_silver_effect(2) [OF metrics_failed(2)])
next
  case (gold_failed bid st1 sid st2 analytics metrics e st3)
  then show ?thesis
    by (simp add: store_bronze_effect [OF gold_failed(1)] store_silver_effect(2) [OF gold_failed(2)]
        store_gold_effect [OF gold_failed(6)])
next
  case (stored bid st1 sid st2 analytics metrics gid st3)
  then show ?thesis
    by (simp add: store_bronze_effect [OF stored(1)] store_silver_effect(2) [OF stored(2)]
        store_gold_effect [OF stored(6)])
qed

text \<open>When nothing raises, an item reaches the Gold tier exactly when it is valid.\<close>

lemma process_item_no_raise:
  fixes env source item p r
  defines "qr \<equiv> pipeline_validate_data env source item"
  assumes nofault: "db_fault (storage p) = (\<lambda>n. None)"
    and derivable: "is_valid qr \<longrightarrow> analytics_derivable env source item"
  shows "length (gold_ids (snd (process_item env source item (p, r)))) =
           length (gold_ids r) + (if is_valid qr then 1 else 0)"
    and "gold_for_all_valid (storage p) \<Longrightarrow>
           gold_for_all_valid (storage (fst (process_item env source item (p, r))))"
proof -
  have both: "length (gold_ids (snd (process_item env source item (p, r)))) =
           length (gold_ids r) + (if is_valid qr then 1 else 0) \<and>
         (gold_for_all_valid (storage p) \<longrightarrow>
           gold_for_all_valid (storage (fst (process_item env source item (p, r)))))"
  proof (cases rule: process_item_cases [of p item source env r])
    case (bronze_failed e st1)
    with nofault store_bronze_effect(4) [OF bronze_failed(1)] show ?thesis by simp
  next
    case (silver_failed bid st1 e st2)
    note be = store_bronze_effect [OF silver_failed(1)]
    from nofault be have "db_fault st1 (length (calls st1)) = None" by simp
    with store_silver_effect(5) [OF silver_failed(2)] show ?thesis by simp
  next
    case (invalid bid st1 sid st2)
    note be = store_bronze_effect [OF invalid(1)]
    note se = store_silver_effect [OF invalid(2)]
    obtain row where row: "processed_data st2 = processed_data st1 @ [row]"
      "validation_status row = ''invalid''"
      using se(4) by blast
    from invalid(3) show ?thesis
      by (auto simp: gold_for_all_valid_def valid_silver_ids_def invalid(4) be se(1) row qr_def)
  next
    case (analytics_failed bid st1 sid st2 e)
    with derivable show ?thesis by (simp add: analytics_derivable_def qr_def)
  next
    case (metrics_failed bid st1 sid st2 analytics e)
    with derivable show ?thesis by (simp add: analytics_derivable_def qr_def)
  next
    case (gold_failed bid st1 sid st2 analytics metrics e st3)
    note be = store_bronze_effect [OF gold_failed(1)]
    note se = store_silver_effect [OF gold_failed(2)]
    obtain row where row: "processed_data st2 = processed_data st1 @ [row]"
      "processed_id row = sid"
      using se(4) by blast
    have "db_fault st2 (length (calls st2)) = None"
      using nofault be se by simp
    moreover have "\<exists>row \<in> set (processed_data st2). processed_id row = sid"
      using row by auto
    ultimately obtain gid' st3' where
      "store_gold_data st2 sid analytics ''individual'' metrics = (Inr gid', st3')"
      using store_gold_succeeds [OF _ _ gold_failed(4)] by blast
    with gold_failed(6) show ?thesis by simp
  next
    case (stored bid st1 sid st2 analytics metrics gid st3)
    note be = store_bronze_effect [OF stored(1)]
    note se = store_silver_effect [OF stored(2)]
    note ge = store_gold_effect [OF stored(6)]
    obtain row where row: "processed_data st2 = processed_data st1 @ [row]"
      "processed_id row = sid"
      using se(4) by blast
    from stored(3) show ?thesis
      by (auto simp: gold_for_all_valid_def valid_silver_ids_def stored(7) be se(1) ge row qr_def)
  qed
  from both show "length (gold_ids (snd (process_item env source item (p, r)))) =
           length (gold_ids r) + (if is_valid qr then 1 else 0)" by simp
  from both show "gold_for_all_valid (storage p) \<Longrightarrow>
           gold_for_all_valid (storage (fst (process_item env source item (p, r))))" by simp
qed

lemma process_items_Cons:
  "process_items env source (item # data_items) pr =
     process_items env source data_items (process_item env source item pr)"
  by (simp add: process_items_def)

lemma process_items_Nil: "process_items env source [] pr = pr"
  by (simp add: process_items_def)

lemma process_items_gold_only_for_valid:
  "gold_only_for_valid (storage (fst pr)) \<Longrightarrow>
   gold_only_for_valid (storage (fst (process_items env source data_items pr)))"
proof (induction data_items arbitrary: pr)
  case Nil
  then show ?case by (simp add: process_items_Nil)
next
  case (Cons item data_items)
  have "gold_only_for_valid (storage (fst (process_item env source item pr)))"
    using process_item_gold_only_for_valid [of "fst pr" env source item "snd pr"] Cons.prems
    by simp
  then show ?case
    unfolding process_items_Cons by (rule Cons.IH)
qed

lemma process_items_gold_within_valid:
  "gold_within_valid (snd pr) \<Longrightarrow>
   gold_within_valid (snd (process_items env source data_items pr))"
proof (induction data_items arbitrary: pr)
  case Nil
  then show ?case by (simp add: process_items_Nil)
next
  case (Cons item data_items)
  have "gold_within_valid (snd (process_item env source item pr))"
    using process_item_gold_within_valid [of "snd pr" env source item "fst pr"] Cons.prems
    by simp
  then show ?case
    unfolding process_items_Cons by (rule Cons.IH)
qed

lemma process_items_bronze_calls:
  "bronze_call_items (calls (storage (fst (process_items env source data_items pr)))) =
     bronze_call_items (calls (storage (fst pr))) @ data_items"
proof (induction data_items arbitrary: pr)
  case Nil
  then show ?case by (simp add: process_items_Nil)
next
  case (Cons item data_items)
  show ?case
    unfolding process_items_Cons Cons.IH
    using process_item_bronze_calls [of env source item "fst pr" "snd pr"] by simp
qed

lemma process_items_db_fault:
  "db_fault (storage (fst (process_items env source data_items pr))) = db_fault (storage (fst pr))"
proof (induction data_items arbitrary: pr)
  case Nil
  then show ?case by (simp add: process_items_Nil)
next
  case (Cons item data_items)
  show ?case
    unfolding process_items_Cons Cons.IH
    using process_item_db_fault [of env source item "fst pr" "snd pr"] by simp
qed

lemma process_items_no_raise:
  assumes "db_fault (storage (fst pr)) = (\<lambda>n. None)"
    and "\<forall>item \<in> set data_items.
           is_valid (pipeline_validate_data env source item) \<longrightarrow> analytics_derivable env source item"
  shows "length (gold_ids (snd (process_items env source data_items pr))) =
           length (gold_ids (snd pr)) + count_valid env source data_items \<and>
         (gold_for_all_valid (storage (fst pr)) \<longrightarrow>
           gold_for_all_valid (storage (fst (process_items env source data_items pr))))"
  using assms
proof (induction data_items arbitrary: pr)
  case Nil
  show ?case by (simp add: process_items_Nil count_valid_def)
next
  case (Cons item data_items)
  let ?pr1 = "process_item env source item pr"
  have d: "is_valid (pipeline_validate_data env source item) \<longrightarrow> analytics_derivable env source item"
    and rest: "\<forall>item \<in> set data_items.
           is_valid (pipeline_validate_data env source item) \<longrightarrow> analytics_derivable env source item"
    using Cons.prems(2) by simp_all
  have nf: "db_fault (storage (fst ?pr1)) = (\<lambda>n. None)"
    using process_item_db_fault [of env source item "fst pr" "snd pr"] Cons.prems(1) by simp
  have len: "length (gold_ids (snd ?pr1)) = length (gold_ids (snd pr))
      + (if is_valid (pipeline_validate_data env source item) then 1 else 0)"
    using process_item_no_raise(1) [of "fst pr" env source item "snd pr"] Cons.prems(1) d by simp
  have inv: "gold_for_all_valid (storage (fst pr)) \<longrightarrow> gold_for_all_valid (storage (fst ?pr1))"
    using process_item_no_raise(2) [of "fst pr" env source item "snd pr"] Cons.prems(1) d by simp
  from Cons.IH [OF nf rest] len inv show ?case
    unfolding process_items_Cons by (simp add: count_valid_def)
qed

lemma map_of_dict_set: "map_of (dict_set k v d) = (map_of d)(k \<mapsto> v)"
  by (induction d) (auto simp: fun_eq_iff)

lemma map_of_layer_summary:
  "map_of (layer_summary layer) source = map_option length (map_of layer source)"
  by (induction layer) (auto simp: layer_summary_def)

lemma valid_records_summary:
  "gold_within_valid r \<Longrightarrow>
   length (gold_ids r) \<le> valid_records_of (Some (get_quality_summary (quality_results r)))"
  by (auto simp: gold_within_valid_def valid_records_of_def get_quality_summary_def Let_def)

text \<open>The effect of one source on the pipeline and its results.\<close>

lemma process_source_unfold:
  "process_source env (source, data_items) (p, pr) =
     (if data_items = [] then (p, pr)
      else
        let (p', r) = process_items env source data_items (p, empty_results)
        in (p', pr \<lparr> bronze_layer := dict_set source (bronze_ids r) (bronze_layer pr),
                     silver_layer := dict_set source (silver_ids r) (silver_layer pr),
                     gold_layer := dict_set source (gold_ids r) (gold_layer pr),
                     quality_metrics := dict_set source (get_quality_summary (quality_results r))
                                          (quality_metrics pr) \<rparr>))"
  by (simp add: process_source_def process_source_data_def empty_results_def split: prod.splits)

lemma process_source_errors:
  "errors (snd (process_source env entry ppr)) = errors (snd ppr)"
  by (cases entry; cases ppr) (simp add: process_source_unfold split: prod.splits)

lemma process_source_storage:
  "fst (process_source env (source, data_items) (p, pr)) =
     fst (process_items env source data_items (p, empty_results))"
  by (cases "data_items = []")
    (simp_all add: process_source_unfold process_items_Nil split: prod.splits)

lemma process_source_gold_counts_bounded:
  assumes "gold_counts_bounded (snd ppr)"
  shows "gold_counts_bounded (snd (process_source env entry ppr))"
proof -
  obtain source data_items where entry: "entry = (source, data_items)" by (cases entry)
  obtain p pr where ppr: "ppr = (p, pr)" by (cases ppr)
  show ?thesis
  proof (cases "data_items = []")
    case True
    with assms show ?thesis by (simp add: entry ppr process_source_unfold)
  next
    case False
    obtain p' r where run: "process_items env source data_items (p, empty_results) = (p', r)"
      by (cases "process_items env source data_items (p, empty_results)")
    have "gold_within_valid (snd (process_items env source data_items (p, empty_results)))"
      by (rule process_items_gold_within_valid) (simp add: gold_within_valid_def empty_results_def)
    then have "length (gold_ids r) \<le> valid_records_of (Some (get_quality_summary (quality_results r)))"
      using run valid_records_summary by simp
    with assms False show ?thesis
      by (simp add: entry ppr process_source_unfold run gold_counts_bounded_def map_of_dict_set)
  qed
qed

lemma process_source_gold_summary_no_raise:
  assumes "db_fault (storage p) = (\<lambda>n. None)"
    and "\<forall>item \<in> set data_items.
           is_valid (pipeline_validate_data env source item) \<longrightarrow> analytics_derivable env source item"
  shows "map_of (layer_summary (gold_layer (snd (process_source env (source, data_items) (p, pr))))) =
     (if data_items = [] then map_of (layer_summary (gold_layer pr))
      else (map_of (layer_summary (gold_layer pr)))(source \<mapsto> count_valid env source data_items))"
proof (cases "data_items = []")
  case True
  then show ?thesis by (simp add: process_source_unfold)
next
  case False
  obtain p' r where run: "process_items env source data_items (p, empty_results) = (p', r)"
    by (cases "process_items env source data_items (p, empty_results)")
  have "length (gold_ids r) = count_valid env source data_items"
    using process_items_no_raise [of "(p, empty_results)" data_items env source] assms run
    by (simp add: empty_results_def)
  with False show ?thesis
    by (simp add: process_source_unfold run fun_eq_iff map_of_layer_summary map_of_dict_set)
qed

lemma item_failed_counters [simp]:
  "total_processed (item_failed source e p) = total_processed p"
  "successful_stores (item_failed source e p) = successful_stores p"
  "failed_stores (item_failed source e p) = failed_stores p"
  by (simp_all add: item_failed_def)

lemma process_item_accounted:
  "length (error_log (fst (process_item env source item (p, r))))
     + total_processed (fst (process_item env source item (p, r))) =
   length (error_log p) + total_processed p + 1"
  by (cases rule: process_item_cases [of p item source env r]) simp_all

lemma process_items_accounted:
  "length (error_log (fst (process_items env source data_items pr)))
     + total_processed (fst (process_items env source data_items pr)) =
   length (error_log (fst pr)) + total_processed (fst pr) + length data_items"
proof (induction data_items arbitrary: pr)
  case Nil
  then show ?case by (simp add: process_items_Nil)
next
  case (Cons item data_items)
  show ?case
    unfolding process_items_Cons Cons.IH
    using process_item_accounted [of env source item "fst pr" "snd pr"] by simp
qed

text \<open>The loop over the sources.\<close>

lemma sources_errors:
  "errors (snd (foldl (\<lambda>ppr entry. process_source env entry ppr) ppr collected)) = errors (snd ppr)"
  by (induction collected arbitrary: ppr) (simp_all add: process_source_errors)

lemma sources_gold_counts_bounded:
  "gold_counts_bounded (snd ppr) \<Longrightarrow>
   gold_counts_bounded (snd (foldl (\<lambda>ppr entry. process_source env entry ppr) ppr collected))"
  by (induction collected arbitrary: ppr) (simp_all add: process_source_gold_counts_bounded)

lemma process_source_gold_only_for_valid:
  "gold_only_for_valid (storage (fst ppr)) \<Longrightarrow>
   gold_only_for_valid (storage (fst (process_source env entry ppr)))"
  using process_items_gold_only_for_valid [of "(fst ppr, empty_results)" env "fst entry" "snd entry"]
  by (cases entry; cases ppr) (simp add: process_source_storage)

lemma sources_gold_only_for_valid:
  "gold_only_for_valid (storage (fst ppr)) \<Longrightarrow>
   gold_only_for_valid
     (storage (fst (foldl (\<lambda>ppr entry. process_source env entry ppr) ppr collected)))"
  by (induction collected arbitrary: ppr) (simp_all add: process_source_gold_only_for_valid)

lemma process_source_db_fault:
  "db_fault (storage (fst (process_source env entry ppr))) = db_fault (storage (fst ppr))"
  using process_items_db_fault [of env "fst entry" "snd entry" "(fst ppr, empty_results)"]
  by (cases entry; cases ppr) (simp add: process_source_storage)

lemma process_source_bronze_calls:
  "bronze_call_items (calls (storage (fst (process_source env entry ppr)))) =
     bronze_call_items (calls (storage (fst ppr))) @ snd entry"
  using process_items_bronze_calls [of env "fst entry" "snd entry" "(fst ppr, empty_results)"]
  by (cases entry; cases ppr) (simp add: process_source_storage)

lemma sources_bronze_calls:
  "bronze_call_items
     (calls (storage (fst (foldl (\<lambda>ppr entry. process_source env entry ppr) ppr collected)))) =
   bronze_call_items (calls (storage (fst ppr))) @ concat (map snd collected)"
  by (induction collected arbitrary: ppr) (simp_all add: process_source_bronze_calls)

lemma process_source_accounted:
  "length (error_log (fst (process_source env entry ppr)))
     + total_processed (fst (process_source env entry ppr)) =
   length (error_log (fst ppr)) + total_processed (fst ppr) + length (snd entry)"
  using process_items_accounted [of env "fst entry" "snd entry" "(fst ppr, empty_results)"]
  by (cases entry; cases ppr) (simp add: process_source_storage)

lemma sources_accounted:
  "length (error_log (fst (foldl (\<lambda>ppr entry. process_source env entry ppr) ppr collected)))
     + total_processed (fst (foldl (\<lambda>ppr entry. process_source env entry ppr) ppr collected)) =
   length (error_log (fst ppr)) + total_processed (fst ppr) + length (concat (map snd collected))"
proof (induction collected arbitrary: ppr)
  case Nil
  then show ?case by simp
next
  case (Cons entry collected)
  show ?case
    using Cons.IH [of "process_source env entry ppr"] process_source_accounted [of env entry ppr]
    by simp
qed

lemma process_source_gold_for_all_valid:
  assumes "db_fault (storage (fst ppr)) = (\<lambda>n. None)"
    and "\<forall>item \<in> set (snd entry).
           is_valid (pipeline_validate_data env (fst entry) item) \<longrightarrow>
           analytics_derivable env (fst entry) item"
    and "gold_for_all_valid (storage (fst ppr))"
  shows "gold_for_all_valid (storage (fst (process_source env entry ppr)))"
  using process_items_no_raise [of "(fst ppr, empty_results)" "snd entry" env "fst entry"] assms
  by (cases entry; cases ppr) (simp add: process_source_storage)

lemma sources_no_raise:
  assumes "db_fault (storage (fst ppr)) = (\<lambda>n. None)"
    and "\<forall>(source, data_items) \<in> set collected. \<forall>item \<in> set data_items.
           is_valid (pipeline_validate_data env source item) \<longrightarrow> analytics_derivable env source item"
    and "distinct (map fst collected)"
  shows "(gold_for_all_valid (storage (fst ppr)) \<longrightarrow>
          gold_for_all_valid
            (storage (fst (foldl (\<lambda>ppr entry. process_source env entry ppr) ppr collected)))) \<and>
         map_of (layer_summary (gold_layer
            (snd (foldl (\<lambda>ppr entry. process_source env entry ppr) ppr collected)))) source =
           (case map_of collected source of
              Some data_items \<Rightarrow>
                if data_items \<noteq> [] then Some (count_valid env source data_items)
                else map_of (layer_summary (gold_layer (snd ppr))) source
            | None \<Rightarrow> map_of (layer_summary (gold_layer (snd ppr))) source)"
  using assms
proof (induction collected arbitrary: ppr)
  case Nil
  then show ?case by simp
next
  case (Cons entry collected)
  obtain src data_items where entry: "entry = (src, data_items)" by (cases entry)
  obtain p pr where ppr: "ppr = (p, pr)" by (cases ppr)
  let ?ppr1 = "process_source env entry ppr"
  have d: "\<forall>item \<in> set data_items.
           is_valid (pipeline_validate_data env src item) \<longrightarrow> analytics_derivable env src item"
    using Cons.prems(2) by (simp add: entry)
  have rest: "\<forall>(source, data_items) \<in> set collected. \<forall>item \<in> set data_items.
           is_valid (pipeline_validate_data env source item) \<longrightarrow> analytics_derivable env source item"
    using Cons.prems(2) by simp
  have dist: "distinct (map fst collected)" and fresh: "map_of collected src = None"
    using Cons.prems(3) by (simp_all add: entry map_of_eq_None_iff)
  have nf: "db_fault (storage (fst ?ppr1)) = (\<lambda>n. None)"
    using Cons.prems(1) by (simp add: process_source_db_fault)
  have inv: "gold_for_all_valid (storage (fst ppr)) \<longrightarrow> gold_for_all_valid (storage (fst ?ppr1))"
    using process_source_gold_for_all_valid [of ppr entry env] Cons.prems(1) d
    by (simp add: entry)
  have gold1: "map_of (layer_summary (gold_layer (snd ?ppr1))) =
     (if data_items = [] then map_of (layer_summary (gold_layer pr))
      else (map_of (layer_summary (gold_layer pr)))(src \<mapsto> count_valid env src data_items))"
    using process_source_gold_summary_no_raise [of p data_items env src pr] Cons.prems(1) d
    by (simp add: entry ppr)
  note ih = Cons.IH [OF nf rest dist]
  have step: "foldl (\<lambda>ppr entry. process_source env entry ppr) ppr (entry # collected) =
      foldl (\<lambda>ppr entry. process_source env entry ppr) ?ppr1 collected"
    by simp
  show ?case
  proof (cases "source = src")
    case True
    with ih inv gold1 fresh show ?thesis
      unfolding step by (simp add: entry ppr)
  next
    case False
    with ih inv gold1 show ?thesis
      unfolding step by (simp add: entry ppr split: option.splits)
  qed
qed

lemma reddit_post_valid:
  "pipeline_validate_data demo_env ''reddit'' (reddit_post num_comments) =
   \<lparr> is_valid = True,
     quality_score = (if num_comments = PNone then 157 / 160 else 1),
     validation_errors = [], warnings = [], validation_timestamp = 1700000000 \<rparr>"
  by (simp add: pipeline_validate_data_def demo_env_def validate_reddit_data_def quality_result_def
      check_completeness_def check_reddit_data_types_def check_reddit_content_quality_def
      check_timeliness_def age_score_def reddit_required_fields_def reddit_optional_fields_def
      field_present_def type_check_def length_check_def tally_ratio_def py_get_def
      is_str_or_int_def is_nonneg_number_def completeness_threshold_def demo_clock_def
      reddit_post_def Let_def)

lemma get_data_type_reddit: "get_data_type ''reddit'' = ''reddit_post''"
  by (simp add: get_data_type_def)

lemma null_comments_metrics:
  "calculate_metrics demo_env (reddit_post PNone) ''reddit'' =
     Inl (unsupported_operand ''*'' PNone (PInt 2))"
  by (simp add: calculate_metrics_def py_mul_int_def py_get_def reddit_post_def)

lemma reddit_post_analytics:
  "\<not> isl (generate_analytics_data demo_env (reddit_post num_comments) ''reddit'')"
  by (simp add: generate_analytics_data_def extract_engagement_metrics_def analyze_content_def
      py_or_def py_get_def reddit_post_def Let_def)

lemma good_post_derivable: "analytics_derivable demo_env ''reddit'' (reddit_post (PInt 3))"
  by (simp add: analytics_derivable_def reddit_post_analytics)
    (simp add: calculate_metrics_def py_mul_int_def py_add_def py_gt_int_def py_get_def
      reddit_post_def demo_env_def)

lemma null_comments_run:
  assumes "process_items demo_env ''reddit'' [reddit_post PNone]
             (demo_pipeline fresh_storage, empty_results) = (p', r)"
  shows "gold_ids r = []" and "map is_valid (quality_results r) = [True]"
    and "gold_call_ids (calls (storage p')) = []"
    and "map validation_status (processed_data (storage p')) = [''valid'']"
proof -
  obtain a where a: "generate_analytics_data demo_env (reddit_post PNone) ''reddit'' = Inr a"
    using reddit_post_analytics [of PNone]
    by (cases "generate_analytics_data demo_env (reddit_post PNone) ''reddit''") auto
  have "process_item demo_env ''reddit'' (reddit_post PNone)
          (demo_pipeline fresh_storage, empty_results) = (p', r)"
    using assms by (simp add: process_items_def)
  then have "gold_ids r = [] \<and> map is_valid (quality_results r) = [True]
       \<and> gold_call_ids (calls (storage p')) = []
       \<and> map validation_status (processed_data (storage p')) = [''valid'']"
    by (auto simp: process_item_def get_data_type_reddit reddit_post_valid null_comments_metrics a
        store_bronze_data_def store_silver_data_def demo_pipeline_def fresh_storage_def
        empty_results_def Let_def)
  then show "gold_ids r = []" and "map is_valid (quality_results r) = [True]"
    and "gold_call_ids (calls (storage p')) = []"
    and "map validation_status (processed_data (storage p')) = [''valid'']"
    by simp_all
qed

lemma summarize_collected_unfold:
  "summarize_collected env collected p duration now =
     generate_pipeline_summary
       (fst (foldl (\<lambda>ppr entry. process_source env entry ppr) (p, empty_pipeline_results) collected))
       (snd (foldl (\<lambda>ppr entry. process_source env entry ppr) (p, empty_pipeline_results) collected))
       duration now"
  by (simp add: summarize_collected_def process_and_store_data_def empty_pipeline_results_def
      split: prod.splits)

lemma generate_pipeline_summary_fields:
  "gold_layer_summary (fst (generate_pipeline_summary p pr duration now)) = layer_summary (gold_layer pr)"
  "quality_metrics_by_source (fst (generate_pipeline_summary p pr duration now)) = quality_metrics pr"
  "summary_errors (fst (generate_pipeline_summary p pr duration now)) = errors pr"
  "pipeline_status (fst (generate_pipeline_summary p pr duration now)) = ''completed''"
  "storage (snd (generate_pipeline_summary p pr duration now)) = storage p"
  "error_log (snd (generate_pipeline_summary p pr duration now)) = error_log p"
  "total_processed (snd (generate_pipeline_summary p pr duration now)) = total_processed p"
  by (simp_all add: generate_pipeline_summary_def Let_def)

lemma empty_pipeline_results_simps:
  "gold_counts_bounded empty_pipeline_results"
  "errors empty_pipeline_results = []"
  "map_of (layer_summary (gold_layer empty_pipeline_results)) source = None"
  by (simp_all add: gold_counts_bounded_def empty_pipeline_results_def layer_summary_def)

lemma fresh_storage_simps:
  "gold_only_for_valid fresh_storage" "gold_for_all_valid fresh_storage"
  "db_fault fresh_storage = (\<lambda>n. None)"
  by (simp_all add: gold_only_for_valid_def gold_for_all_valid_def valid_silver_ids_def
      fresh_storage_def)

lemma demo_pipeline_simps:
  "storage (demo_pipeline st) = st" "error_log (demo_pipeline st) = []"
  "total_processed (demo_pipeline st) = 0" "orchestrator (demo_pipeline st) = two_source_orchestrator"
  by (simp_all add: demo_pipeline_def)

lemma run_collection_pipeline_completes:
  assumes "run_results (collect_data_for (orchestrator p) now collection_type limit) = Inr collected"
  shows "\<exists>summary. fst (run_collection_pipeline env p now collection_type limit) = Inr summary \<and>
           summary_errors summary = [] \<and> pipeline_status summary = ''completed''"
proof -
  let ?run = "collect_data_for (orchestrator p) now collection_type limit"
  let ?p1 = "p \<lparr> orchestrator := run_orchestrator ?run \<rparr>"
  let ?s = "summarize_collected env collected ?p1 (run_finished ?run - now) (run_finished ?run)"
  have "fst (run_collection_pipeline env p now collection_type limit) = Inr (fst ?s)"
    using assms by (simp add: run_collection_pipeline_def Let_def split: prod.splits)
  moreover have "summary_errors (fst ?s) = []"
    unfolding summarize_collected_unfold generate_pipeline_summary_fields
    by (simp add: sources_errors empty_pipeline_results_simps)
  moreover have "pipeline_status (fst ?s) = ''completed''"
    unfolding summarize_collected_unfold generate_pipeline_summary_fields by simp
  ultimately show ?thesis by blast
qed

lemma outage_bronze:
  "fst (store_bronze_data (outage_storage k) item source data_type) =
     (if k = 0 then Inl (Exn ''OperationalError'' ''connection lost'') else Inr 1)"
  by (simp add: store_bronze_data_def outage_storage_def fresh_storage_def Let_def)

lemma outage_silver:
  "fst (store_silver_data (snd (store_bronze_data (outage_storage k) item source data_type))
      bronze_id processed status score) =
     (if k = 1 then Inl (Exn ''OperationalError'' ''connection lost'') else Inr 1)"
  by (simp add: store_bronze_data_def store_silver_data_def outage_storage_def fresh_storage_def
      Let_def)

lemma outage_gold:
  "fst (store_gold_data
          (snd (store_silver_data (snd (store_bronze_data (outage_storage 2) item source data_type))
                  bronze_id processed status score))
          silver_id analytics aggregation_type metrics) =
     Inl (Exn ''OperationalError'' ''connection lost'')"
  by (simp add: store_bronze_data_def store_silver_data_def store_gold_data_def outage_storage_def
      fresh_storage_def Let_def)

subsection \<open>The Gold tier\<close>

text \<open>
  Claim C1, as the code has it.  Over a whole run (processing and storing the collected
  data and generating the summary): \<^verbatim>\<open>store_gold_data\<close> is called only with ids of
  Silver rows that were stored with the status \<^verbatim>\<open>'valid'\<close>, and in the summary the
  Gold count of every source is at most the number of its records judged valid.  The
  converse needs that nothing raises: when the store never fails, the sources are
  distinct and the analytics and metrics of every valid item can be derived,
  \<^verbatim>\<open>store_gold_data\<close> is called for every Silver row stored as valid, and the Gold
  count of every source with items equals the number of its valid items.
\<close>

theorem gold_tier_only_for_valid_items:
  "(gold_only_for_valid (storage p) \<longrightarrow>
      gold_only_for_valid (storage (snd (summarize_collected env collected p duration now)))) \<and>
   (\<forall>source n.
      map_of (gold_layer_summary (fst (summarize_collected env collected p duration now))) source = Some n
      \<longrightarrow> n \<le> valid_records_of
             (map_of (quality_metrics_by_source
                        (fst (summarize_collected env collected p duration now))) source)) \<and>
   (db_fault (storage p) = (\<lambda>n. None) \<and> distinct (map fst collected) \<and>
    (\<forall>(source, data_items) \<in> set collected. \<forall>item \<in> set data_items.
        is_valid (pipeline_validate_data env source item) \<longrightarrow> analytics_derivable env source item)
    \<longrightarrow>
      (gold_for_all_valid (storage p) \<longrightarrow>
         gold_for_all_valid (storage (snd (summarize_collected env collected p duration now)))) \<and>
      (\<forall>(source, data_items) \<in> set collected. data_items \<noteq> [] \<longrightarrow>
         map_of (gold_layer_summary (fst (summarize_collected env collected p duration now))) source
           = Some (count_valid env source data_items)))"
proof (intro conjI impI allI)
  let ?run = "foldl (\<lambda>ppr entry. process_source env entry ppr) (p, empty_pipeline_results) collected"
  note unfold = summarize_collected_unfold generate_pipeline_summary_fields
  show "gold_only_for_valid (storage (snd (summarize_collected env collected p duration now)))"
    if "gold_only_for_valid (storage p)"
    unfolding unfold using that
    by (intro sources_gold_only_for_valid) simp
  show "n \<le> valid_records_of
             (map_of (quality_metrics_by_source
                        (fst (summarize_collected env collected p duration now))) source)"
    if "map_of (gold_layer_summary (fst (summarize_collected env collected p duration now))) source = Some n"
    for source n
  proof -
    have "gold_counts_bounded (snd ?run)"
      by (intro sources_gold_counts_bounded) (simp add: empty_pipeline_results_simps)
    moreover have "map_option length (map_of (gold_layer (snd ?run)) source) = Some n"
      using that by (simp add: unfold map_of_layer_summary)
    then obtain ids where "map_of (gold_layer (snd ?run)) source = Some ids" "n = length ids"
      by (cases "map_of (gold_layer (snd ?run)) source") auto
    ultimately show ?thesis
      by (simp add: unfold gold_counts_bounded_def)
  qed
  assume h: "db_fault (storage p) = (\<lambda>n. None) \<and> distinct (map fst collected) \<and>
    (\<forall>(source, data_items) \<in> set collected. \<forall>item \<in> set data_items.
        is_valid (pipeline_validate_data env source item) \<longrightarrow> analytics_derivable env source item)"
  note nr = sources_no_raise [of "(p, empty_pipeline_results)" collected env, simplified,
      OF h [THEN conjunct1] h [THEN conjunct2, THEN conjunct2] h [THEN conjunct2, THEN conjunct1]]
  show "gold_for_all_valid (storage (snd (summarize_collected env collected p duration now)))"
    if "gold_for_all_valid (storage p)"
    unfolding unfold using nr that by blast
  show "\<forall>(source, data_items) \<in> set collected. data_items \<noteq> [] \<longrightarrow>
         map_of (gold_layer_summary (fst (summarize_collected env collected p duration now))) source
           = Some (count_valid env source data_items)"
  proof (intro ballI, clarify)
    fix source data_items
    assume mem: "(source, data_items) \<in> set collected" and ne: "data_items \<noteq> []"
    have "map_of collected source = Some data_items"
      using h mem by (intro map_of_is_SomeI) simp_all
    with nr [of source] ne show "map_of (gold_layer_summary
        (fst (summarize_collected env collected p duration now))) source
           = Some (count_valid env source data_items)"
      unfolding unfold by (simp add: empty_pipeline_results_simps)
  qed
qed

text \<open>
  An instance: one valid Reddit post with 3 comments on an empty store that never fails.
\<close>

theorem gold_tier_only_for_valid_items_witness:
  "map_of (gold_layer_summary
      (fst (summarize_collected demo_env [(''reddit'', [reddit_post (PInt 3)])]
              (demo_pipeline fresh_storage) 0 0))) ''reddit'' = Some 1 \<and>
   1 \<le> valid_records_of (map_of (quality_metrics_by_source
      (fst (summarize_collected demo_env [(''reddit'', [reddit_post (PInt 3)])]
              (demo_pipeline fresh_storage) 0 0))) ''reddit'') \<and>
   gold_only_for_valid (storage (snd (summarize_collected demo_env
      [(''reddit'', [reddit_post (PInt 3)])] (demo_pipeline fresh_storage) 0 0))) \<and>
   gold_for_all_valid (storage (snd (summarize_collected demo_env
      [(''reddit'', [reddit_post (PInt 3)])] (demo_pipeline fresh_storage) 0 0)))"
proof -
  let ?collected = "[(''reddit'', [reddit_post (PInt 3)])]"
  let ?p = "demo_pipeline fresh_storage"
  let ?s = "summarize_collected demo_env ?collected ?p 0 0"
  note t = gold_tier_only_for_valid_items [of ?p demo_env ?collected 0 0]
  have h1: "gold_only_for_valid (storage ?p)" and h2: "gold_for_all_valid (storage ?p)"
    by (simp_all add: demo_pipeline_simps fresh_storage_simps)
  have h3: "db_fault (storage ?p) = (\<lambda>n. None) \<and> distinct (map fst ?collected) \<and>
    (\<forall>(source, data_items) \<in> set ?collected. \<forall>item \<in> set data_items.
        is_valid (pipeline_validate_data demo_env source item) \<longrightarrow>
        analytics_derivable demo_env source item)"
    by (simp add: demo_pipeline_simps fresh_storage_simps good_post_derivable)
  have cv: "count_valid demo_env ''reddit'' [reddit_post (PInt 3)] = 1"
    by (simp add: count_valid_def reddit_post_valid)
  from t h1 have c1: "gold_only_for_valid (storage (snd ?s))" by blast
  from t h3 h2 have c2: "gold_for_all_valid (storage (snd ?s))" by blast
  from t h3 have "\<forall>(source, data_items) \<in> set ?collected. data_items \<noteq> [] \<longrightarrow>
         map_of (gold_layer_summary (fst ?s)) source = Some (count_valid demo_env source data_items)"
    by blast
  then have c3: "map_of (gold_layer_summary (fst ?s)) ''reddit'' = Some 1"
    by (simp add: cv)
  from t c3 have c4: "1 \<le> valid_records_of (map_of (quality_metrics_by_source (fst ?s)) ''reddit'')"
    by blast
  from c1 c2 c3 c4 show ?thesis by blast
qed

text \<open>
  Claim C1 as stated fails: a Reddit post whose \<^verbatim>\<open>num_comments\<close> is \<^verbatim>\<open>None\<close> is
  judged valid and its Silver row is stored as \<^verbatim>\<open>'valid'\<close>, but
  \<^verbatim>\<open>_calculate_metrics\<close> raises a \<^verbatim>\<open>TypeError\<close> on \<^verbatim>\<open>None * 2\<close>, so
  \<^verbatim>\<open>store_gold_data\<close> is never called: the Gold count of the source is 0 while one
  record is valid.
\<close>

theorem valid_item_without_gold_counterexample:
  "is_valid (pipeline_validate_data demo_env ''reddit'' (reddit_post PNone)) \<and>
   map validation_status (processed_data (storage (snd (summarize_collected demo_env
      [(''reddit'', [reddit_post PNone])] (demo_pipeline fresh_storage) 0 0)))) = [''valid''] \<and>
   gold_call_ids (calls (storage (snd (summarize_collected demo_env
      [(''reddit'', [reddit_post PNone])] (demo_pipeline fresh_storage) 0 0)))) = [] \<and>
   gold_layer_summary (fst (summarize_collected demo_env
      [(''reddit'', [reddit_post PNone])] (demo_pipeline fresh_storage) 0 0)) = [(''reddit'', 0)] \<and>
   valid_records_of (map_of (quality_metrics_by_source (fst (summarize_collected demo_env
      [(''reddit'', [reddit_post PNone])] (demo_pipeline fresh_storage) 0 0))) ''reddit'') = 1"
proof -
  obtain p' r where run: "process_items demo_env ''reddit'' [reddit_post PNone]
             (demo_pipeline fresh_storage, empty_results) = (p', r)"
    by (cases "process_items demo_env ''reddit'' [reddit_post PNone]
             (demo_pipeline fresh_storage, empty_results)")
  note f = null_comments_run [OF run]
  from f(2) obtain q where q: "quality_results r = [q]" "is_valid q"
    by (cases "quality_results r") auto
  have s: "foldl (\<lambda>ppr entry. process_source demo_env entry ppr)
      (demo_pipeline fresh_storage, empty_pipeline_results) [(''reddit'', [reddit_post PNone])] =
    (p', empty_pipeline_results
           \<lparr> bronze_layer := [(''reddit'', bronze_ids r)],
             silver_layer := [(''reddit'', silver_ids r)],
             gold_layer := [(''reddit'', gold_ids r)],
             quality_metrics := [(''reddit'', get_quality_summary (quality_results r))] \<rparr>)"
    by (simp add: process_source_unfold run empty_pipeline_results_def)
  show ?thesis
    unfolding summarize_collected_unfold generate_pipeline_summary_fields s
    by (simp add: f q reddit_post_valid layer_summary_def valid_records_of_def
        get_quality_summary_def Let_def)
qed

subsection \<open>Failures while storing an item\<close>

text \<open>
  Claim C5, as the code has it.  When the Bronze, the Silver or the Gold store of an
  item raises, the item loop catches the exception: the item ends as a failed item,
  which appends the line \<^verbatim>\<open>Failed to process item from <source>: <message>\<close> to the
  log and nothing else, and the loop goes on.  Over a whole run the error list of the
  summary stays empty and the status is \<^verbatim>\<open>'completed'\<close>, whatever the store does;
  every collected item is passed to \<^verbatim>\<open>store_bronze_data\<close>, in order, and every item
  is either counted as processed or logged as failed.  A run whose collection returns
  produces a summary.
\<close>

theorem item_failures_logged_and_skipped:
  "(fst (store_bronze_data (storage p) item source (get_data_type source)) = Inl e \<longrightarrow>
      process_item env source item (p, r) =
        (item_failed source e
           (p \<lparr> storage := snd (store_bronze_data (storage p) item source (get_data_type source)) \<rparr>),
         r)) \<and>
   (store_bronze_data (storage p) item source (get_data_type source) = (Inr bid, st1) \<and>
    fst (store_silver_data st1 bid item
           (if is_valid (pipeline_validate_data env source item) then ''valid'' else ''invalid'')
           (quality_score (pipeline_validate_data env source item))) = Inl e \<longrightarrow>
      fst (process_item env source item (p, r)) =
        item_failed source e
          (p \<lparr> storage := snd (store_silver_data st1 bid item
             (if is_valid (pipeline_validate_data env source item) then ''valid'' else ''invalid'')
             (quality_score (pipeline_validate_data env source item))) \<rparr>)) \<and>
   (store_bronze_data (storage p) item source (get_data_type source) = (Inr bid, st1) \<and>
    store_silver_data st1 bid item ''valid''
      (quality_score (pipeline_validate_data env source item)) = (Inr sid, st2) \<and>
    is_valid (pipeline_validate_data env source item) \<and>
    generate_analytics_data env item source = Inr analytics \<and>
    calculate_metrics env item source = Inr metrics \<and>
    fst (store_gold_data st2 sid analytics ''individual'' metrics) = Inl e \<longrightarrow>
      fst (process_item env source item (p, r)) =
        item_failed source e
          (p \<lparr> storage := snd (store_gold_data st2 sid analytics ''individual'' metrics) \<rparr>)) \<and>
   error_log (item_failed source e p) =
     error_log p @ [''Failed to process item from '' @ source @ '': '' @ exn_msg e] \<and>
   summary_errors (fst (summarize_collected env collected p duration now)) = [] \<and>
   pipeline_status (fst (summarize_collected env collected p duration now)) = ''completed'' \<and>
   bronze_call_items (calls (storage (snd (summarize_collected env collected p duration now)))) =
     bronze_call_items (calls (storage p)) @ concat (map snd collected) \<and>
   length (error_log (snd (summarize_collected env collected p duration now)))
     + total_processed (snd (summarize_collected env collected p duration now)) =
     length (error_log p) + total_processed p + length (concat (map snd collected)) \<and>
   (run_results (collect_data_for (orchestrator p) now collection_type limit) = Inr collected \<longrightarrow>
      (\<exists>summary. fst (run_collection_pipeline env p now collection_type limit) = Inr summary \<and>
         summary_errors summary = [] \<and> pipeline_status summary = ''completed''))"
proof (intro conjI impI)
  note unfold = summarize_collected_unfold generate_pipeline_summary_fields
  show "process_item env source item (p, r) =
        (item_failed source e
           (p \<lparr> storage := snd (store_bronze_data (storage p) item source (get_data_type source)) \<rparr>),
         r)"
    if "fst (store_bronze_data (storage p) item source (get_data_type source)) = Inl e"
    using that
    by (cases "store_bronze_data (storage p) item source (get_data_type source)")
      (simp add: process_item_def)
  show "fst (process_item env source item (p, r)) =
        item_failed source e
          (p \<lparr> storage := snd (store_silver_data st1 bid item
             (if is_valid (pipeline_validate_data env source item) then ''valid'' else ''invalid'')
             (quality_score (pipeline_validate_data env source item))) \<rparr>)"
    if "store_bronze_data (storage p) item source (get_data_type source) = (Inr bid, st1) \<and>
        fst (store_silver_data st1 bid item
           (if is_valid (pipeline_validate_data env source item) then ''valid'' else ''invalid'')
           (quality_score (pipeline_validate_data env source item))) = Inl e"
    using that
    by (cases "store_silver_data st1 bid item
           (if is_valid (pipeline_validate_data env source item) then ''valid'' else ''invalid'')
           (quality_score (pipeline_validate_data env source item))")
      (simp add: process_item_def Let_def)
  show "fst (process_item env source item (p, r)) =
        item_failed source e
          (p \<lparr> storage := snd (store_gold_data st2 sid analytics ''individual'' metrics) \<rparr>)"
    if "store_bronze_data (storage p) item source (get_data_type source) = (Inr bid, st1) \<and>
        store_silver_data st1 bid item ''valid''
          (quality_score (pipeline_validate_data env source item)) = (Inr sid, st2) \<and>
        is_valid (pipeline_validate_data env source item) \<and>
        generate_analytics_data env item source = Inr analytics \<and>
        calculate_metrics env item source = Inr metrics \<and>
        fst (store_gold_data st2 sid analytics ''individual'' metrics) = Inl e"
    using that
    by (cases "store_gold_data st2 sid analytics ''individual'' metrics")
      (simp add: process_item_def Let_def)
  show "error_log (item_failed source e p) =
     error_log p @ [''Failed to process item from '' @ source @ '': '' @ exn_msg e]"
    by simp
  show "summary_errors (fst (summarize_collected env collected p duration now)) = []"
    unfolding unfold by (simp add: sources_errors empty_pipeline_results_simps)
  show "pipeline_status (fst (summarize_collected env collected p duration now)) = ''completed''"
    unfolding unfold by simp
  show "bronze_call_items (calls (storage (snd (summarize_collected env collected p duration now)))) =
     bronze_call_items (calls (storage p)) @ concat (map snd collected)"
    unfolding unfold by (simp add: sources_bronze_calls)
  show "length (error_log (snd (summarize_collected env collected p duration now)))
     + total_processed (snd (summarize_collected env collected p duration now)) =
     length (error_log p) + total_processed p + length (concat (map snd collected))"
    unfolding unfold using sources_accounted [of env "(p, empty_pipeline_results)" collected] by simp
  show "\<exists>summary. fst (run_collection_pipeline env p now collection_type limit) = Inr summary \<and>
         summary_errors summary = [] \<and> pipeline_status summary = ''completed''"
    if "run_results (collect_data_for (orchestrator p) now collection_type limit) = Inr collected"
    using that by (rule run_collection_pipeline_completes)
qed

text \<open>
  Instances: a valid Reddit post on stores whose first, second and third call raises
  (the Bronze, the Silver and the Gold store of the item), and a technology run of the
  two-source orchestrator.
\<close>

theorem item_failures_logged_and_skipped_witness:
  "error_log (fst (process_item demo_env ''reddit'' (reddit_post (PInt 3))
                     (demo_pipeline (outage_storage 0), empty_results))) =
     [''Failed to process item from reddit: connection lost''] \<and>
   error_log (fst (process_item demo_env ''reddit'' (reddit_post (PInt 3))
                     (demo_pipeline (outage_storage 1), empty_results))) =
     [''Failed to process item from reddit: connection lost''] \<and>
   error_log (fst (process_item demo_env ''reddit'' (reddit_post (PInt 3))
                     (demo_pipeline (outage_storage 2), empty_results))) =
     [''Failed to process item from reddit: connection lost''] \<and>
   run_results (collect_data_for (orchestrator (demo_pipeline (outage_storage 0))) 0 ''technology'' 100) =
     Inr [(''reddit'', [[(''subreddit'', PStr ''technology''), (''limit'', PInt 33)]]),
          (''news'', [[(''query'', PStr ''artificial intelligence technology''), (''limit'', PInt 33)]])] \<and>
   (\<exists>summary. fst (run_collection_pipeline demo_env (demo_pipeline (outage_storage 0)) 0
                      ''technology'' 100) = Inr summary \<and>
      summary_errors summary = [] \<and> pipeline_status summary = ''completed'')"
proof -
  let ?post = "reddit_post (PInt 3)"
  let ?e = "Exn ''OperationalError'' ''connection lost''"
  let ?qr = "pipeline_validate_data demo_env ''reddit'' ?post"
  let ?line = "[''Failed to process item from reddit: connection lost'']"
  have valid: "is_valid ?qr"
    by (simp add: reddit_post_valid)
  obtain a m where a: "generate_analytics_data demo_env ?post ''reddit'' = Inr a"
    and m: "calculate_metrics demo_env ?post ''reddit'' = Inr m"
    using good_post_derivable
    by (cases "generate_analytics_data demo_env ?post ''reddit''";
        cases "calculate_metrics demo_env ?post ''reddit''")
      (auto simp: analytics_derivable_def)
  let ?collected = "[(''reddit'', [[(''subreddit'', PStr ''technology''), (''limit'', PInt 33)]]),
          (''news'', [[(''query'', PStr ''artificial intelligence technology''), (''limit'', PInt 33)]])]"
  \<comment> \<open>the Bronze store raises\<close>
  let ?p0 = "demo_pipeline (outage_storage 0)"
  note t0 = item_failures_logged_and_skipped
    [of ?p0 ?post "''reddit''" ?e demo_env empty_results _ _ _ _ _ _ ?collected _ 0 "''technology''" 100]
  have run: "run_results (collect_data_for (orchestrator ?p0) 0 ''technology'' 100) = Inr ?collected"
    by (simp add: collect_data_for_def demo_pipeline_simps two_source_technology_run)
  have b0: "fst (store_bronze_data (storage ?p0) ?post ''reddit'' (get_data_type ''reddit'')) = Inl ?e"
    by (simp add: demo_pipeline_simps outage_bronze)
  have "process_item demo_env ''reddit'' ?post (?p0, empty_results) =
        (item_failed ''reddit'' ?e
           (?p0 \<lparr> storage := snd (store_bronze_data (storage ?p0) ?post ''reddit''
                                     (get_data_type ''reddit'')) \<rparr>),
         empty_results)"
    using t0 [THEN conjunct1] b0 by (rule mp)
  then have w1: "error_log (fst (process_item demo_env ''reddit'' ?post (?p0, empty_results))) = ?line"
    by (simp add: demo_pipeline_simps)
  have w4: "\<exists>summary. fst (run_collection_pipeline demo_env ?p0 0 ''technology'' 100)
        = Inr summary \<and> summary_errors summary = [] \<and> pipeline_status summary = ''completed''"
    using t0 [THEN conjunct2, THEN conjunct2, THEN conjunct2, THEN conjunct2, THEN conjunct2,
        THEN conjunct2, THEN conjunct2, THEN conjunct2] run
    by (rule mp)
  \<comment> \<open>the Silver store raises\<close>
  let ?p1 = "demo_pipeline (outage_storage 1)"
  define st1 where "st1 = snd (store_bronze_data (outage_storage 1) ?post ''reddit'' ''reddit_post'')"
  note t1 = item_failures_logged_and_skipped
    [of ?p1 ?post "''reddit''" ?e demo_env empty_results 1 st1, THEN conjunct2, THEN conjunct1]
  have b1: "store_bronze_data (storage ?p1) ?post ''reddit'' (get_data_type ''reddit'') = (Inr 1, st1)"
    by (simp add: prod_eq_iff demo_pipeline_simps get_data_type_reddit outage_bronze st1_def)
  have s1: "fst (store_silver_data st1 1 ?post
           (if is_valid ?qr then ''valid'' else ''invalid'') (quality_score ?qr)) = Inl ?e"
    unfolding st1_def by (simp add: outage_silver)
  have "fst (process_item demo_env ''reddit'' ?post (?p1, empty_results)) =
        item_failed ''reddit'' ?e
          (?p1 \<lparr> storage := snd (store_silver_data st1 1 ?post
             (if is_valid ?qr then ''valid'' else ''invalid'') (quality_score ?qr)) \<rparr>)"
    using t1 conjI [OF b1 s1] by (rule mp)
  then have w2: "error_log (fst (process_item demo_env ''reddit'' ?post (?p1, empty_results))) = ?line"
    by (simp add: demo_pipeline_simps)
  \<comment> \<open>the Gold store raises\<close>
  let ?p2 = "demo_pipeline (outage_storage 2)"
  define st1' where "st1' = snd (store_bronze_data (outage_storage 2) ?post ''reddit'' ''reddit_post'')"
  define st2 where "st2 = snd (store_silver_data st1' 1 ?post ''valid'' (quality_score ?qr))"
  note t2 = item_failures_logged_and_skipped
    [of ?p2 ?post "''reddit''" ?e demo_env empty_results 1 st1' 1 st2 a m,
      THEN conjunct2, THEN conjunct2, THEN conjunct1]
  have b2: "store_bronze_data (storage ?p2) ?post ''reddit'' (get_data_type ''reddit'') = (Inr 1, st1')"
    by (simp add: prod_eq_iff demo_pipeline_simps get_data_type_reddit outage_bronze st1'_def)
  have s2: "store_silver_data st1' 1 ?post ''valid'' (quality_score ?qr) = (Inr 1, st2)"
    unfolding st2_def st1'_def by (simp add: prod_eq_iff outage_silver)
  have g2: "fst (store_gold_data st2 1 a ''individual'' m) = Inl ?e"
    unfolding st2_def st1'_def by (rule outage_gold)
  have "fst (process_item demo_env ''reddit'' ?post (?p2, empty_results)) =
        item_failed ''reddit'' ?e (?p2 \<lparr> storage := snd (store_gold_data st2 1 a ''individual'' m) \<rparr>)"
    using t2 conjI [OF b2 conjI [OF s2 conjI [OF valid conjI [OF a conjI [OF m g2]]]]]
    by (rule mp)
  then have w3: "error_log (fst (process_item demo_env ''reddit'' ?post (?p2, empty_results))) = ?line"
    by (simp add: demo_pipeline_simps)
  from w1 w2 w3 run w4 show ?thesis by (intro conjI)
qed

text \<open>
  Claim C5 as stated fails: the Bronze store of the only item raises, the failure is
  logged, but the error list of the run's summary is empty.
\<close>

theorem item_failure_not_in_error_list_counterexample:
  "fst (store_bronze_data (outage_storage 0) (reddit_post (PInt 3)) ''reddit'' ''reddit_post'') =
     Inl (Exn ''OperationalError'' ''connection lost'') \<and>
   summary_errors (fst (summarize_collected demo_env [(''reddit'', [reddit_post (PInt 3)])]
                          (demo_pipeline (outage_storage 0)) 0 0)) = [] \<and>
   bronze_layer_summary (fst (summarize_collected demo_env [(''reddit'', [reddit_post (PInt 3)])]
                          (demo_pipeline (outage_storage 0)) 0 0)) = [(''reddit'', 0)] \<and>
   error_log (snd (summarize_collected demo_env [(''reddit'', [reddit_post (PInt 3)])]
                          (demo_pipeline (outage_storage 0)) 0 0)) =
     [''Failed to process item from reddit: connection lost'']"
proof -
  let ?post = "reddit_post (PInt 3)"
  let ?e = "Exn ''OperationalError'' ''connection lost''"
  let ?p0 = "demo_pipeline (outage_storage 0)"
  have h: "fst (store_bronze_data (outage_storage 0) ?post ''reddit'' ''reddit_post'') = Inl ?e"
    by (simp add: outage_bronze)
  then obtain st1 where
    b: "store_bronze_data (outage_storage 0) ?post ''reddit'' ''reddit_post'' = (Inl ?e, st1)"
    by (cases "store_bronze_data (outage_storage 0) ?post ''reddit'' ''reddit_post''") simp
  have item: "process_item demo_env ''reddit'' ?post (?p0, empty_results) =
      (item_failed ''reddit'' ?e (?p0 \<lparr> storage := st1 \<rparr>), empty_results)"
    using b by (simp add: process_item_def demo_pipeline_simps get_data_type_reddit)
  have items: "process_items demo_env ''reddit'' [?post] (?p0, empty_results) =
      (item_failed ''reddit'' ?e (?p0 \<lparr> storage := st1 \<rparr>), empty_results)"
    by (simp add: process_items_Cons process_items_Nil item)
  have src: "process_source demo_env (''reddit'', [?post]) (?p0, empty_pipeline_results) =
    (item_failed ''reddit'' ?e (?p0 \<lparr> storage := st1 \<rparr>),
     empty_pipeline_results
           \<lparr> bronze_layer := [(''reddit'', [])],
             silver_layer := [(''reddit'', [])],
             gold_layer := [(''reddit'', [])],
             quality_metrics := [(''reddit'', None)] \<rparr>)"
    unfolding process_source_unfold items
    by (simp add: empty_pipeline_results_def empty_results_def get_quality_summary_def)
  have s: "foldl (\<lambda>ppr entry. process_source demo_env entry ppr)
      (?p0, empty_pipeline_results) [(''reddit'', [?post])] =
    (item_failed ''reddit'' ?e (?p0 \<lparr> storage := st1 \<rparr>),
     empty_pipeline_results
           \<lparr> bronze_layer := [(''reddit'', [])],
             silver_layer := [(''reddit'', [])],
             gold_layer := [(''reddit'', [])],
             quality_metrics := [(''reddit'', None)] \<rparr>)"
    by (simp add: src)
  have "summary_errors (fst (summarize_collected demo_env [(''reddit'', [?post])] ?p0 0 0)) = []"
    unfolding summarize_collected_unfold s
    by (simp add: generate_pipeline_summary_def empty_pipeline_results_def Let_def)
  moreover have "bronze_layer_summary (fst (summarize_collected demo_env [(''reddit'', [?post])] ?p0 0 0))
      = [(''reddit'', 0)]"
    unfolding summarize_collected_unfold s
    by (simp add: generate_pipeline_summary_def layer_summary_def empty_pipeline_results_def Let_def)
  moreover have "error_log (snd (summarize_collected demo_env [(''reddit'', [?post])] ?p0 0 0)) =
     [''Failed to process item from reddit: connection lost'']"
    unfolding summarize_collected_unfold s
    by (simp add: generate_pipeline_summary_fields demo_pipeline_simps)
  ultimately show ?thesis using h by (intro conjI)
qed

end
